theory Spec2Isabelle
  imports Main
begin

section \<open>JavaScript strings and optional values\<close>

text \<open>
  \<open>s.split(c)\<close> for a one-character separator: the list of segments, never empty
  (\<open>"".split("/")\<close> is \<open>[""]\<close>).
\<close>

fun split :: "char \<Rightarrow> string \<Rightarrow> string list" where
  "split c [] = [[]]"
| "split c (x # xs) =
     (if x = c then [] # split c xs
      else (case split c xs of [] \<Rightarrow> [[x]] | y # ys \<Rightarrow> (x # y) # ys))"

text \<open>\<open>s.split('/').pop()\<close>: the last segment.\<close>

definition pop_segment :: "string \<Rightarrow> string" where
  "pop_segment s = last (split (CHR ''/'') s)"

text \<open>\<open>getRefId\<close> of routes/fhir.js: \<open>ref ? ref.split('/').pop() : null\<close>.\<close>

definition getRefId :: "string option \<Rightarrow> string option" where
  "getRefId r = (case r of None \<Rightarrow> None
                 | Some s \<Rightarrow> if s = [] then None else Some (pop_segment s))"

text \<open>Truthiness of an optional string: \<open>undefined\<close>, \<open>null\<close> and \<open>""\<close> are falsy.\<close>

definition truthy :: "string option \<Rightarrow> bool" where
  "truthy v = (case v of None \<Rightarrow> False | Some s \<Rightarrow> s \<noteq> [])"

text \<open>
  \<open>s.startsWith(p)\<close>, \<open>s.includes(c)\<close> and \<open>s.trim()\<close> (on the white space of
  ASCII).
\<close>

definition startsWith :: "string \<Rightarrow> string \<Rightarrow> bool" where
  "startsWith s p = (take (length p) s = p)"

definition includes_char :: "string \<Rightarrow> char \<Rightarrow> bool" where
  "includes_char s c = (c \<in> set s)"

definition is_space :: "char \<Rightarrow> bool" where
  "is_space c = (c \<in> set [CHR '' '', CHR 0x09, CHR 0x0A, CHR 0x0B, CHR 0x0C, CHR 0x0D])"

definition trim :: "string \<Rightarrow> string" where
  "trim s = rev (dropWhile is_space (rev (dropWhile is_space s)))"

definition the_default :: "'a \<Rightarrow> 'a option \<Rightarrow> 'a" where
  "the_default d v = (case v of None \<Rightarrow> d | Some x \<Rightarrow> x)"

text \<open>\<open>xs[i]\<close> on an array: \<open>undefined\<close> out of range.\<close>

definition at_index :: "'a list \<Rightarrow> nat \<Rightarrow> 'a option" where
  "at_index xs i = (if i < length xs then Some (xs ! i) else None)"

section \<open>Resources of the FHIR store (fhir/store.js)\<close>

record coding =
  cd_system :: "string option"
  cd_code :: "string option"

record ident =
  id_system :: "string option"
  id_value :: "string option"

text \<open>
  An actor of \<open>Consent.provision.actor\<close>: \<open>ac_role_coding\<close> is \<open>a.role?.coding\<close>,
  \<open>ac_reference\<close> is \<open>a.reference?.reference\<close>.
\<close>

record actor =
  ac_role_coding :: "coding list option"
  ac_reference :: "string option"

text \<open>
  An extension entry: \<open>url\<close> and \<open>valueReference\<close>, which is absent (\<open>None\<close>)
  or an object whose \<open>reference\<close> member is absent or a string.
\<close>

record extension =
  ex_url :: "string option"
  ex_valueReference :: "string option option"

text \<open>\<open>patient.identifier\<close> of a Consent is an object or an array of objects.\<close>

datatype patient_identifier = Single ident | Many "ident list"

text \<open>
  A Consent. \<open>con_other\<close> holds the members of the JSON object that no handler reads
  (\<open>note\<close>, \<open>dateTime\<close>, ...), as name and value.
\<close>

record consent =
  con_id :: "string option"
  con_status :: "string option"
  con_identifier :: "ident list option"
  con_patient :: "patient_identifier option"
  con_actor :: "actor list option"
  con_extension :: "extension list option"
  con_other :: "(string \<times> string) list"

text \<open>
  A member of a JSON object that a handler tests for truth and compares with a
  string: a string, or a truthy value of another kind (an array, an object). A falsy
  value of another kind counts as an absent member.
\<close>

datatype member_value = Text string | Other_value

text \<open>
  An Organization: \<open>org_type\<close> is the list of the \<open>coding\<close> arrays of \<open>type\<close>,
  \<open>org_partOf\<close> is \<open>partOf?.reference\<close>, \<open>org_endpoint\<close> the \<open>reference\<close> members
  of \<open>endpoint\<close>. Here and below, the members of a resource that none of the
  handlers of this theory reads (contacts, certificate thumbprints, payload types)
  are left out.
\<close>

record organization =
  org_id :: "string option"
  org_active :: "bool option"
  org_name :: "string option"
  org_type :: "coding list option list option"
  org_partOf :: "string option"
  org_endpoint :: "string option list option"
  org_address :: "member_value option"

text \<open>An Endpoint: \<open>ep_managingOrganization\<close> is \<open>managingOrganization?.reference\<close>.\<close>

record endpoint =
  ep_resourceType :: "string option"
  ep_id :: "string option"
  ep_address :: "string option"
  ep_managingOrganization :: "string option"

record tag =
  tg_system :: "string option"
  tg_code :: "string option"
  tg_display :: "string option"

text \<open>
  A HealthcareService object. Its \<open>meta\<close> object and its \<open>extension\<close> array are
  JavaScript objects held by reference: the fields are addresses into the object
  heap of the store. \<open>hs_address\<close> is a member named \<open>address\<close>, which a body may
  carry and introspection would read.
\<close>

record service =
  hs_resourceType :: "string option"
  hs_id :: "string option"
  hs_name :: "string option"
  hs_active :: "bool option"
  hs_providedBy :: "string option"
  hs_identifier :: "ident list option"
  hs_meta :: "nat option"
  hs_extension :: "nat option"
  hs_address :: "member_value option"

datatype obj = Meta_obj "tag list option" | Ext_array "extension list"

text \<open>
  A VerificationResult: \<open>vr_validator\<close> holds the \<open>organization.reference\<close> members of
  \<open>validator\<close>.
\<close>

record verification =
  vr_id :: "string option"
  vr_status :: "string option"
  vr_validator :: "string option list option"
  vr_address :: "member_value option"

text \<open>
  The store: one map per resource type, and the heap of the objects that
  HealthcareService resources share by reference (the address is the index).
\<close>

record fhir_store =
  Organization :: "string \<rightharpoonup> organization"
  Endpoint :: "string \<rightharpoonup> endpoint"
  HealthcareService :: "string \<rightharpoonup> service"
  VerificationResult :: "string \<rightharpoonup> verification"
  Consent :: "string \<rightharpoonup> consent"
  heap :: "obj list"

definition empty_store :: fhir_store where
  "empty_store = \<lparr>Organization = Map.empty, Endpoint = Map.empty,
     HealthcareService = Map.empty, VerificationResult = Map.empty, Consent = Map.empty,
     heap = []\<rparr>"

text \<open>\<open>Map.get(id)\<close> with an \<open>undefined\<close> key finds nothing.\<close>

definition map_get :: "(string \<rightharpoonup> 'a) \<Rightarrow> string option \<Rightarrow> 'a option" where
  "map_get m k = (case k of None \<Rightarrow> None | Some i \<Rightarrow> m i)"

section \<open>Clients and tokens (store.js)\<close>

record client =
  clientId :: string
  name :: string
  scopes :: "string list"
  certPath :: string
  organizationId :: string

definition clients :: "client list" where
  "clients = [
    \<lparr>clientId = ''http://pcm.fhir.health.gov.il/Organization/org-sp'',
     name = ''Doctor Portal'',
     scopes = [''fhir/Consent.write'', ''fhir/Patient.read'', ''fhir/Observation.read'',
               ''system/*.cruds'', ''patient/Observation.rs''],
     certPath = ''/app/certs/sp-client.crt'',
     organizationId = ''org-sp''\<rparr>,
    \<lparr>clientId = ''http://pcm.fhir.health.gov.il/Organization/org-vaccine-repo'',
     name = ''Data Source Auth Adapter'',
     scopes = [''introspection''],
     certPath = ''/app/certs/ds-gateway.crt'',
     organizationId = ''org-vaccine-repo''\<rparr>,
    \<lparr>clientId = ''hospital-b-sp'',
     name = ''Hospital B Doctor Portal'',
     scopes = [''fhir/Consent.write'', ''fhir/Patient.read'', ''fhir/Observation.read''],
     certPath = ''/app/certs/hospital-b-sp.crt'',
     organizationId = ''org-hospital-b-sp''\<rparr>,
    \<lparr>clientId = ''pcm-core'',
     name = ''Patient Consent Manager'',
     scopes = [''system/*.cruds''],
     certPath = ''/app/certs/pcm-core.crt'',
     organizationId = ''org-pcm-system''\<rparr>]"

record context_entry =
  cx_type :: string
  cx_system :: "string option"
  cx_value :: "string option"

text \<open>The claims stored for a token (\<open>tokenData\<close> of \<open>issueToken\<close>).\<close>

record tokenData =
  active :: bool
  sub :: string
  scope :: string
  iss :: string
  aud :: string
  client_id :: string
  organization_id :: string
  patient :: "string option"
  fhirContext :: "context_entry list"
  cnf :: "string option"
  exp :: int
  iat :: int

type_synonym tokens = "string \<rightharpoonup> tokenData"


section \<open>Thumbprints (crypto.js)\<close>

text \<open>
  What the handlers take from Node and its libraries, and from the machine they run on:
  the JWT library, the file system, the decoder of base64, the SHA-256 digest in its
  two output encodings, the clock and the uuid generator. A call that may throw
  returns \<open>None\<close> where it throws.
\<close>

record assertion_b2b =
  organization_id_claim :: "string option"
  consent_reference :: "string list option"

datatype aud_claim = No_aud | Aud string | Auds "string list"

record assertion =
  as_sub :: "string option"
  as_iss :: "string option"
  as_aud :: aud_claim
  hl7_b2b :: "assertion_b2b option"

record platform =
  jwt_decode :: "string \<Rightarrow> assertion option option"
  jwt_verify :: "string \<Rightarrow> string \<Rightarrow> string list \<Rightarrow> bool"
  readFileSync :: "nat \<Rightarrow> string \<Rightarrow> string option"
  base64_decode :: "string \<Rightarrow> string"
  sha256_base64url :: "string \<Rightarrow> string"
  sha256_hex :: "string \<Rightarrow> string"
  now :: int
  uuidv4 :: "nat \<Rightarrow> string"

text \<open>
  \<open>jwt_decode\<close> is \<open>None\<close> where \<open>jwt.decode\<close> throws and \<open>Some None\<close> where it
  returns \<open>null\<close>; \<open>jwt_verify\<close> is \<open>False\<close> where \<open>jwt.verify\<close> throws;
  \<open>readFileSync n\<close> is the \<open>n\<close>-th read of a file in a request (the file system may
  change between two reads), \<open>None\<close> where it throws; \<open>uuidv4 n\<close> is the result of the
  \<open>n\<close>-th call of the generator in a request.
\<close>

datatype cert_input = Pem string | Der string

text \<open>The loop of \<open>certToX5tS256\<close> over the lines of a PEM string.\<close>

fun base64Body :: "string list \<Rightarrow> string \<Rightarrow> string" where
  "base64Body [] acc = acc"
| "base64Body (line # lines) acc =
     (if startsWith (trim line) ''-----'' then base64Body lines acc
      else base64Body lines (acc @ trim line))"

definition certToX5tS256 :: "platform \<Rightarrow> cert_input \<Rightarrow> string" where
  "certToX5tS256 P certInput =
     (let der = (case certInput of
                   Pem s \<Rightarrow> base64_decode P (base64Body (split (CHR 0x0A) s) [])
                 | Der b \<Rightarrow> b)
      in sha256_base64url P der)"



section \<open>Token issuance and introspection (routes/auth.js)\<close>

definition EXT_PCM_SERVICE :: string where
  "EXT_PCM_SERVICE = ''http://pcm.fhir.health.gov.il/StructureDefinition/ext-pcm-service''"

definition EXT_BASED_ON_CANONICAL :: string where
  "EXT_BASED_ON_CANONICAL =
     ''http://pcm.fhir.health.gov.il/StructureDefinition/ext-based-on-canonical-healthcareservice''"

definition CATALOG_ID_SYSTEM :: string where
  "CATALOG_ID_SYSTEM =
     ''http://pcm.fhir.health.gov.il/identifier/pcm-healthcareservice-catalog-id''"

definition DS_SCOPE :: string where
  "DS_SCOPE = ''patient/Observation.rs?_security=http://fhir.health.gov.il/cs/hdp-information-buckets|laboratoryTests&date=ge2024-01-01''"

text \<open>
  The answers of the authorization server: an OAuth error (status, \<open>error\<close>,
  \<open>error_description\<close>), a failure of \<open>requireAuth\<close> (status, \<open>error\<close>; the body also
  carries \<open>active: false\<close>), the token response, the two bodies of introspection, and
  the answer of Express to an exception that leaves the handler.
\<close>

datatype as_response =
    Error_response nat string "string option"
  | Auth_failure nat string
  | Token_response string string nat string
  | Inactive
  | Token_record tokenData
  | Uncaught_exception

datatype log_event = Thumbprint_mismatch string string string

record token_request =
  authorized :: bool
  grant_type :: "string option"
  client_assertion :: "string option"
  client_assertion_type :: "string option"
  resource :: "string option"
  host :: string
  peer_raw :: "string option"

text \<open>
  \<open>fhirStore.get(type, id)\<close>: \<open>if (!this.data[type]) return null\<close>, then
  \<open>this.data[type].get(id)\<close>. \<open>data\<close> is an object literal, so a type that names a
  member inherited from \<open>Object.prototype\<close> finds that member, which has no \<open>get\<close>, and
  the call throws a TypeError.
\<close>

datatype resource_value =
    Organization_res organization
  | Endpoint_res endpoint
  | HealthcareService_res service
  | VerificationResult_res verification
  | Consent_res consent

datatype get_result = TypeError | Found "resource_value option"

definition inherited_members :: "string list" where
  "inherited_members = [''constructor'', ''__defineGetter__'', ''__defineSetter__'',
     ''hasOwnProperty'', ''__lookupGetter__'', ''__lookupSetter__'', ''isPrototypeOf'',
     ''propertyIsEnumerable'', ''toString'', ''valueOf'', ''__proto__'', ''toLocaleString'']"

definition get :: "fhir_store \<Rightarrow> string \<Rightarrow> string option \<Rightarrow> get_result" where
  "get st type i =
     (if type = ''Organization''
        then Found (map_option Organization_res (map_get (Organization st) i))
      else if type = ''Endpoint'' then Found (map_option Endpoint_res (map_get (Endpoint st) i))
      else if type = ''HealthcareService''
        then Found (map_option HealthcareService_res (map_get (HealthcareService st) i))
      else if type = ''VerificationResult''
        then Found (map_option VerificationResult_res (map_get (VerificationResult st) i))
      else if type = ''Consent'' then Found (map_option Consent_res (map_get (Consent st) i))
      else if type \<in> set inherited_members then TypeError
      else Found None)"

text \<open>
  The \<open>address\<close> member of a resource of any type: the string of an Endpoint, the
  member of that name of an Organization, a HealthcareService or a
  VerificationResult, and for a Consent the member of that name among its other
  members.
\<close>

definition address :: "resource_value \<Rightarrow> member_value option" where
  "address r =
     (case r of
        Endpoint_res e \<Rightarrow> map_option Text (ep_address e)
      | Organization_res org \<Rightarrow> org_address org
      | HealthcareService_res sv \<Rightarrow> hs_address sv
      | VerificationResult_res v \<Rightarrow> vr_address v
      | Consent_res c \<Rightarrow> map_option Text (map_of (con_other c) ''address''))"

definition isAllowedAudience :: "aud_claim \<Rightarrow> string list \<Rightarrow> bool" where
  "isAllowedAudience a allowedAudiences =
     (case a of
        No_aud \<Rightarrow> False
      | Aud s \<Rightarrow> s \<noteq> [] \<and> s \<in> set allowedAudiences
      | Auds xs \<Rightarrow> list_ex (\<lambda>x. x \<in> set allowedAudiences) xs)"

definition tokenEndpointCandidates :: "string \<Rightarrow> string list" where
  "tokenEndpointCandidates h =
     [''https://'' @ h @ ''/token'', ''http://'' @ h @ ''/token'',
      ''https://pcm-core:3000/token'', ''http://pcm-core:3000/token'']"

text \<open>\<open>a.role?.coding?.some(c => c.code === code)\<close>.\<close>

definition has_role :: "string \<Rightarrow> actor \<Rightarrow> bool" where
  "has_role c a = (case ac_role_coding a of None \<Rightarrow> False
                   | Some cs \<Rightarrow> list_ex (\<lambda>x. cd_code x = Some c) cs)"

text \<open>\<open>a.reference?.reference?.split('/').pop()\<close>.\<close>

definition actor_org_id :: "actor \<Rightarrow> string option" where
  "actor_org_id a = map_option pop_segment (ac_reference a)"

text \<open>The inner loop of step 5.3: does one of the Endpoints of a list have the address?\<close>

fun endpoint_matches :: "fhir_store \<Rightarrow> string \<Rightarrow> string option list \<Rightarrow> bool" where
  "endpoint_matches st r [] = False"
| "endpoint_matches st r (epRef # rest) =
     (case map_get (Endpoint st) (map_option pop_segment epRef) of
        None \<Rightarrow> endpoint_matches st r rest
      | Some e \<Rightarrow> if ep_address e = Some r then True else endpoint_matches st r rest)"

text \<open>The outer loop of step 5.3 over the custodian actors.\<close>

fun resourceMatchFound :: "fhir_store \<Rightarrow> string \<Rightarrow> actor list \<Rightarrow> bool" where
  "resourceMatchFound st r [] = False"
| "resourceMatchFound st r (a # rest) =
     (case map_get (Organization st) (actor_org_id a) of
        None \<Rightarrow> resourceMatchFound st r rest
      | Some org \<Rightarrow>
          (case org_endpoint org of
             None \<Rightarrow> resourceMatchFound st r rest
           | Some eps \<Rightarrow>
               if endpoint_matches st r eps then True else resourceMatchFound st r rest))"

text \<open>The patient context of step 5.2, \<open>system|value\<close>.\<close>

definition patientContext :: "consent \<Rightarrow> string option" where
  "patientContext c =
     (case con_patient c of
        None \<Rightarrow> None
      | Some idObj \<Rightarrow>
          (case (case idObj of Single p \<Rightarrow> Some p | Many ps \<Rightarrow> at_index ps 0) of
             None \<Rightarrow> None
           | Some pid \<Rightarrow>
               (case (id_system pid, id_value pid) of
                  (Some s, Some v) \<Rightarrow> if s \<noteq> [] \<and> v \<noteq> [] then Some (s @ ''|'' @ v) else None
                | _ \<Rightarrow> None)))"

definition invalid_client :: "string \<Rightarrow> as_response" where
  "invalid_client d = Error_response 401 ''invalid_client'' (Some d)"

text \<open>
  Steps 1 to 4 of \<open>issueToken\<close>: the shape of the request, the decoded assertion, the
  registered client and the verification of the assertion against its certificate.
\<close>

definition authenticate_client ::
  "platform \<Rightarrow> token_request \<Rightarrow> as_response + (string \<times> assertion \<times> client)" where
  "authenticate_client P req =
     (if grant_type req \<noteq> Some ''client_credentials''
      then Inl (Error_response 400 ''unsupported_grant_type'' None)
      else case client_assertion req of
        None \<Rightarrow> Inl (invalid_client ''Missing or invalid client_assertion'')
      | Some ca \<Rightarrow>
      if client_assertion_type req \<noteq> Some ''urn:ietf:params:oauth:client-assertion-type:jwt-bearer''
         \<or> ca = []
      then Inl (invalid_client ''Missing or invalid client_assertion'')
      else case resource req of
        None \<Rightarrow> Inl (Error_response 400 ''invalid_request''
                      (Some ''Missing resource parameter (RFC 8707)''))
      | Some res \<Rightarrow>
      if res = []
      then Inl (Error_response 400 ''invalid_request''
                  (Some ''Missing resource parameter (RFC 8707)''))
      else case jwt_decode P ca of
        None \<Rightarrow> Inl (invalid_client ''Invalid JWT'')
      | Some None \<Rightarrow> Inl (invalid_client ''Invalid JWT structure'')
      | Some (Some d) \<Rightarrow>
      if \<not> truthy (as_sub d) \<or> \<not> truthy (as_iss d)
      then Inl (invalid_client ''Invalid JWT structure'')
      else case find (\<lambda>c. Some (clientId c) = as_iss d) clients of
        None \<Rightarrow> Inl (invalid_client ''Client not registered'')
      | Some cl \<Rightarrow>
      (case readFileSync P 0 (certPath cl) of
        None \<Rightarrow> Inl (invalid_client ''Signature verification failed'')
      | Some cert \<Rightarrow>
      if as_sub d \<noteq> as_iss d
      then Inl (invalid_client ''Invalid JWT subject/issuer'')
      else if \<not> isAllowedAudience (as_aud d) (tokenEndpointCandidates (host req))
      then Inl (invalid_client ''Invalid JWT audience'')
      else if \<not> jwt_verify P ca cert (tokenEndpointCandidates (host req))
      then Inl (invalid_client ''Signature verification failed'')
      else Inr (res, d, cl)))"

text \<open>\<open>udapExt.consent_reference?.[0]\<close>.\<close>

definition consentRefUrl :: "assertion_b2b \<Rightarrow> string option" where
  "consentRefUrl u = (case consent_reference u of None \<Rightarrow> None | Some refs \<Rightarrow> at_index refs 0)"

text \<open>\<open>consent.provision?.actor || []\<close>.\<close>

definition actors_of :: "consent \<Rightarrow> actor list" where
  "actors_of c = (case con_actor c of None \<Rightarrow> [] | Some xs \<Rightarrow> xs)"

text \<open>
  Step 5 of \<open>issueToken\<close> for an assertion with the \<open>hl7-b2b\<close> extension: the answer
  that ends the request, or the patient context.
\<close>

definition b2b_validation ::
  "fhir_store \<Rightarrow> client \<Rightarrow> string \<Rightarrow> assertion_b2b \<Rightarrow> as_response + string option" where
  "b2b_validation st cl res udapExt =
     (if map_option pop_segment (organization_id_claim udapExt) \<noteq> Some (organizationId cl)
      then Inl (Error_response 401 ''unauthorized_client'' (Some ''Organization ID mismatch''))
      else case consentRefUrl udapExt of
        None \<Rightarrow> Inr None
      | Some url \<Rightarrow>
      if url = [] then Inr None
      else case Consent st (pop_segment url) of
        None \<Rightarrow> Inl (Error_response 400 ''invalid_grant'' (Some ''Consent not found''))
      | Some c \<Rightarrow>
      if con_status c \<noteq> Some ''active''
      then Inl (Error_response 400 ''invalid_grant'' (Some ''Consent not active''))
      else if \<not> resourceMatchFound st res (filter (has_role ''CST'') (actors_of c))
      then Inl (Error_response 400 ''invalid_target''
                  (Some ''Requested resource is not authorized by the referenced consent''))
      else if \<not> list_ex (\<lambda>a. actor_org_id a = Some (organizationId cl)) (actors_of c)
      then Inl (Error_response 401 ''access_denied''
                  (Some ''Client is not a party to this consent''))
      else Inr (patientContext c))"

text \<open>
  The \<open>cnf\<close> of the token (its \<open>x5t#S256\<close> member, \<open>None\<close> for \<open>cnf: null\<close>) and the
  warning about the mTLS peer certificate. The certificate file is read a second
  time here; where this read throws, the \<open>catch\<close> leaves \<open>cnf\<close> at \<open>null\<close>.
\<close>

definition confirmation :: "platform \<Rightarrow> client \<Rightarrow> token_request \<Rightarrow> string option \<times> log_event list" where
  "confirmation P cl req =
     (let assertionThumbprint =
            map_option (\<lambda>c. certToX5tS256 P (Pem c)) (readFileSync P 1 (certPath cl));
          peerThumbprint = map_option (\<lambda>raw. certToX5tS256 P (Der raw)) (peer_raw req)
      in (assertionThumbprint,
          (case (assertionThumbprint, peerThumbprint) of
             (Some a, Some p) \<Rightarrow>
               if a \<noteq> [] \<and> p \<noteq> [] \<and> a \<noteq> p
               then [Thumbprint_mismatch a p (clientId cl)] else []
           | _ \<Rightarrow> [])))"

text \<open>\<open>a || b\<close> on optional strings.\<close>

definition or_else :: "string option \<Rightarrow> string option \<Rightarrow> string option" where
  "or_else a b = (if truthy a then a else b)"

text \<open>\<open>service.extension\<close>, read through the heap.\<close>

definition extensions_of :: "fhir_store \<Rightarrow> service \<Rightarrow> extension list option" where
  "extensions_of st sv =
     (case hs_extension sv of
        None \<Rightarrow> None
      | Some a \<Rightarrow> (case at_index (heap st) a of Some (Ext_array xs) \<Rightarrow> Some xs | _ \<Rightarrow> None))"

text \<open>fhir/context.js.\<close>

definition findCatalogIdentifier :: "service option \<Rightarrow> ident option" where
  "findCatalogIdentifier service =
     (case service of
        None \<Rightarrow> None
      | Some sv \<Rightarrow> find (\<lambda>i. id_system i = Some CATALOG_ID_SYSTEM)
                    (case hs_identifier sv of None \<Rightarrow> [] | Some xs \<Rightarrow> xs))"

definition buildHealthcareServiceContext ::
  "service option \<Rightarrow> service option \<Rightarrow> context_entry option" where
  "buildHealthcareServiceContext service canonicalService =
     (if service = None \<and> canonicalService = None then None
      else
        let catalogIdentifier =
              (case findCatalogIdentifier service of
                 Some i \<Rightarrow> Some i | None \<Rightarrow> findCatalogIdentifier canonicalService);
            v = or_else (or_else (case catalogIdentifier of None \<Rightarrow> None | Some i \<Rightarrow> id_value i)
                                 (case service of None \<Rightarrow> None | Some sv \<Rightarrow> hs_id sv))
                        (case canonicalService of None \<Rightarrow> None | Some sv \<Rightarrow> hs_id sv)
        in if \<not> truthy v then None
           else Some \<lparr>cx_type = ''HealthcareService'',
                      cx_system = Some CATALOG_ID_SYSTEM, cx_value = v\<rparr>)"

text \<open>
  Step 6 of \<open>issueToken\<close>. \<open>None\<close> is the TypeError of
  \<open>pcmServiceExt.valueReference.reference.split\<close> on a \<open>valueReference\<close> without
  \<open>reference\<close>.
\<close>

definition build_fhirContext ::
  "fhir_store \<Rightarrow> assertion_b2b option \<Rightarrow> context_entry list option" where
  "build_fhirContext st udapExt =
     (case udapExt of
        None \<Rightarrow> Some []
      | Some u \<Rightarrow>
      (case consentRefUrl u of
        None \<Rightarrow> Some []
      | Some url \<Rightarrow>
      if url = [] then Some []
      else case Consent st (pop_segment url) of
        None \<Rightarrow> Some []
      | Some c \<Rightarrow>
      let bizId = (case (case con_identifier c of None \<Rightarrow> None | Some is \<Rightarrow> at_index is 0) of
                     Some i \<Rightarrow> i
                   | None \<Rightarrow> \<lparr>id_system = Some ''http://pcm.fhir.health.gov.il/identifier/pcm-consent-id'',
                               id_value = con_id c\<rparr>);
          entry = \<lparr>cx_type = ''Consent'', cx_system = id_system bizId, cx_value = id_value bizId\<rparr>
      in case find (\<lambda>e. ex_url e = Some EXT_PCM_SERVICE)
                (case con_extension c of None \<Rightarrow> [] | Some xs \<Rightarrow> xs) of
        None \<Rightarrow> Some [entry]
      | Some pcmServiceExt \<Rightarrow>
      (case ex_valueReference pcmServiceExt of
        None \<Rightarrow> Some [entry]
      | Some None \<Rightarrow> None
      | Some (Some r) \<Rightarrow>
      (case HealthcareService st (pop_segment r) of
        None \<Rightarrow> Some [entry]
      | Some service \<Rightarrow>
      let basedOnExt = find (\<lambda>e. ex_url e = Some EXT_BASED_ON_CANONICAL)
                         (case extensions_of st service of None \<Rightarrow> [] | Some xs \<Rightarrow> xs);
          canonicalService =
            (case basedOnExt of
               None \<Rightarrow> None
             | Some b \<Rightarrow>
                 (case ex_valueReference b of
                    Some (Some cr) \<Rightarrow>
                      if cr = [] then None else HealthcareService st (pop_segment cr)
                  | _ \<Rightarrow> None))
      in case buildHealthcareServiceContext (Some service) canonicalService of
           None \<Rightarrow> Some [entry]
         | Some serviceContext \<Rightarrow> Some [entry, serviceContext]))))"

text \<open>\<open>xs.join(' ')\<close>.\<close>

fun join :: "string list \<Rightarrow> string" where
  "join [] = []"
| "join [x] = x"
| "join (x # y # ys) = x @ '' '' @ join (y # ys)"

text \<open>
  \<open>issueToken\<close>: the answer, the token map after the request and the warnings logged.
\<close>

definition issueToken ::
  "platform \<Rightarrow> fhir_store \<Rightarrow> tokens \<Rightarrow> token_request
     \<Rightarrow> as_response \<times> tokens \<times> log_event list" where
  "issueToken P st toks req =
     (case authenticate_client P req of
        Inl e \<Rightarrow> (e, toks, [])
      | Inr (res, d, cl) \<Rightarrow>
      (case (case hl7_b2b d of
               None \<Rightarrow> Inr (''system/*.cruds'', None)
             | Some udapExt \<Rightarrow>
                 (case b2b_validation st cl res udapExt of
                    Inl e \<Rightarrow> Inl e | Inr p \<Rightarrow> Inr (DS_SCOPE, p))) of
        Inl e \<Rightarrow> (e, toks, [])
      | Inr (consentedScopes, patientCtx) \<Rightarrow>
      (case confirmation P cl req of (cnf_value, logged) \<Rightarrow>
      (case build_fhirContext st (hl7_b2b d) of
        None \<Rightarrow> (Uncaught_exception, toks, logged)
      | Some ctx \<Rightarrow>
      let token = uuidv4 P 0;
          expiresIn = 30;
          tokenData = \<lparr>active = True, sub = clientId cl,
             scope = (if consentedScopes \<noteq> [] then consentedScopes else join (scopes cl)),
             iss = ''http://pcm.fhir.health.gov.il/'', aud = res,
             client_id = clientId cl, organization_id = organizationId cl,
             patient = patientCtx, fhirContext = ctx, cnf = cnf_value,
             exp = now P + int expiresIn, iat = now P\<rparr>
      in (Token_response token ''Bearer'' expiresIn consentedScopes,
          toks(token \<mapsto> tokenData), logged)))))"

text \<open>\<open>requireMtls\<close>, then the handler: \<open>router.post('/token', requireMtls, issueToken)\<close>.\<close>

definition post_token ::
  "platform \<Rightarrow> fhir_store \<Rightarrow> tokens \<Rightarrow> token_request
     \<Rightarrow> as_response \<times> tokens \<times> log_event list" where
  "post_token P st toks req =
     (if \<not> authorized req
      then (Error_response 401 ''access_denied'' (Some ''Valid client certificate required''),
            toks, [])
      else issueToken P st toks req)"

record introspect_request =
  ir_authorized :: bool
  authorization :: "string option"
  token_field :: "string option"

text \<open>
  \<open>requireAuth\<close>: the answer that ends the request or \<open>req.user\<close>, and the token map
  (an expired bearer token is deleted).
\<close>

definition requireAuth ::
  "tokens \<Rightarrow> int \<Rightarrow> string option \<Rightarrow> (as_response + tokenData) \<times> tokens" where
  "requireAuth toks t authHeader =
     (case authHeader of
        None \<Rightarrow> (Inl (Auth_failure 401 ''Unauthorized''), toks)
      | Some h \<Rightarrow>
      if h = [] \<or> \<not> startsWith h ''Bearer '' then (Inl (Auth_failure 401 ''Unauthorized''), toks)
      else case at_index (split (CHR '' '') h) 1 of
        None \<Rightarrow> (Inl (Auth_failure 401 ''Invalid Token''), toks)
      | Some token \<Rightarrow>
      (case toks token of
        None \<Rightarrow> (Inl (Auth_failure 401 ''Invalid Token''), toks)
      | Some tokenData \<Rightarrow>
      if exp tokenData < t
      then (Inl (Auth_failure 401 ''Token Expired''), toks(token := None))
      else (Inr tokenData, toks)))"

definition forbidden :: "string option \<Rightarrow> as_response" where
  "forbidden d = Error_response 403 ''forbidden'' d"

text \<open>
  Steps 1 and 2 of \<open>introspectToken\<close>: the \<open>address\<close> of the resource that the first
  entry of \<open>endpoint\<close> of the caller's Organization references, or the answer that
  ends the request.
\<close>

definition introspectorAddress :: "fhir_store \<Rightarrow> tokenData \<Rightarrow> as_response + member_value" where
  "introspectorAddress st user =
     (if organization_id user = [] then Inl (forbidden (Some ''Introspector identity unknown''))
      else case Organization st (organization_id user) of
        None \<Rightarrow> Inl (forbidden (Some ''Introspector has no endpoint''))
      | Some introspectorOrg \<Rightarrow>
      (case org_endpoint introspectorOrg of
        None \<Rightarrow> Inl (forbidden (Some ''Introspector has no endpoint''))
      | Some [] \<Rightarrow> Inl (forbidden (Some ''Introspector has no endpoint''))
      | Some (None # _) \<Rightarrow> Inl Uncaught_exception
      | Some (Some endpointRef # _) \<Rightarrow>
      (case split (CHR ''/'') endpointRef of
        [] \<Rightarrow> Inl (forbidden None)
      | ty # rest \<Rightarrow>
      (case get st ty (at_index rest 0) of
        TypeError \<Rightarrow> Inl Uncaught_exception
      | Found None \<Rightarrow> Inl (forbidden None)
      | Found (Some endpointRes) \<Rightarrow>
      (case address endpointRes of
        None \<Rightarrow> Inl (forbidden None)
      | Some a \<Rightarrow> if a = Text [] then Inl (forbidden None) else Inr a)))))"

text \<open>Steps 3 and 4 of \<open>introspectToken\<close>.\<close>

definition inspect_target ::
  "tokens \<Rightarrow> int \<Rightarrow> member_value \<Rightarrow> string option \<Rightarrow> as_response" where
  "inspect_target toks t introspectorAddr token =
     (case token of
        None \<Rightarrow> Error_response 400 ''missing_token'' None
      | Some tk \<Rightarrow>
      if tk = [] then Error_response 400 ''missing_token'' None
      else case toks tk of
        None \<Rightarrow> Inactive
      | Some targetTokenData \<Rightarrow>
      if exp targetTokenData < t then Inactive
      else if Text (aud targetTokenData) \<noteq> introspectorAddr then Inactive
      else Token_record targetTokenData)"

definition introspectToken ::
  "fhir_store \<Rightarrow> tokens \<Rightarrow> int \<Rightarrow> tokenData \<Rightarrow> string option \<Rightarrow> as_response" where
  "introspectToken st toks t user token =
     (case introspectorAddress st user of
        Inl e \<Rightarrow> e
      | Inr a \<Rightarrow> inspect_target toks t a token)"

text \<open>
  \<open>router.post('/introspect', requireMtls, requireAuth, introspectToken)\<close>: the answer
  and the token map after the request.
\<close>

definition post_introspect ::
  "fhir_store \<Rightarrow> tokens \<Rightarrow> int \<Rightarrow> introspect_request \<Rightarrow> as_response \<times> tokens" where
  "post_introspect st toks t req =
     (if \<not> ir_authorized req
      then (Error_response 401 ''access_denied'' (Some ''Valid client certificate required''), toks)
      else case requireAuth toks t (authorization req) of
        (Inl e, toks') \<Rightarrow> (e, toks')
      | (Inr user, toks') \<Rightarrow> (introspectToken st toks' t user (token_field req), toks'))"

text \<open>
  The token maps that the two routes can produce from the empty map of a fresh
  process.
\<close>

inductive reachable :: "tokens \<Rightarrow> bool" where
  fresh: "reachable Map.empty"
| issued: "reachable toks \<Longrightarrow> reachable (fst (snd (post_token P st toks req)))"
| introspected: "reachable toks \<Longrightarrow> reachable (snd (post_introspect st toks t ireq))"

text \<open>Does the body of an answer carry \<open>active: true\<close>?\<close>

definition says_active :: "as_response \<Rightarrow> bool" where
  "says_active r = (case r of Token_record d \<Rightarrow> active d | _ \<Rightarrow> False)"

section \<open>Seeded data (bootstrap.js)\<close>

definition PCM_ORG_TYPE_SYSTEM :: string where
  "PCM_ORG_TYPE_SYSTEM = ''http://fhir.health.gov.il/cs/pcm-org-type''"

definition org_type_coding :: "string \<Rightarrow> coding list option" where
  "org_type_coding c = Some [\<lparr>cd_system = Some PCM_ORG_TYPE_SYSTEM, cd_code = Some c\<rparr>]"

definition orgVaccineRepo :: organization where
  "orgVaccineRepo = \<lparr>org_id = Some ''org-vaccine-repo'', org_active = Some True,
     org_name = Some ''Vaccinations Repository'', org_type = Some [org_type_coding ''source''],
     org_partOf = Some ''Organization/org-moh-parent'',
     org_endpoint = Some [Some ''Endpoint/endpoint-vaccine-repo''], org_address = None\<rparr>"

definition orgDoctorApp :: organization where
  "orgDoctorApp = \<lparr>org_id = Some ''org-sp'', org_active = Some True,
     org_name = Some ''Doctor's Consultation'',
     org_type = Some [org_type_coding ''service-provider'',
        Some [\<lparr>cd_system = Some ''http://fhir.health.gov.il/cs/institution-type-moh'',
               cd_code = Some ''1''\<rparr>]],
     org_partOf = Some ''Organization/org-hospital-a-parent'', org_endpoint = None,
     org_address = None\<rparr>"

definition orgPcm :: organization where
  "orgPcm = \<lparr>org_id = Some ''org-pcm-system'', org_active = Some True,
     org_name = Some ''Patient Consent Manager (PCM)'', org_type = Some [org_type_coding ''pcm''],
     org_partOf = None, org_endpoint = Some [Some ''Endpoint/endpoint-pcm-system''],
     org_address = None\<rparr>"

definition orgHospitalBSP :: organization where
  "orgHospitalBSP = \<lparr>org_id = Some ''org-hospital-b-sp'', org_active = Some True,
     org_name = Some ''Hospital B - Doctor's Portal'',
     org_type = Some [org_type_coding ''service-provider''],
     org_partOf = Some ''Organization/org-hospital-b-parent'', org_endpoint = None,
     org_address = None\<rparr>"

definition parent_org :: "string \<Rightarrow> string \<Rightarrow> organization" where
  "parent_org i n = \<lparr>org_id = Some i, org_active = Some True, org_name = Some n,
     org_type = Some [org_type_coding ''parent-org''], org_partOf = None, org_endpoint = None,
     org_address = None\<rparr>"

definition endpointVaccine :: endpoint where
  "endpointVaccine = \<lparr>ep_resourceType = Some ''Endpoint'', ep_id = Some ''endpoint-vaccine-repo'',
     ep_address = Some ''https://ds-gateway:8080/fhir'',
     ep_managingOrganization = Some ''Organization/org-vaccine-repo''\<rparr>"

definition endpointPcmSystem :: endpoint where
  "endpointPcmSystem = \<lparr>ep_resourceType = Some ''Endpoint'', ep_id = Some ''endpoint-pcm-system'',
     ep_address = Some ''https://pcm.fhir.health.gov.il/r4'',
     ep_managingOrganization = Some ''Organization/org-pcm-system''\<rparr>"

definition serviceGP :: service where
  "serviceGP = \<lparr>hs_resourceType = Some ''HealthcareService'', hs_id = Some ''service-1'',
     hs_name = Some ''General Practice / Telehealth'', hs_active = Some True,
     hs_providedBy = Some ''Organization/org-hospital-a-parent'', hs_identifier = None,
     hs_meta = None, hs_extension = None, hs_address = None\<rparr>"

text \<open>The store after \<open>bootstrap()\<close>.\<close>

definition bootstrap :: fhir_store where
  "bootstrap = \<lparr>
     Organization = [''org-moh-parent'' \<mapsto> parent_org ''org-moh-parent'' ''Ministry of Health'',
       ''org-vaccine-repo'' \<mapsto> orgVaccineRepo,
       ''org-hospital-a-parent'' \<mapsto> parent_org ''org-hospital-a-parent'' ''Hospital A'',
       ''org-sp'' \<mapsto> orgDoctorApp,
       ''org-pcm-system'' \<mapsto> orgPcm,
       ''org-hospital-b-parent'' \<mapsto> parent_org ''org-hospital-b-parent'' ''Hospital B'',
       ''org-hospital-b-sp'' \<mapsto> orgHospitalBSP],
     Endpoint = [''endpoint-vaccine-repo'' \<mapsto> endpointVaccine,
       ''endpoint-pcm-system'' \<mapsto> endpointPcmSystem],
     HealthcareService = [''service-1'' \<mapsto> serviceGP],
     VerificationResult = Map.empty,
     Consent = Map.empty,
     heap = []\<rparr>"

section \<open>Example requests\<close>

text \<open>
  A platform on which every assertion decodes to the same claims and verifies, every
  certificate file holds the same PEM text, and the digests are stand-ins.
\<close>

definition example_pem :: string where
  "example_pem = ''-----BEGIN CERTIFICATE-----'' @ [CHR 0x0A] @ '' QUJD '' @ [CHR 0x0A]
     @ ''RUZH'' @ [CHR 0x0A] @ ''-----END CERTIFICATE-----'' @ [CHR 0x0A]"

definition example_platform :: "assertion \<Rightarrow> platform" where
  "example_platform d = \<lparr>jwt_decode = (\<lambda>_. Some (Some d)), jwt_verify = (\<lambda>_ _ _. True),
     readFileSync = (\<lambda>_ _. Some example_pem), base64_decode = (\<lambda>s. ''der:'' @ s),
     sha256_base64url = (\<lambda>s. ''x5t:'' @ s), sha256_hex = (\<lambda>s. ''hex:'' @ s),
     now = 1000, uuidv4 = (\<lambda>n. ''uuid-'' @ replicate n (CHR ''i''))\<rparr>"

definition example_request :: "string \<Rightarrow> token_request" where
  "example_request r = \<lparr>authorized = True, grant_type = Some ''client_credentials'',
     client_assertion = Some ''assertion'',
     client_assertion_type = Some ''urn:ietf:params:oauth:client-assertion-type:jwt-bearer'',
     resource = Some r, host = ''localhost:4001'', peer_raw = Some ''peer-der''\<rparr>"

definition plain_assertion :: "string \<Rightarrow> assertion" where
  "plain_assertion c = \<lparr>as_sub = Some c, as_iss = Some c,
     as_aud = Aud ''https://pcm-core:3000/token'', hl7_b2b = None\<rparr>"

text \<open>The token that the client \<open>pcm-core\<close> obtains for the PCM Endpoint.\<close>

definition pcm_core_tokens :: tokens where
  "pcm_core_tokens = fst (snd (post_token (example_platform (plain_assertion ''pcm-core''))
     bootstrap Map.empty (example_request ''https://pcm.fhir.health.gov.il/r4'')))"

definition pcm_core_token :: tokenData where
  "pcm_core_token = \<lparr>active = True, sub = ''pcm-core'', scope = ''system/*.cruds'',
     iss = ''http://pcm.fhir.health.gov.il/'',
     aud = ''https://pcm.fhir.health.gov.il/r4'', client_id = ''pcm-core'',
     organization_id = ''org-pcm-system'', patient = None, fhirContext = [],
     cnf = Some ''x5t:der:QUJDRUZH'', exp = 1030, iat = 1000\<rparr>"

definition pcm_core_introspects :: "string \<Rightarrow> introspect_request" where
  "pcm_core_introspects tk = \<lparr>ir_authorized = True, authorization = Some ''Bearer uuid-'',
     token_field = Some tk\<rparr>"

text \<open>
  The addresses of the Endpoints that an Organization lists, and the addresses of the
  Endpoints of the custodian (CST) actors of a consent: what step 5.3 of \<open>issueToken\<close>
  searches, written as lists.
\<close>

definition endpoint_addresses :: "fhir_store \<Rightarrow> string option list \<Rightarrow> string list" where
  "endpoint_addresses st eps =
     concat (map (\<lambda>epRef. case map_get (Endpoint st) (map_option pop_segment epRef) of
                            None \<Rightarrow> []
                          | Some e \<Rightarrow> (case ep_address e of None \<Rightarrow> [] | Some a \<Rightarrow> [a])) eps)"

definition custodian_addresses :: "fhir_store \<Rightarrow> consent \<Rightarrow> string list" where
  "custodian_addresses st c =
     concat (map (\<lambda>a. case map_get (Organization st) (actor_org_id a) of
                         None \<Rightarrow> []
                       | Some org \<Rightarrow>
                           (case org_endpoint org of
                              None \<Rightarrow> [] | Some eps \<Rightarrow> endpoint_addresses st eps))
                 (filter (has_role ''CST'') (actors_of c)))"

text \<open>The Organizations that the actors of a consent reference, by id.\<close>

definition actor_org_ids :: "consent \<Rightarrow> string option list" where
  "actor_org_ids c = map actor_org_id (actors_of c)"

definition sp_client_id :: string where
  "sp_client_id = ''http://pcm.fhir.health.gov.il/Organization/org-sp''"

text \<open>An assertion of the client of \<open>org-sp\<close> with the \<open>hl7-b2b\<close> extension.\<close>

definition b2b_assertion :: "string list \<Rightarrow> assertion" where
  "b2b_assertion refs = \<lparr>as_sub = Some sp_client_id, as_iss = Some sp_client_id,
     as_aud = Aud ''https://pcm-core:3000/token'',
     hl7_b2b = Some \<lparr>organization_id_claim = Some ''Organization/org-sp'',
                      consent_reference = Some refs\<rparr>\<rparr>"

definition actor_of :: "string \<Rightarrow> string \<Rightarrow> actor" where
  "actor_of r org = \<lparr>ac_role_coding =
       Some [\<lparr>cd_system = Some ''http://terminology.hl7.org/CodeSystem/v3-ParticipationType'',
              cd_code = Some r\<rparr>],
     ac_reference = Some (''Organization/'' @ org)\<rparr>"

text \<open>
  A consent as \<open>POST /Consent\<close> and the approval of the UI leave it: requested by an
  Organization, with the data source \<open>org-vaccine-repo\<close> as custodian.
\<close>

definition example_consent :: "string \<Rightarrow> string \<Rightarrow> string \<Rightarrow> consent" where
  "example_consent i status requester = \<lparr>con_id = Some i, con_status = Some status,
     con_identifier = Some [\<lparr>id_system = Some ''http://pcm.fhir.health.gov.il/identifier/pcm-consent-id'',
                              id_value = Some (''biz-'' @ i)\<rparr>],
     con_patient = Some (Single \<lparr>id_system = Some ''http://fhir.health.gov.il/identifier/il-national-id'',
                                  id_value = Some ''99887766''\<rparr>),
     con_actor = Some [actor_of ''IRCP'' requester, actor_of ''CST'' ''org-vaccine-repo''],
     con_extension = Some [\<lparr>ex_url = Some EXT_PCM_SERVICE,
                             ex_valueReference = Some (Some ''HealthcareService/service-1'')\<rparr>],
     con_other = []\<rparr>"

definition example_store :: fhir_store where
  "example_store = bootstrap\<lparr>Consent :=
     [''c1'' \<mapsto> example_consent ''c1'' ''active'' ''org-sp'',
      ''c2'' \<mapsto> example_consent ''c2'' ''inactive'' ''org-sp'',
      ''c3'' \<mapsto> example_consent ''c3'' ''active'' ''org-hospital-b-sp'']\<rparr>"

definition ds_address :: string where
  "ds_address = ''https://ds-gateway:8080/fhir''"

text \<open>The token that the client of \<open>org-sp\<close> obtains for the consent \<open>c1\<close>.\<close>

definition sp_token :: tokenData where
  "sp_token = \<lparr>active = True, sub = sp_client_id, scope = DS_SCOPE,
     iss = ''http://pcm.fhir.health.gov.il/'', aud = ds_address,
     client_id = sp_client_id, organization_id = ''org-sp'',
     patient = Some ''http://fhir.health.gov.il/identifier/il-national-id|99887766'',
     fhirContext = [\<lparr>cx_type = ''Consent'',
            cx_system = Some ''http://pcm.fhir.health.gov.il/identifier/pcm-consent-id'',
            cx_value = Some ''biz-c1''\<rparr>,
           \<lparr>cx_type = ''HealthcareService'', cx_system = Some CATALOG_ID_SYSTEM,
            cx_value = Some ''service-1''\<rparr>],
     cnf = Some ''x5t:der:QUJDRUZH'', exp = 1030, iat = 1000\<rparr>"


text \<open>
  An assertion with the entries after the first of its \<open>consent_reference\<close> replaced.
\<close>

definition with_later_references :: "string list \<Rightarrow> assertion \<Rightarrow> assertion" where
  "with_later_references others d =
     d\<lparr>hl7_b2b := map_option (\<lambda>u. u\<lparr>consent_reference :=
          map_option (\<lambda>refs. case refs of [] \<Rightarrow> [] | url # rest \<Rightarrow> url # others)
            (consent_reference u)\<rparr>) (hl7_b2b d)\<rparr>"

text \<open>
  An assertion of the client of \<open>org-sp\<close> whose \<open>hl7-b2b\<close> extension names another
  Organization.
\<close>

definition foreign_assertion :: "string list \<Rightarrow> assertion" where
  "foreign_assertion refs = (b2b_assertion refs)\<lparr>hl7_b2b :=
     Some \<lparr>organization_id_claim = Some ''Organization/org-hospital-b-sp'',
           consent_reference = Some refs\<rparr>\<rparr>"


text \<open>A platform on which every assertion decodes to its image under \<open>f\<close>.\<close>

definition decoding :: "(assertion \<Rightarrow> assertion) \<Rightarrow> platform \<Rightarrow> platform" where
  "decoding f P = P\<lparr>jwt_decode := (\<lambda>a. map_option (map_option f) (jwt_decode P a))\<rparr>"


section \<open>The FHIR routes (routes/fhir.js)\<close>

definition META_TAG_SYSTEM :: string where
  "META_TAG_SYSTEM = ''http://pcm.fhir.health.gov.il/cs/pcm-meta-tag''"

definition META_TAG_CATALOG :: string where
  "META_TAG_CATALOG = ''catalog''"

definition META_TAG_INSTANCE :: string where
  "META_TAG_INSTANCE = ''instance''"

definition PCM_ORG_TYPE_CODE :: string where
  "PCM_ORG_TYPE_CODE = ''pcm''"

text \<open>
  The answers of the FHIR routes: 200 and 201 with a resource, and every other
  status with the text of its \<open>error\<close> or \<open>diagnostics\<close>.
\<close>

datatype 'a fhir_response = Ok_response 'a | Created 'a | Failure nat string

text \<open>\<open>isPcmAdmin(req)\<close>, for the \<open>req.user\<close> that \<open>requireBearer\<close> set.\<close>

definition isPcmAdmin :: "fhir_store \<Rightarrow> tokenData \<Rightarrow> bool" where
  "isPcmAdmin st user =
     (if organization_id user = [] then False
      else case Organization st (organization_id user) of
        None \<Rightarrow> False
      | Some org \<Rightarrow>
          list_ex (\<lambda>t. list_ex (\<lambda>c. cd_system c = Some PCM_ORG_TYPE_SYSTEM
                                     \<and> cd_code c = Some PCM_ORG_TYPE_CODE)
                         (case t of None \<Rightarrow> [] | Some cs \<Rightarrow> cs))
                  (case org_type org of None \<Rightarrow> [] | Some ts \<Rightarrow> ts))"

subsection \<open>Consent\<close>

text \<open>
  The test of \<open>PUT /Consent/:id\<close> on one actor:
  \<open>a.reference && (a.reference.reference === `Organization/${callerOrgId}` ||
  a.reference.reference === callerOrgId)\<close>.
\<close>

definition references_org :: "string \<Rightarrow> actor \<Rightarrow> bool" where
  "references_org callerOrgId a =
     (ac_reference a = Some (''Organization/'' @ callerOrgId) \<or> ac_reference a = Some callerOrgId)"

definition isParty :: "string \<Rightarrow> consent \<Rightarrow> bool" where
  "isParty callerOrgId c = list_ex (references_org callerOrgId) (actors_of c)"

definition isRequester :: "string \<Rightarrow> consent \<Rightarrow> bool" where
  "isRequester callerOrgId c =
     list_ex (\<lambda>a. has_role ''IRCP'' a \<and> references_org callerOrgId a) (actors_of c)"

text \<open>
  \<open>store.update(resource)\<close> on a Consent: \<open>None\<close> where it throws because no resource
  is stored under \<open>resource.id\<close>.
\<close>

definition update_Consent :: "fhir_store \<Rightarrow> consent \<Rightarrow> fhir_store option" where
  "update_Consent st c =
     (case con_id c of
        None \<Rightarrow> None
      | Some i \<Rightarrow> if Consent st i = None then None
                  else Some (st\<lparr>Consent := (Consent st)(i \<mapsto> c)\<rparr>))"

text \<open>
  \<open>router.put('/Consent/:id')\<close>: the answer (\<open>None\<close> for an exception that leaves the
  handler) and the store after the request.
\<close>

definition put_Consent ::
  "fhir_store \<Rightarrow> tokenData \<Rightarrow> string \<Rightarrow> consent \<Rightarrow> consent fhir_response option \<times> fhir_store" where
  "put_Consent st user i body =
     (case Consent st i of
        None \<Rightarrow> (Some (Failure 404 ''Not Found''), st)
      | Some existing \<Rightarrow>
      if truthy (con_id body) \<and> con_id body \<noteq> Some i
      then (Some (Failure 400 ''ID Mismatch''), st)
      else
      let updated = body\<lparr>con_id := Some i\<rparr> in
      if isPcmAdmin st user
      then (case update_Consent st updated of
              None \<Rightarrow> (None, st)
            | Some st' \<Rightarrow> (Some (Ok_response updated), st'))
      else if \<not> isParty (organization_id user) existing
      then (Some (Failure 403 ''Access denied to this consent''), st)
      else if \<not> isRequester (organization_id user) existing
              \<or> con_status updated \<noteq> Some ''inactive''
      then (Some (Failure 403 ''Only requestor may set status=inactive''), st)
      else
      (case update_Consent st (existing\<lparr>con_status := Some ''inactive''\<rparr>) of
         None \<Rightarrow> (None, st)
       | Some st' \<Rightarrow> (Some (Ok_response (existing\<lparr>con_status := Some ''inactive''\<rparr>)), st')))"

text \<open>Every Consent is stored under its own \<open>id\<close>, as \<open>add\<close> and \<open>update\<close> leave it.\<close>

definition consents_keyed :: "fhir_store \<Rightarrow> bool" where
  "consents_keyed st = (\<forall>i c. Consent st i = Some c \<longrightarrow> con_id c = Some i)"

subsection \<open>Endpoint\<close>

text \<open>\<open>store.add(resource)\<close> on an Endpoint: the id it is stored under, and the store.\<close>

text \<open>\<open>if (!resource.id) resource.id = uuidv4()\<close>.\<close>

definition id_or_uuid :: "string option \<Rightarrow> string \<Rightarrow> string" where
  "id_or_uuid given generated =
     (case given of None \<Rightarrow> generated | Some i \<Rightarrow> if i = [] then generated else i)"

definition add_Endpoint :: "platform \<Rightarrow> fhir_store \<Rightarrow> endpoint \<Rightarrow> endpoint \<times> fhir_store" where
  "add_Endpoint P st e =
     (let i = id_or_uuid (ep_id e) (uuidv4 P 0);
          created = e\<lparr>ep_id := Some i\<rparr>
      in (created, st\<lparr>Endpoint := (Endpoint st)(i \<mapsto> created)\<rparr>))"

definition post_Endpoint ::
  "platform \<Rightarrow> fhir_store \<Rightarrow> tokenData \<Rightarrow> endpoint \<Rightarrow> endpoint fhir_response \<times> fhir_store" where
  "post_Endpoint P st user body =
     (if ep_resourceType body \<noteq> Some ''Endpoint''
      then (Failure 400 ''Invalid Endpoint resource'', st)
      else if \<not> isPcmAdmin st user
              \<and> (\<not> truthy (getRefId (ep_managingOrganization body))
                   \<or> getRefId (ep_managingOrganization body) \<noteq> Some (organization_id user))
      then (Failure 403 ''Endpoint managingOrganization must match caller organization'', st)
      else case add_Endpoint P st body of (created, st') \<Rightarrow> (Created created, st'))"

definition put_Endpoint ::
  "fhir_store \<Rightarrow> tokenData \<Rightarrow> string \<Rightarrow> endpoint \<Rightarrow> endpoint fhir_response \<times> fhir_store" where
  "put_Endpoint st user i body =
     (case Endpoint st i of
        None \<Rightarrow> (Failure 404 ''Not Found'', st)
      | Some existing \<Rightarrow>
      if \<not> isPcmAdmin st user
         \<and> getRefId (ep_managingOrganization existing) \<noteq> Some (organization_id user)
      then (Failure 403 ''Access denied to this endpoint'', st)
      else if truthy (ep_id body) \<and> ep_id body \<noteq> Some i
      then (Failure 400 ''ID Mismatch'', st)
      else
      let updated = body\<lparr>ep_resourceType := Some ''Endpoint'', ep_id := Some i\<rparr>
      in (Ok_response updated, st\<lparr>Endpoint := (Endpoint st)(i \<mapsto> updated)\<rparr>))"

text \<open>The invariant of the data model: no two stored Endpoints have the same address.\<close>

definition unique_addresses :: "fhir_store \<Rightarrow> bool" where
  "unique_addresses st =
     (\<forall>i j e f a. Endpoint st i = Some e \<and> Endpoint st j = Some f
                   \<and> ep_address e = Some a \<and> ep_address f = Some a \<longrightarrow> i = j)"


subsection \<open>HealthcareService\<close>

text \<open>
  The JSON body of a HealthcareService request: \<open>sb_meta\<close> is \<open>None\<close> without a
  \<open>meta\<close> member, and otherwise holds the \<open>tag\<close> member of \<open>meta\<close>.
\<close>

record service_body =
  sb_resourceType :: "string option"
  sb_id :: "string option"
  sb_name :: "string option"
  sb_active :: "bool option"
  sb_providedBy :: "string option"
  sb_identifier :: "ident list option"
  sb_meta :: "tag list option option"
  sb_extension :: "extension list option"
  sb_address :: "member_value option"

text \<open>A new object: its address is the next index of the heap.\<close>

definition alloc :: "obj list \<Rightarrow> obj \<Rightarrow> nat \<times> obj list" where
  "alloc h v = (length h, h @ [v])"

text \<open>
  The object that the parser of the request body builds: the \<open>meta\<close> object and the
  \<open>extension\<close> array of the body are new objects of the heap.
\<close>

definition parse_body :: "obj list \<Rightarrow> service_body \<Rightarrow> service \<times> obj list" where
  "parse_body h body =
     (case (case sb_meta body of
              None \<Rightarrow> (None, h)
            | Some t \<Rightarrow> (case alloc h (Meta_obj t) of (a, h') \<Rightarrow> (Some a, h'))) of
        (m, h1) \<Rightarrow>
     (case (case sb_extension body of
              None \<Rightarrow> (None, h1)
            | Some xs \<Rightarrow> (case alloc h1 (Ext_array xs) of (a, h') \<Rightarrow> (Some a, h'))) of
        (x, h2) \<Rightarrow>
       (\<lparr>hs_resourceType = sb_resourceType body, hs_id = sb_id body, hs_name = sb_name body,
         hs_active = sb_active body, hs_providedBy = sb_providedBy body,
         hs_identifier = sb_identifier body, hs_meta = m, hs_extension = x,
         hs_address = sb_address body\<rparr>, h2)))"

text \<open>\<open>ensureArray(o.tag)\<close> for the \<open>meta\<close> object at an address.\<close>

definition tags_at :: "obj list \<Rightarrow> nat \<Rightarrow> tag list" where
  "tags_at h a = (case at_index h a of Some (Meta_obj (Some ts)) \<Rightarrow> ts | _ \<Rightarrow> [])"

text \<open>The elements of the array at an address.\<close>

definition array_at :: "obj list \<Rightarrow> nat \<Rightarrow> extension list" where
  "array_at h a = (case at_index h a of Some (Ext_array xs) \<Rightarrow> xs | _ \<Rightarrow> [])"

text \<open>\<open>ensureArray(r.meta?.tag)\<close> of a resource.\<close>

definition tags_of :: "obj list \<Rightarrow> service \<Rightarrow> tag list" where
  "tags_of h r = (case hs_meta r of None \<Rightarrow> [] | Some a \<Rightarrow> tags_at h a)"

definition is_catalog_tag :: "tag \<Rightarrow> bool" where
  "is_catalog_tag t = (tg_system t = Some META_TAG_SYSTEM \<and> tg_code t = Some META_TAG_CATALOG)"

definition catalog_tag :: tag where
  "catalog_tag = \<lparr>tg_system = Some META_TAG_SYSTEM, tg_code = Some META_TAG_CATALOG,
     tg_display = Some ''Catalog''\<rparr>"

definition instance_tag :: tag where
  "instance_tag = \<lparr>tg_system = Some META_TAG_SYSTEM, tg_code = Some META_TAG_INSTANCE,
     tg_display = Some ''Instance''\<rparr>"

text \<open>
  \<open>r.meta = r.meta || {}\<close> followed by
  \<open>r.meta.tag = ensureArray(r.meta.tag).filter(t => t.code !== dropped)\<close> and
  \<open>r.meta.tag.push(t)\<close>: the \<open>meta\<close> object of the resource is written in place, and a
  new one is made only where the resource had none.
\<close>

definition retag :: "obj list \<Rightarrow> service \<Rightarrow> string \<Rightarrow> tag \<Rightarrow> service \<times> obj list" where
  "retag h r dropped t =
     (case (case hs_meta r of None \<Rightarrow> alloc h (Meta_obj None) | Some a \<Rightarrow> (a, h)) of
        (m, h') \<Rightarrow>
          (r\<lparr>hs_meta := Some m\<rparr>,
           h'[m := Meta_obj (Some (filter (\<lambda>x. tg_code x \<noteq> Some dropped) (tags_at h' m) @ [t]))]))"

text \<open>
  \<open>store.add(resource)\<close> on a HealthcareService, with the uuid to use where the
  resource has no id.
\<close>

definition add_service :: "fhir_store \<Rightarrow> string \<Rightarrow> service \<Rightarrow> service \<times> fhir_store" where
  "add_service st generated r =
     (let i = id_or_uuid (hs_id r) generated;
          created = r\<lparr>hs_id := Some i\<rparr>
      in (created, st\<lparr>HealthcareService := (HealthcareService st)(i \<mapsto> created)\<rparr>))"

definition based_on_extension :: "string \<Rightarrow> extension" where
  "based_on_extension canonicalId = \<lparr>ex_url = Some EXT_BASED_ON_CANONICAL,
     ex_valueReference = Some (Some (''HealthcareService/'' @ canonicalId))\<rparr>"

text \<open>
  The branch \<open>if (!basedOnExt)\<close> of \<open>router.post('/HealthcareService')\<close>: the canonical
  copy is built from the instance, stored under a new uuid, and the link to it is
  pushed on the array \<open>extensions\<close>. The result is the store and the number of uuids
  used.
\<close>

definition create_canonical ::
  "platform \<Rightarrow> fhir_store \<Rightarrow> service \<Rightarrow> nat \<Rightarrow> fhir_store \<times> nat" where
  "create_canonical P st inst extensions =
     (case retag (heap st) (inst\<lparr>hs_id := None, hs_providedBy := None, hs_active := Some True\<rparr>)
             META_TAG_INSTANCE catalog_tag of
        (tagged, h) \<Rightarrow>
      (case (case (case hs_identifier tagged of None \<Rightarrow> None | Some is \<Rightarrow> at_index is 0) of
               None \<Rightarrow> (tagged\<lparr>hs_identifier :=
                           Some [\<lparr>id_system = Some CATALOG_ID_SYSTEM,
                                  id_value = Some (''PCM-CAT-'' @ uuidv4 P 0)\<rparr>]\<rparr>, 1)
             | Some catalogIdentifier \<Rightarrow> (tagged, 0)) of
         (canonical, k) \<Rightarrow>
      (case add_service (st\<lparr>heap := h\<rparr>) (uuidv4 P k) canonical of
         (canonicalCreated, st') \<Rightarrow>
           (st'\<lparr>heap := (heap st')[extensions :=
                   Ext_array (array_at (heap st') extensions @ [based_on_extension (uuidv4 P k)])]\<rparr>,
            Suc k))))"

text \<open>
  \<open>router.post('/HealthcareService')\<close>: the answer and the store after the request.
\<close>

definition post_HealthcareService ::
  "platform \<Rightarrow> fhir_store \<Rightarrow> tokenData \<Rightarrow> service_body \<Rightarrow> service fhir_response \<times> fhir_store" where
  "post_HealthcareService P st user body =
     (if sb_resourceType body \<noteq> Some ''HealthcareService''
      then (Failure 400 ''Invalid HealthcareService resource'', st)
      else case parse_body (heap st) body of (incoming, h0) \<Rightarrow>
      if isPcmAdmin st user
      then (case add_service (st\<lparr>heap := h0\<rparr>) (uuidv4 P 0) incoming of
              (created, st') \<Rightarrow> (Created created, st'))
      else if list_ex is_catalog_tag (tags_of h0 incoming)
      then (case add_service (st\<lparr>heap := h0\<rparr>) (uuidv4 P 0) incoming of
              (created, st') \<Rightarrow> (Created created, st'))
      else if organization_id user = []
      then (Failure 403 ''Caller has no mapped Organization'', st)
      else
      (case (case hs_extension incoming of
               None \<Rightarrow> alloc h0 (Ext_array []) | Some a \<Rightarrow> (a, h0)) of
        (extensions, h1) \<Rightarrow>
      (case (case find (\<lambda>e. ex_url e = Some EXT_BASED_ON_CANONICAL) (array_at h1 extensions) of
               None \<Rightarrow> create_canonical P (st\<lparr>heap := h1\<rparr>)
                         (incoming\<lparr>hs_providedBy := Some (''Organization/'' @ organization_id user)\<rparr>)
                         extensions
             | Some basedOnExt \<Rightarrow> (st\<lparr>heap := h1\<rparr>, 0)) of
         (st1, k) \<Rightarrow>
      (case retag (heap st1)
              (incoming\<lparr>hs_providedBy := Some (''Organization/'' @ organization_id user),
                 hs_extension := Some extensions,
                 hs_active := (case hs_active incoming of None \<Rightarrow> Some False | Some b \<Rightarrow> Some b)\<rparr>)
              META_TAG_CATALOG instance_tag of
         (inst, h2) \<Rightarrow>
         (case add_service (st1\<lparr>heap := h2\<rparr>) (uuidv4 P k) inst of
            (created, st') \<Rightarrow> (Created created, st'))))))"

text \<open>What a reader of the store finds in the HealthcareService stored under an id.\<close>

definition stored_tags :: "fhir_store \<Rightarrow> string \<Rightarrow> tag list option" where
  "stored_tags st i = map_option (tags_of (heap st)) (HealthcareService st i)"

definition stored_extensions :: "fhir_store \<Rightarrow> string \<Rightarrow> extension list option" where
  "stored_extensions st i =
     (case HealthcareService st i of
        None \<Rightarrow> None
      | Some r \<Rightarrow> Some (case extensions_of st r of None \<Rightarrow> [] | Some xs \<Rightarrow> xs))"


section \<open>The policy enforcement point (ds-auth-adapter)\<close>

subsection \<open>Identity mapping (mapper.js)\<close>

text \<open>The body of an answer of the introspection endpoint, as the adapter reads it.\<close>

record introspection =
  in_active :: bool
  in_sub :: "string option"
  in_scope :: "string option"
  in_iss :: "string option"
  in_aud :: "string option"
  in_jti :: "string option"
  in_iat :: "int option"
  in_client_id :: "string option"
  in_patient :: "string option"
  in_fhirContext :: "context_entry list option"
  in_cnf :: "string option"

text \<open>
  The payload that \<open>mapIdentity\<close> signs. The local token is the payload that \<open>jwt.sign\<close>
  makes of it; the signature (HS256) belongs to the JWT library.
\<close>

record localPayload =
  lp_sub :: "string option"
  lp_scope :: "string option"
  lp_iss :: "string option"
  lp_aud :: "string option"
  lp_jti :: "string option"
  lp_iat :: "int option"
  lp_client_id :: "string option"
  lp_fhirContext :: "context_entry list option"
  lp_cnf :: "string option"
  lp_patient :: string
  lp_exp :: "int option"

datatype mapper_error =
    Token_is_not_active
  | Missing_mandatory_patient_context
  | Invalid_patient_identifier_format
  | Iat_should_be_a_number_of_seconds

text \<open>
  \<open>jwt.sign(localPayload, key, {algorithm: 'HS256', expiresIn: '30s'})\<close> of the library
  jsonwebtoken. The payload of \<open>mapIdentity\<close> always has the key \<open>iat\<close>, and the
  validation of the payload throws where its value is not a number (\<open>None\<close>: the
  introspection answer had no \<open>iat\<close>, or one of another type). Otherwise the
  timestamp is \<open>payload.iat || now\<close>; it becomes \<open>iat\<close>, and \<open>exp\<close> is 30 seconds later.
\<close>

definition jwt_sign :: "platform \<Rightarrow> localPayload \<Rightarrow> mapper_error + localPayload" where
  "jwt_sign P payload =
     (case lp_iat payload of
        None \<Rightarrow> Inl Iat_should_be_a_number_of_seconds
      | Some n \<Rightarrow>
          (let timestamp = (if n = 0 then now P else n)
           in Inr (payload\<lparr>lp_iat := Some timestamp, lp_exp := Some (timestamp + 30)\<rparr>)))"

definition mapIdentity :: "platform \<Rightarrow> introspection \<Rightarrow> mapper_error + localPayload" where
  "mapIdentity P pcmIntrospectionResult =
     (if \<not> in_active pcmIntrospectionResult then Inl Token_is_not_active
      else case in_patient pcmIntrospectionResult of
        None \<Rightarrow> Inl Missing_mandatory_patient_context
      | Some patientCtx \<Rightarrow>
      if patientCtx = [] then Inl Missing_mandatory_patient_context
      else if includes_char patientCtx (CHR ''|'')
      then (case at_index (split (CHR ''|'') patientCtx) 1 of
              None \<Rightarrow> Inl Invalid_patient_identifier_format
            | Some v \<Rightarrow>
                jwt_sign P
                  \<lparr>lp_sub = in_client_id pcmIntrospectionResult,
                   lp_scope = in_scope pcmIntrospectionResult,
                   lp_iss = in_iss pcmIntrospectionResult,
                   lp_aud = in_aud pcmIntrospectionResult,
                   lp_jti = in_jti pcmIntrospectionResult,
                   lp_iat = in_iat pcmIntrospectionResult,
                   lp_client_id = in_client_id pcmIntrospectionResult,
                   lp_fhirContext = in_fhirContext pcmIntrospectionResult,
                   lp_cnf = in_cnf pcmIntrospectionResult,
                   lp_patient = ''Patient/'' @ sha256_hex P v,
                   lp_exp = None\<rparr>)
      else Inl Invalid_patient_identifier_format)"

subsection \<open>The auth check (index.js)\<close>

text \<open>
  An outbound call of axios ends with a response, with an error that carries the
  status of a response outside 2xx, or with an error without a response.
\<close>

datatype 'a http_result = Response 'a | Http_error nat | Network_error

record smart_configuration =
  token_endpoint :: string
  introspection_endpoint :: string

text \<open>
  PCM as the adapter sees it: the answer to the discovery request, to a token
  request at a URL for a resource (the \<open>access_token\<close> member of the body, \<open>None\<close> where
  the body has none), and to an introspection request at a URL with a bearer token
  and a token to inspect.
\<close>

record pcm =
  discovery :: "smart_configuration http_result"
  token_call :: "string \<Rightarrow> string \<Rightarrow> string option http_result"
  introspect_call :: "string \<Rightarrow> string \<Rightarrow> string \<Rightarrow> introspection http_result"

text \<open>The two module variables of the adapter.\<close>

record adapter_state =
  smartConfig :: "smart_configuration option"
  introspectionToken :: "string option"

datatype outbound =
    Discovery_request
  | Token_request string string
  | Introspection_request string string string

text \<open>\<open>PCM_AUTH_URL\<close> with the environment variable unset.\<close>

definition PCM_AUTH_URL :: string where
  "PCM_AUTH_URL = ''https://pcm-core:3000''"

text \<open>
  \<open>getSmartConfiguration\<close>: the configuration, the state and the calls made. A failed
  discovery gives the configured endpoints and is not cached.
\<close>

definition getSmartConfiguration ::
  "pcm \<Rightarrow> adapter_state \<Rightarrow> smart_configuration \<times> adapter_state \<times> outbound list" where
  "getSmartConfiguration E s =
     (case smartConfig s of
        Some c \<Rightarrow> (c, s, [])
      | None \<Rightarrow>
          (case discovery E of
             Response c \<Rightarrow> (c, s\<lparr>smartConfig := Some c\<rparr>, [Discovery_request])
           | _ \<Rightarrow> (\<lparr>token_endpoint = PCM_AUTH_URL @ ''/token'',
                     introspection_endpoint = PCM_AUTH_URL @ ''/introspect''\<rparr>,
                    s, [Discovery_request])))"

text \<open>\<open>config.token_endpoint.replace(/\/token$/, '')\<close>.\<close>

definition authBase :: "string \<Rightarrow> string" where
  "authBase url =
     (if length url \<ge> 6 \<and> drop (length url - 6) url = ''/token''
      then take (length url - 6) url else url)"

text \<open>
  \<open>getIntrospectionToken\<close>: the cached token where \<open>if (introspectionToken)\<close> finds
  one (a token that is absent or the empty string is requested again), or the
  \<open>access_token\<close> of a new token request, which is cached; the error of the request is
  thrown on.
\<close>

definition getIntrospectionToken ::
  "pcm \<Rightarrow> adapter_state \<Rightarrow> string option http_result \<times> adapter_state \<times> outbound list" where
  "getIntrospectionToken E s =
     (if truthy (introspectionToken s) then (Response (introspectionToken s), s, [])
      else
          (case getSmartConfiguration E s of
             (config, s1, calls) \<Rightarrow>
               (case token_call E (token_endpoint config) (authBase (token_endpoint config)) of
                  Response t \<Rightarrow>
                    (Response t, s1\<lparr>introspectionToken := t\<rparr>,
                     calls @ [Token_request (token_endpoint config) (authBase (token_endpoint config))])
                | e \<Rightarrow>
                    (e, s1,
                     calls @ [Token_request (token_endpoint config) (authBase (token_endpoint config))]))))"

text \<open>The template \<open>`Bearer ${accessToken}`\<close> without its prefix.\<close>

definition template :: "string option \<Rightarrow> string" where
  "template v = (case v of None \<Rightarrow> ''undefined'' | Some t \<Rightarrow> t)"

text \<open>
  Steps 2 and 3 of \<open>handleAuthCheck\<close>: the access token, the configuration and the
  introspection request for the token of the caller.
\<close>

definition introspect ::
  "pcm \<Rightarrow> adapter_state \<Rightarrow> string \<Rightarrow> introspection http_result \<times> adapter_state \<times> outbound list" where
  "introspect E s token =
     (case getIntrospectionToken E s of
        (Http_error n, s1, calls) \<Rightarrow> (Http_error n, s1, calls)
      | (Network_error, s1, calls) \<Rightarrow> (Network_error, s1, calls)
      | (Response accessToken, s1, calls) \<Rightarrow>
          (case getSmartConfiguration E s1 of
             (config, s2, calls2) \<Rightarrow>
               (introspect_call E (introspection_endpoint config) (template accessToken) token, s2,
                calls @ calls2
                  @ [Introspection_request (introspection_endpoint config)
                       (template accessToken) token])))"

datatype adapter_response = Unauthorized string | Authorized localPayload

text \<open>
  \<open>handleAuthCheck\<close> for the \<open>Authorization\<close> header of the request: the answer (401
  with its text, or 200 with the local token in \<open>X-Local-Token\<close>), the state of the
  adapter after the request and the outbound calls made, in order. The comparison of
  the certificate thumbprint with \<open>cnf\<close> only writes to the log and is left out.
\<close>

definition handleAuthCheck ::
  "platform \<Rightarrow> pcm \<Rightarrow> adapter_state \<Rightarrow> string option
     \<Rightarrow> adapter_response \<times> adapter_state \<times> outbound list" where
  "handleAuthCheck P E s authHeader =
     (case authHeader of
        None \<Rightarrow> (Unauthorized ''Missing Token'', s, [])
      | Some h \<Rightarrow>
      if h = [] \<or> \<not> startsWith h ''Bearer '' then (Unauthorized ''Missing Token'', s, [])
      else
      (case introspect E s (the_default [] (at_index (split (CHR '' '') h) 1)) of
         (Response r, s', calls) \<Rightarrow>
           if \<not> in_active r then (Unauthorized ''Token Inactive'', s', calls)
           else (case mapIdentity P r of
                   Inl e \<Rightarrow> (Unauthorized ''Unauthorized'', s', calls)
                 | Inr localToken \<Rightarrow> (Authorized localToken, s', calls))
       | (Http_error n, s', calls) \<Rightarrow>
           (Unauthorized ''Unauthorized'',
            (if n = 401 \<or> n = 403 then s'\<lparr>introspectionToken := None\<rparr> else s'), calls)
       | (Network_error, s', calls) \<Rightarrow> (Unauthorized ''Unauthorized'', s', calls)))"

text \<open>The calls of one kind in a list of outbound calls.\<close>

definition introspection_requests :: "outbound list \<Rightarrow> outbound list" where
  "introspection_requests calls =
     filter (\<lambda>c. case c of Introspection_request u b t \<Rightarrow> True | _ \<Rightarrow> False) calls"

definition token_requests :: "outbound list \<Rightarrow> outbound list" where
  "token_requests calls = filter (\<lambda>c. case c of Token_request u r \<Rightarrow> True | _ \<Rightarrow> False) calls"

text \<open>
  An example of PCM: the access token \<open>stale\<close> is refused with 401, a token request
  gives the access token \<open>fresh\<close>, and with it the token \<open>user-token\<close> is active for
  the patient \<open>sys|123\<close>, the token \<open>anonymous-token\<close> is active without a patient, the
  token \<open>piped-token\<close> is active for the patient \<open>sys|12|34\<close> and the token
  \<open>undated-token\<close> is active for the patient \<open>sys|123\<close> without an \<open>iat\<close>.
\<close>

definition example_introspection :: introspection where
  "example_introspection = \<lparr>in_active = True, in_sub = Some sp_client_id,
     in_scope = Some DS_SCOPE, in_iss = Some ''http://pcm.fhir.health.gov.il/'',
     in_aud = Some ds_address, in_jti = None, in_iat = Some 1000,
     in_client_id = Some sp_client_id, in_patient = Some ''sys|123'',
     in_fhirContext = Some [], in_cnf = Some ''x5t:der:QUJDRUZH''\<rparr>"

definition inactive_introspection :: introspection where
  "inactive_introspection = \<lparr>in_active = False, in_sub = None, in_scope = None, in_iss = None,
     in_aud = None, in_jti = None, in_iat = None, in_client_id = None, in_patient = None,
     in_fhirContext = None, in_cnf = None\<rparr>"

definition example_pcm :: pcm where
  "example_pcm = \<lparr>
     discovery = Response \<lparr>token_endpoint = ''https://pcm-core:3000/token'',
                           introspection_endpoint = ''https://pcm-core:3000/introspect''\<rparr>,
     token_call = (\<lambda>url res. Response (Some ''fresh'')),
     introspect_call = (\<lambda>url bearer token.
        if bearer \<noteq> ''fresh'' then Http_error 401
        else if token = ''user-token'' then Response example_introspection
        else if token = ''anonymous-token''
          then Response (example_introspection\<lparr>in_patient := None\<rparr>)
        else if token = ''piped-token''
          then Response (example_introspection\<lparr>in_patient := Some ''sys|12|34''\<rparr>)
        else if token = ''undated-token''
          then Response (example_introspection\<lparr>in_iat := None\<rparr>)
        else Response inactive_introspection)\<rparr>"

definition stale_state :: adapter_state where
  "stale_state = \<lparr>smartConfig = Some \<lparr>token_endpoint = ''https://pcm-core:3000/token'',
                           introspection_endpoint = ''https://pcm-core:3000/introspect''\<rparr>,
     introspectionToken = Some ''stale''\<rparr>"

definition fresh_state :: adapter_state where
  "fresh_state = stale_state\<lparr>introspectionToken := Some ''fresh''\<rparr>"

definition example_localToken :: localPayload where
  "example_localToken = \<lparr>lp_sub = Some sp_client_id, lp_scope = Some DS_SCOPE,
     lp_iss = Some ''http://pcm.fhir.health.gov.il/'', lp_aud = Some ds_address,
     lp_jti = None, lp_iat = Some 1000, lp_client_id = Some sp_client_id,
     lp_fhirContext = Some [], lp_cnf = Some ''x5t:der:QUJDRUZH'',
     lp_patient = ''Patient/hex:123'', lp_exp = Some 1030\<rparr>"

text \<open>
  PCM with a discovery request that is refused with 401, and the state of an adapter
  that has no configuration yet and holds the access token \<open>fresh\<close>.
\<close>

definition undiscoverable_pcm :: pcm where
  "undiscoverable_pcm = example_pcm\<lparr>discovery := Http_error 401\<rparr>"

definition undiscovered_state :: adapter_state where
  "undiscovered_state = \<lparr>smartConfig = None, introspectionToken = Some ''fresh''\<rparr>"


section \<open>Example requests to the FHIR routes\<close>

text \<open>
  A body for \<open>PUT /Consent/c1\<close> that sets the status to \<open>inactive\<close> and changes other
  members of the stored consent.
\<close>

definition deactivation_with_note :: consent where
  "deactivation_with_note = \<lparr>con_id = Some ''c1'', con_status = Some ''inactive'',
     con_identifier = None, con_patient = None, con_actor = None, con_extension = None,
     con_other = [(''note'', ''changed'')]\<rparr>"

text \<open>A token of the client of the data source \<open>org-vaccine-repo\<close>.\<close>

definition ds_token :: tokenData where
  "ds_token = \<lparr>active = True,
     sub = ''http://pcm.fhir.health.gov.il/Organization/org-vaccine-repo'',
     scope = ''system/*.cruds'', iss = ''http://pcm.fhir.health.gov.il/'',
     aud = ''https://pcm.fhir.health.gov.il/r4'',
     client_id = ''http://pcm.fhir.health.gov.il/Organization/org-vaccine-repo'',
     organization_id = ''org-vaccine-repo'', patient = None, fhirContext = [],
     cnf = Some ''x5t:der:QUJDRUZH'', exp = 1030, iat = 1000\<rparr>"

text \<open>A second Endpoint of the data source, with the address of its first one.\<close>

definition second_endpoint :: endpoint where
  "second_endpoint = \<lparr>ep_resourceType = Some ''Endpoint'', ep_id = Some ''endpoint-copy'',
     ep_address = Some ''https://ds-gateway:8080/fhir'',
     ep_managingOrganization = Some ''Organization/org-vaccine-repo''\<rparr>"

text \<open>Bodies for \<open>POST /HealthcareService\<close>.\<close>

definition plain_service :: service_body where
  "plain_service = \<lparr>sb_resourceType = Some ''HealthcareService'', sb_id = None,
     sb_name = Some ''Clinic'', sb_active = None, sb_providedBy = None, sb_identifier = None,
     sb_meta = None, sb_extension = None, sb_address = None\<rparr>"

definition identified_service :: service_body where
  "identified_service = plain_service\<lparr>sb_identifier :=
     Some [\<lparr>id_system = Some ''urn:local'', id_value = Some ''42''\<rparr>]\<rparr>"

definition tagged_service :: service_body where
  "tagged_service = plain_service\<lparr>sb_meta := Some (Some [instance_tag])\<rparr>"

text \<open>The platform of the examples, for requests that carry no assertion.\<close>

definition the_platform :: platform where
  "the_platform = example_platform (plain_assertion ''pcm-core'')"

section \<open>What the creation of an instance is expected to store\<close>

text \<open>
  Does the body carry a first identifier? The canonical copy then keeps the
  identifiers of the body, and no catalog identifier is generated.
\<close>

definition has_identifier :: "service_body \<Rightarrow> bool" where
  "has_identifier body = (case sb_identifier body of Some (i # rest) \<Rightarrow> True | _ \<Rightarrow> False)"

definition generated_identifier :: "platform \<Rightarrow> ident" where
  "generated_identifier P = \<lparr>id_system = Some CATALOG_ID_SYSTEM,
     id_value = Some (''PCM-CAT-'' @ uuidv4 P 0)\<rparr>"

definition canonical_identifier :: "platform \<Rightarrow> service_body \<Rightarrow> ident list option" where
  "canonical_identifier P body =
     (if has_identifier body then sb_identifier body else Some [generated_identifier P])"

text \<open>The ids under which the canonical copy and the instance are stored.\<close>

definition canonical_id :: "platform \<Rightarrow> service_body \<Rightarrow> string" where
  "canonical_id P body = uuidv4 P (if has_identifier body then 0 else 1)"

definition instance_id :: "platform \<Rightarrow> service_body \<Rightarrow> string" where
  "instance_id P body =
     id_or_uuid (sb_id body) (uuidv4 P (if has_identifier body then 1 else 2))"

text \<open>\<open>ensureArray(body.extension)\<close>.\<close>

definition body_extensions :: "service_body \<Rightarrow> extension list" where
  "body_extensions body = (case sb_extension body of None \<Rightarrow> [] | Some xs \<Rightarrow> xs)"


section \<open>Properties of token introspection\<close>

lemma split_not_Nil: "split c s \<noteq> []"
  by (induction s) (auto split: list.splits)

lemma split_no_sep: "c \<notin> set s \<Longrightarrow> split c s = [s]"
  by (induction s) auto

lemma split_append_sep:
  "c \<notin> set p \<Longrightarrow> split c (p @ c # s) = p # split c s"
  by (induction p) (auto simp: split_not_Nil split: list.splits)

lemma split_takeWhile:
  "split c s = takeWhile (\<lambda>x. x \<noteq> c) s
     # (case dropWhile (\<lambda>x. x \<noteq> c) s of [] \<Rightarrow> [] | x # r \<Rightarrow> split c r)"
  by (induction s) (auto simp: split_not_Nil split: list.splits)

lemma split_second:
  assumes "c \<in> set s"
  shows "at_index (split c s) 1
           = Some (takeWhile (\<lambda>x. x \<noteq> c) (tl (dropWhile (\<lambda>x. x \<noteq> c) s)))"
proof -
  from assms obtain x r where d: "dropWhile (\<lambda>x. x \<noteq> c) s = x # r"
    by (cases "dropWhile (\<lambda>x. x \<noteq> c) s") (auto simp: dropWhile_eq_Nil_conv)
  have "split c s = takeWhile (\<lambda>x. x \<noteq> c) s # split c r"
    using split_takeWhile [of c s] d by simp
  moreover have "split c r = takeWhile (\<lambda>x. x \<noteq> c) r
     # (case dropWhile (\<lambda>x. x \<noteq> c) r of [] \<Rightarrow> [] | x # r \<Rightarrow> split c r)"
    by (rule split_takeWhile)
  ultimately show ?thesis
    using d by (simp add: at_index_def)
qed

lemma bearer_prefix:
  "at_index (split (CHR '' '') (''Bearer '' @ r)) 1 = Some (takeWhile (\<lambda>x. x \<noteq> CHR '' '') r)"
  using split_second [of "CHR '' ''" "''Bearer '' @ r"] by simp

lemma bearer_token:
  assumes "startsWith h ''Bearer ''"
  shows "at_index (split (CHR '' '') h) 1 = Some (takeWhile (\<lambda>x. x \<noteq> CHR '' '') (drop 7 h))"
proof -
  from assms have "take 7 h = ''Bearer ''"
    by (simp add: startsWith_def eval_nat_numeral)
  then have h: "''Bearer '' @ drop 7 h = h"
    using append_take_drop_id [of 7 h] by simp
  have "at_index (split (CHR '' '') (''Bearer '' @ drop 7 h)) 1
          = Some (takeWhile (\<lambda>x. x \<noteq> CHR '' '') (drop 7 h))"
    by (rule bearer_prefix)
  then show ?thesis
    by (simp only: h)
qed

lemma requireAuth_cases:
  "requireAuth toks t authHeader =
     (case authHeader of
        None \<Rightarrow> (Inl (Auth_failure 401 ''Unauthorized''), toks)
      | Some h \<Rightarrow>
          if \<not> startsWith h ''Bearer '' then (Inl (Auth_failure 401 ''Unauthorized''), toks)
          else (case toks (takeWhile (\<lambda>x. x \<noteq> CHR '' '') (drop 7 h)) of
                  None \<Rightarrow> (Inl (Auth_failure 401 ''Invalid Token''), toks)
                | Some d \<Rightarrow>
                    if exp d < t
                    then (Inl (Auth_failure 401 ''Token Expired''),
                          toks(takeWhile (\<lambda>x. x \<noteq> CHR '' '') (drop 7 h) := None))
                    else (Inr d, toks)))"
proof (cases authHeader)
  case None
  then show ?thesis by (simp add: requireAuth_def)
next
  case (Some h)
  show ?thesis
  proof (cases "startsWith h ''Bearer ''")
    case False
    then show ?thesis using Some by (simp add: requireAuth_def)
  next
    case True
    then have "h \<noteq> []" by (auto simp: startsWith_def)
    then show ?thesis
      using Some True bearer_token [OF True] by (simp add: requireAuth_def)
  qed
qed

lemma takeWhile_no_blank:
  "c \<notin> set tk \<Longrightarrow> takeWhile (\<lambda>x. x \<noteq> c) tk = tk"
  by (induction tk) auto

lemma requireAuth_accepts:
  assumes "CHR '' '' \<notin> set tk" and "toks tk = Some d" and "\<not> exp d < t"
  shows "requireAuth toks t (Some (''Bearer '' @ tk)) = (Inr d, toks)"
proof -
  have "startsWith (''Bearer '' @ tk) ''Bearer ''"
    by (simp add: startsWith_def)
  then show ?thesis
    using assms(2,3) by (simp add: requireAuth_cases takeWhile_no_blank [OF assms(1)])
qed

lemma requireAuth_user:
  assumes "requireAuth toks t h = (Inr d, toks')"
  shows "toks' = toks \<and> (\<exists>tk. toks tk = Some d) \<and> \<not> exp d < t"
  using assms
  by (auto simp: requireAuth_def split: option.splits if_splits)

lemma issueToken_tokens:
  "fst (snd (issueToken P st toks req)) k = Some d \<Longrightarrow> toks k = Some d \<or> active d"
  by (auto simp: issueToken_def Let_def split: sum.splits prod.splits option.splits if_splits)

lemma post_token_tokens:
  "fst (snd (post_token P st toks req)) k = Some d \<Longrightarrow> toks k = Some d \<or> active d"
  using issueToken_tokens [of P st toks req k d] by (simp add: post_token_def split: if_splits)

lemma requireAuth_tokens:
  "snd (requireAuth toks t h) k = Some d \<Longrightarrow> toks k = Some d"
  by (auto simp: requireAuth_def split: option.splits if_splits)

lemma post_introspect_tokens:
  "snd (post_introspect st toks t req) k = Some d \<Longrightarrow> toks k = Some d"
  using requireAuth_tokens [of toks t "authorization req" k d]
  by (auto simp: post_introspect_def split: prod.splits sum.splits if_splits)

lemma reachable_active: "reachable toks \<Longrightarrow> toks tk = Some d \<Longrightarrow> active d"
proof (induction arbitrary: tk d rule: reachable.induct)
  case fresh
  then show ?case by simp
next
  case (issued toks P st req)
  from post_token_tokens [of P st toks req tk d] issued show ?case
    by blast
next
  case (introspected toks st t ireq)
  from post_introspect_tokens [of st toks t ireq tk d] introspected show ?case
    by blast
qed

lemma inspect_target_cases:
  "inspect_target toks t a token =
     (case token of
        None \<Rightarrow> Error_response 400 ''missing_token'' None
      | Some tk \<Rightarrow>
          if tk = [] then Error_response 400 ''missing_token'' None
          else (case toks tk of
                  None \<Rightarrow> Inactive
                | Some d \<Rightarrow> if t \<le> exp d \<and> Text (aud d) = a then Token_record d else Inactive))"
  by (auto simp: inspect_target_def split: option.splits)

text \<open>
  Where the first entry of the \<open>endpoint\<close> list of the caller's Organization names a
  stored Endpoint, the address that introspection compares with is the \<open>address\<close> of
  that Endpoint.
\<close>

lemma introspectorAddress_Endpoint:
  assumes "organization_id user \<noteq> []"
    and "Organization st (organization_id user) = Some org"
    and "org_endpoint org = Some (Some (''Endpoint/'' @ i) # others)"
    and "CHR ''/'' \<notin> set i"
    and "Endpoint st i = Some e" and "ep_address e = Some a" and "a \<noteq> []"
  shows "introspectorAddress st user = Inr (Text a)"
proof -
  have "split (CHR ''/'') (''Endpoint/'' @ i) = [''Endpoint'', i]"
    using split_append_sep [of "CHR ''/''" "''Endpoint''" i] split_no_sep [OF assms(4)]
    by simp
  then show ?thesis
    using assms
    by (simp add: introspectorAddress_def get_def map_get_def at_index_def address_def)
qed

text \<open>
  C1, as amended. A request to \<open>POST /introspect\<close> that presents a client certificate
  and a bearer token accepted by \<open>requireAuth\<close>, and whose caller's Organization
  resolves to an address \<open>a\<close>, is answered with 400 \<open>missing_token\<close> when its \<open>token\<close>
  field is missing or the empty string; otherwise with the stored record of the
  submitted token, verbatim, when the token is in the token map, its \<open>exp\<close> is not
  earlier than the current time and its \<open>aud\<close> is \<open>a\<close>, and with \<open>{active: false}\<close> when
  it is not. On a token map that the routes can produce, the answer carries
  \<open>active: true\<close> exactly in the case of the stored record. The token map is left as
  it was.
\<close>

theorem introspect_active_iff:
  assumes "reachable toks"
    and "ir_authorized req"
    and "requireAuth toks t (authorization req) = (Inr user, toks')"
    and "introspectorAddress st user = Inr a"
  shows "fst (post_introspect st toks t req) =
           (case token_field req of
              None \<Rightarrow> Error_response 400 ''missing_token'' None
            | Some tk \<Rightarrow>
                if tk = [] then Error_response 400 ''missing_token'' None
                else (case toks tk of
                        None \<Rightarrow> Inactive
                      | Some d \<Rightarrow>
                          if t \<le> exp d \<and> Text (aud d) = a then Token_record d else Inactive))
         \<and> (says_active (fst (post_introspect st toks t req))
              \<longleftrightarrow> (\<exists>tk d. token_field req = Some tk \<and> tk \<noteq> [] \<and> toks tk = Some d
                           \<and> t \<le> exp d \<and> Text (aud d) = a))
         \<and> snd (post_introspect st toks t req) = toks"
proof -
  from assms(3) have same: "toks' = toks"
    using requireAuth_user by blast
  have answer: "fst (post_introspect st toks t req) = inspect_target toks t a (token_field req)"
    and kept: "snd (post_introspect st toks t req) = toks"
    using assms(2-4) same by (simp_all add: post_introspect_def introspectToken_def)
  have second: "says_active (inspect_target toks t a (token_field req))
              \<longleftrightarrow> (\<exists>tk d. token_field req = Some tk \<and> tk \<noteq> [] \<and> toks tk = Some d
                           \<and> t \<le> exp d \<and> Text (aud d) = a)"
  proof (cases "token_field req")
    case None
    then show ?thesis by (simp add: inspect_target_cases says_active_def)
  next
    case (Some tk)
    show ?thesis
    proof (cases "toks tk")
      case None
      then show ?thesis using Some by (simp add: inspect_target_cases says_active_def)
    next
      case inner: (Some d)
      then have "active d" using reachable_active [OF assms(1)] by blast
      then show ?thesis using Some inner by (simp add: inspect_target_cases says_active_def)
    qed
  qed
  from answer second kept show ?thesis
    using inspect_target_cases [of toks t a "token_field req"] by simp
qed

lemmas example_defs = example_platform_def plain_assertion_def example_request_def example_pem_def

lemma example_authenticated:
  "authenticate_client (example_platform (plain_assertion ''pcm-core''))
     (example_request ''https://pcm.fhir.health.gov.il/r4'')
   = Inr (''https://pcm.fhir.health.gov.il/r4'', plain_assertion ''pcm-core'', clients ! 3)"
  by (simp add: authenticate_client_def example_defs clients_def truthy_def
      isAllowedAudience_def tokenEndpointCandidates_def)

lemma example_thumbprint:
  "certToX5tS256 (example_platform d) (Pem example_pem) = ''x5t:der:QUJDRUZH''"
  by (simp add: certToX5tS256_def example_defs startsWith_def trim_def is_space_def)

lemma example_confirmation:
  "confirmation (example_platform d) cl (example_request r)
   = (Some ''x5t:der:QUJDRUZH'',
      [Thumbprint_mismatch ''x5t:der:QUJDRUZH'' ''x5t:peer-der'' (clientId cl)])"
proof -
  have "readFileSync (example_platform d) 1 (certPath cl) = Some example_pem"
    and "peer_raw (example_request r) = Some ''peer-der''"
    and "certToX5tS256 (example_platform d) (Der ''peer-der'') = ''x5t:peer-der''"
    by (simp_all add: example_platform_def example_request_def certToX5tS256_def)
  then show ?thesis
    by (simp add: confirmation_def example_thumbprint)
qed

lemma pcm_core_issue:
  "post_token (example_platform (plain_assertion ''pcm-core'')) bootstrap toks
     (example_request ''https://pcm.fhir.health.gov.il/r4'')
   = (Token_response ''uuid-'' ''Bearer'' 30 ''system/*.cruds'', toks(''uuid-'' \<mapsto> pcm_core_token),
      [Thumbprint_mismatch ''x5t:der:QUJDRUZH'' ''x5t:peer-der'' ''pcm-core''])"
proof -
  have "authorized (example_request ''https://pcm.fhir.health.gov.il/r4'')"
    and "uuidv4 (example_platform (plain_assertion ''pcm-core'')) 0 = ''uuid-''"
    and "now (example_platform (plain_assertion ''pcm-core'')) = 1000"
    and "hl7_b2b (plain_assertion ''pcm-core'') = None"
    by (simp_all add: example_platform_def example_request_def plain_assertion_def)
  then show ?thesis
    unfolding post_token_def issueToken_def example_authenticated
    by (simp add: example_confirmation build_fhirContext_def pcm_core_token_def clients_def Let_def)
qed

lemma pcm_core_tokens_eq: "pcm_core_tokens = [''uuid-'' \<mapsto> pcm_core_token]"
  by (simp add: pcm_core_tokens_def pcm_core_issue)

lemma pcm_core_address:
  "introspectorAddress bootstrap pcm_core_token = Inr (Text ''https://pcm.fhir.health.gov.il/r4'')"
  by (simp add: introspectorAddress_def bootstrap_def pcm_core_token_def orgPcm_def get_def
      map_get_def at_index_def address_def endpointPcmSystem_def)

lemma pcm_core_accepted:
  "requireAuth pcm_core_tokens 1010 (Some ''Bearer uuid-'') = (Inr pcm_core_token, pcm_core_tokens)"
  using requireAuth_accepts [of "''uuid-''" pcm_core_tokens pcm_core_token 1010]
  by (simp add: pcm_core_tokens_eq) (simp add: pcm_core_token_def)

lemma reachable_pcm_core_tokens: "reachable pcm_core_tokens"
  unfolding pcm_core_tokens_def by (rule reachable.issued) (rule reachable.fresh)

theorem introspect_active_iff_witness:
  "reachable pcm_core_tokens
   \<and> ir_authorized (pcm_core_introspects ''uuid-'')
   \<and> requireAuth pcm_core_tokens 1010 (authorization (pcm_core_introspects ''uuid-''))
       = (Inr pcm_core_token, pcm_core_tokens)
   \<and> introspectorAddress bootstrap pcm_core_token
       = Inr (Text ''https://pcm.fhir.health.gov.il/r4'')
   \<and> post_introspect bootstrap pcm_core_tokens 1010 (pcm_core_introspects ''uuid-'')
       = (Token_record pcm_core_token, pcm_core_tokens)
   \<and> says_active (fst (post_introspect bootstrap pcm_core_tokens 1010 (pcm_core_introspects ''uuid-'')))
   \<and> post_introspect bootstrap pcm_core_tokens 1010 (pcm_core_introspects ''other'')
       = (Inactive, pcm_core_tokens)
   \<and> post_introspect bootstrap pcm_core_tokens 1010
         ((pcm_core_introspects ''uuid-'')\<lparr>token_field := None\<rparr>)
       = (Error_response 400 ''missing_token'' None, pcm_core_tokens)
   \<and> post_introspect bootstrap pcm_core_tokens 1010 (pcm_core_introspects [])
       = (Error_response 400 ''missing_token'' None, pcm_core_tokens)"
proof -
  have auth: "requireAuth pcm_core_tokens 1010 (authorization (pcm_core_introspects tk))
       = (Inr pcm_core_token, pcm_core_tokens)"
    and cert: "ir_authorized (pcm_core_introspects tk)" for tk
    using pcm_core_accepted by (simp_all add: pcm_core_introspects_def)
  have auth': "requireAuth pcm_core_tokens 1010
         (authorization ((pcm_core_introspects ''uuid-'')\<lparr>token_field := None\<rparr>))
       = (Inr pcm_core_token, pcm_core_tokens)"
    and cert': "ir_authorized ((pcm_core_introspects ''uuid-'')\<lparr>token_field := None\<rparr>)"
    using pcm_core_accepted by (simp_all add: pcm_core_introspects_def)
  have stored: "pcm_core_tokens ''uuid-'' = Some pcm_core_token"
    "pcm_core_tokens ''other'' = None"
    by (simp_all add: pcm_core_tokens_eq)
  have fresh_enough: "(1010::int) \<le> exp pcm_core_token"
    and audience: "aud pcm_core_token = ''https://pcm.fhir.health.gov.il/r4''"
    and act: "says_active (Token_record pcm_core_token)"
    by (simp_all add: pcm_core_token_def says_active_def)
  have fields: "token_field (pcm_core_introspects tk) = Some tk" for tk
    by (simp add: pcm_core_introspects_def)
  from introspect_active_iff [OF reachable_pcm_core_tokens cert auth pcm_core_address,
      of "''uuid-''"]
    introspect_active_iff [OF reachable_pcm_core_tokens cert auth pcm_core_address,
      of "''other''"]
    introspect_active_iff [OF reachable_pcm_core_tokens cert auth pcm_core_address,
      of "[]"]
    introspect_active_iff [OF reachable_pcm_core_tokens cert' auth' pcm_core_address]
  show ?thesis
    using auth [of "''uuid-''"] cert [of "''uuid-''"] stored fresh_enough audience act
      reachable_pcm_core_tokens pcm_core_address
    by (simp add: fields prod_eq_iff)
qed

text \<open>
  C1, as stated, fails: the caller is authenticated and its Organization resolves to
  an Endpoint, the submitted token is the empty string, which is not in the token
  map, and the answer is 400 \<open>missing_token\<close>, not \<open>{active: false}\<close>.
\<close>

theorem introspect_empty_token_counterexample:
  "requireAuth pcm_core_tokens 1010 (authorization (pcm_core_introspects []))
       = (Inr pcm_core_token, pcm_core_tokens)
   \<and> introspectorAddress bootstrap pcm_core_token
       = Inr (Text ''https://pcm.fhir.health.gov.il/r4'')
   \<and> pcm_core_tokens [] = None
   \<and> fst (post_introspect bootstrap pcm_core_tokens 1010 (pcm_core_introspects []))
       = Error_response 400 ''missing_token'' None
   \<and> fst (post_introspect bootstrap pcm_core_tokens 1010 (pcm_core_introspects [])) \<noteq> Inactive"
  using pcm_core_accepted pcm_core_address
  by (simp add: pcm_core_introspects_def post_introspect_def introspectToken_def
      inspect_target_def pcm_core_tokens_eq)

section \<open>Properties of the bearer check of introspection\<close>

lemma introspectToken_scope:
  "introspectToken st toks t (d\<lparr>scope := s\<rparr>) tok = introspectToken st toks t d tok"
  by (simp add: introspectToken_def introspectorAddress_def)

text \<open>
  C7, as amended. \<open>POST /introspect\<close> rejects with 401 a request that has no
  \<open>Authorization\<close> header or one that does not start with \<open>Bearer\<close> and a blank
  (\<open>Unauthorized\<close>), and a request whose bearer token, the text of the header after
  that prefix up to the next blank, is not in the token map (\<open>Invalid Token\<close>) or has
  expired (\<open>Token Expired\<close>; the token is deleted). Every other request is handed to
  the introspection handler, whatever the scope of the bearer token: the handler's
  answer is the same for every value of the \<open>scope\<close> of the caller's token.
\<close>

theorem introspect_ignores_scope:
  assumes "ir_authorized req"
  shows "post_introspect st toks t req =
           (case authorization req of
              None \<Rightarrow> (Auth_failure 401 ''Unauthorized'', toks)
            | Some h \<Rightarrow>
                if \<not> startsWith h ''Bearer '' then (Auth_failure 401 ''Unauthorized'', toks)
                else (case toks (takeWhile (\<lambda>x. x \<noteq> CHR '' '') (drop 7 h)) of
                        None \<Rightarrow> (Auth_failure 401 ''Invalid Token'', toks)
                      | Some d \<Rightarrow>
                          if exp d < t
                          then (Auth_failure 401 ''Token Expired'',
                                toks(takeWhile (\<lambda>x. x \<noteq> CHR '' '') (drop 7 h) := None))
                          else (introspectToken st toks t d (token_field req), toks)))
         \<and> introspectToken st toks t (user\<lparr>scope := s\<rparr>) (token_field req)
             = introspectToken st toks t user (token_field req)"
  using assms introspectToken_scope [where st = st and toks = toks and d = user and s = s]
  by (simp add: post_introspect_def requireAuth_cases split: option.splits)

theorem introspect_ignores_scope_witness:
  "ir_authorized (pcm_core_introspects ''uuid-'')
   \<and> post_introspect bootstrap pcm_core_tokens 1031 (pcm_core_introspects ''uuid-'')
       = (Auth_failure 401 ''Token Expired'', Map.empty)
   \<and> post_introspect bootstrap pcm_core_tokens 1030 (pcm_core_introspects ''uuid-'')
       = (introspectToken bootstrap pcm_core_tokens 1030 pcm_core_token (Some ''uuid-''),
          pcm_core_tokens)
   \<and> ir_authorized ((pcm_core_introspects ''uuid-'')\<lparr>authorization := None\<rparr>)
   \<and> post_introspect bootstrap pcm_core_tokens 1030
        ((pcm_core_introspects ''uuid-'')\<lparr>authorization := None\<rparr>)
       = (Auth_failure 401 ''Unauthorized'', pcm_core_tokens)
   \<and> ir_authorized ((pcm_core_introspects ''uuid-'')\<lparr>authorization := Some ''Basic uuid-''\<rparr>)
   \<and> post_introspect bootstrap pcm_core_tokens 1030
        ((pcm_core_introspects ''uuid-'')\<lparr>authorization := Some ''Basic uuid-''\<rparr>)
       = (Auth_failure 401 ''Unauthorized'', pcm_core_tokens)
   \<and> ir_authorized ((pcm_core_introspects ''uuid-'')\<lparr>authorization := Some ''Bearer other''\<rparr>)
   \<and> post_introspect bootstrap pcm_core_tokens 1030
        ((pcm_core_introspects ''uuid-'')\<lparr>authorization := Some ''Bearer other''\<rparr>)
       = (Auth_failure 401 ''Invalid Token'', pcm_core_tokens)"
  using introspect_ignores_scope [of "pcm_core_introspects ''uuid-''" bootstrap
      pcm_core_tokens 1031]
    introspect_ignores_scope [of "pcm_core_introspects ''uuid-''" bootstrap
      pcm_core_tokens 1030]
    introspect_ignores_scope [of "(pcm_core_introspects ''uuid-'')\<lparr>authorization := None\<rparr>"
      bootstrap pcm_core_tokens 1030]
    introspect_ignores_scope [of
      "(pcm_core_introspects ''uuid-'')\<lparr>authorization := Some ''Basic uuid-''\<rparr>"
      bootstrap pcm_core_tokens 1030]
    introspect_ignores_scope [of
      "(pcm_core_introspects ''uuid-'')\<lparr>authorization := Some ''Bearer other''\<rparr>"
      bootstrap pcm_core_tokens 1030]
  by (simp add: pcm_core_introspects_def pcm_core_tokens_eq startsWith_def)
     (simp add: pcm_core_token_def)

text \<open>
  C7, as stated, fails: the client \<open>pcm-core\<close> does not hold the scope
  \<open>introspection\<close>, its token has the scope \<open>system/*.cruds\<close>, and its request to
  \<open>POST /introspect\<close> is answered with the record of the token.
\<close>

theorem introspect_without_scope_counterexample:
  "find (\<lambda>c. clientId c = client_id pcm_core_token) clients = Some (clients ! 3)
   \<and> ''introspection'' \<notin> set (scopes (clients ! 3))
   \<and> scope pcm_core_token = ''system/*.cruds''
   \<and> pcm_core_tokens ''uuid-'' = Some pcm_core_token
   \<and> post_introspect bootstrap pcm_core_tokens 1010 (pcm_core_introspects ''uuid-'')
       = (Token_record pcm_core_token, pcm_core_tokens)"
proof -
  have "find (\<lambda>c. clientId c = client_id pcm_core_token) clients = Some (clients ! 3)"
    and "''introspection'' \<notin> set (scopes (clients ! 3))"
    and "scope pcm_core_token = ''system/*.cruds''"
    by (simp_all add: clients_def pcm_core_token_def)
  moreover have "pcm_core_tokens ''uuid-'' = Some pcm_core_token"
    by (simp add: pcm_core_tokens_eq)
  moreover have "post_introspect bootstrap pcm_core_tokens 1010 (pcm_core_introspects ''uuid-'')
       = (Token_record pcm_core_token, pcm_core_tokens)"
    using pcm_core_accepted pcm_core_address
    by (simp add: post_introspect_def pcm_core_introspects_def introspectToken_def
        inspect_target_def pcm_core_tokens_eq)
       (simp add: pcm_core_token_def)
  ultimately show ?thesis by blast
qed

section \<open>Properties of token issuance\<close>

lemma endpoint_matches_iff:
  "endpoint_matches st r eps \<longleftrightarrow> r \<in> set (endpoint_addresses st eps)"
  by (induction eps) (auto simp: endpoint_addresses_def split: option.splits)

lemma resourceMatchFound_iff_aux:
  "resourceMatchFound st r as \<longleftrightarrow>
     r \<in> set (concat (map (\<lambda>a. case map_get (Organization st) (actor_org_id a) of
                         None \<Rightarrow> []
                       | Some org \<Rightarrow>
                           (case org_endpoint org of
                              None \<Rightarrow> [] | Some eps \<Rightarrow> endpoint_addresses st eps)) as))"
  by (induction as) (auto simp: endpoint_matches_iff split: option.splits)

lemma resourceMatchFound_iff:
  "resourceMatchFound st r (filter (has_role ''CST'') (actors_of c))
     \<longleftrightarrow> r \<in> set (custodian_addresses st c)"
  unfolding custodian_addresses_def by (rule resourceMatchFound_iff_aux)

lemma isActor_iff:
  "list_ex (\<lambda>a. actor_org_id a = Some i) (actors_of c) \<longleftrightarrow> Some i \<in> set (actor_org_ids c)"
  by (force simp: actor_org_ids_def list_ex_iff)

lemma b2b_validation_Inr:
  assumes "b2b_validation st cl res u = Inr p"
    and "consentRefUrl u = Some url" and "url \<noteq> []"
  shows "\<exists>c. Consent st (pop_segment url) = Some c \<and> con_status c = Some ''active''
            \<and> Some (organizationId cl) \<in> set (actor_org_ids c)
            \<and> res \<in> set (custodian_addresses st c) \<and> p = patientContext c"
  using assms
  by (auto simp: b2b_validation_def resourceMatchFound_iff isActor_iff
      split: if_splits option.splits)

lemma b2b_validation_cases:
  assumes "map_option pop_segment (organization_id_claim u) = Some (organizationId cl)"
    and "consentRefUrl u = Some url" and "url \<noteq> []"
    and "Consent st (pop_segment url) = Some c" and "con_status c = Some ''active''"
  shows "b2b_validation st cl res u =
     (if res \<notin> set (custodian_addresses st c)
      then Inl (Error_response 400 ''invalid_target''
                  (Some ''Requested resource is not authorized by the referenced consent''))
      else if Some (organizationId cl) \<notin> set (actor_org_ids c)
      then Inl (Error_response 401 ''access_denied''
                  (Some ''Client is not a party to this consent''))
      else Inr (patientContext c))"
  using assms
  by (simp add: b2b_validation_def resourceMatchFound_iff isActor_iff)

lemma authenticate_client_error:
  "authenticate_client P req = Inl e \<Longrightarrow> \<exists>n s d. e = Error_response n s d"
  by (auto simp: authenticate_client_def invalid_client_def split: if_splits option.splits)

lemma b2b_validation_error:
  "b2b_validation st cl res u = Inl e \<Longrightarrow> \<exists>n s d. e = Error_response n s d"
  by (auto simp: b2b_validation_def split: if_splits option.splits)

lemma issueToken_issued:
  assumes "fst (issueToken P st toks req) = Token_response tk ty n sc"
  shows "\<exists>res d cl ctx p.
           authenticate_client P req = Inr (res, d, cl)
         \<and> (case hl7_b2b d of None \<Rightarrow> p = None \<and> sc = ''system/*.cruds''
             | Some u \<Rightarrow> b2b_validation st cl res u = Inr p \<and> sc = DS_SCOPE)
         \<and> build_fhirContext st (hl7_b2b d) = Some ctx
         \<and> tk = uuidv4 P 0 \<and> ty = ''Bearer'' \<and> n = 30
         \<and> issueToken P st toks req =
             (Token_response tk ty n sc,
              toks(tk \<mapsto> \<lparr>active = True, sub = clientId cl,
                 scope = (if sc \<noteq> [] then sc else join (scopes cl)),
                 iss = ''http://pcm.fhir.health.gov.il/'', aud = res,
                 client_id = clientId cl, organization_id = organizationId cl,
                 patient = p, fhirContext = ctx, cnf = fst (confirmation P cl req),
                 exp = now P + 30, iat = now P\<rparr>),
              snd (confirmation P cl req))"
  using assms
  by (auto simp: issueToken_def Let_def split: sum.splits prod.splits option.splits
      dest: authenticate_client_error b2b_validation_error)


lemma post_token_issued:
  assumes "fst (post_token P st toks req) = Token_response tk ty n sc"
  shows "authorized req \<and> post_token P st toks req = issueToken P st toks req"
  using assms by (auto simp: post_token_def split: if_splits)

text \<open>
  The entries of \<open>consent_reference\<close> after the first are not read: a request whose
  assertion differs in them only has the same answer, token map and log.
\<close>

lemma consentRefUrl_later:
  "consentRefUrl (u\<lparr>consent_reference :=
       map_option (\<lambda>refs. case refs of [] \<Rightarrow> [] | url # rest \<Rightarrow> url # later)
         (consent_reference u)\<rparr>) = consentRefUrl u"
  by (simp add: consentRefUrl_def at_index_def split: option.splits list.splits)

lemma b2b_validation_later:
  "b2b_validation st cl res (u\<lparr>consent_reference :=
       map_option (\<lambda>refs. case refs of [] \<Rightarrow> [] | url # rest \<Rightarrow> url # later)
         (consent_reference u)\<rparr>) = b2b_validation st cl res u"
  unfolding b2b_validation_def consentRefUrl_later by simp

lemma build_fhirContext_later:
  "build_fhirContext st (hl7_b2b (with_later_references later d))
     = build_fhirContext st (hl7_b2b d)"
  unfolding build_fhirContext_def with_later_references_def
  by (cases "hl7_b2b d") (simp_all add: consentRefUrl_later)

lemma authenticate_client_decoding:
  "authenticate_client (decoding (with_later_references later) P) req =
     (case authenticate_client P req of
        Inl e \<Rightarrow> Inl e
      | Inr (res, d, cl) \<Rightarrow> Inr (res, with_later_references later d, cl))"
  by (simp add: authenticate_client_def decoding_def with_later_references_def
      split: option.splits)

lemma confirmation_decoding:
  "confirmation (decoding f P) cl req = confirmation P cl req"
  by (simp add: confirmation_def decoding_def certToX5tS256_def)

lemma issueToken_later:
  "issueToken (decoding (with_later_references later) P) st toks req = issueToken P st toks req"
proof (cases "authenticate_client P req")
  case (Inl e)
  then show ?thesis
    by (simp add: issueToken_def authenticate_client_decoding)
next
  case (Inr v)
  obtain res d cl where v: "v = (res, d, cl)" by (cases v) auto
  have same: "uuidv4 (decoding (with_later_references later) P) = uuidv4 P"
    "now (decoding (with_later_references later) P) = now P"
    by (simp_all add: decoding_def)
  have ext: "hl7_b2b (with_later_references later d)
      = map_option (\<lambda>u. u\<lparr>consent_reference :=
          map_option (\<lambda>refs. case refs of [] \<Rightarrow> [] | url # rest \<Rightarrow> url # later)
            (consent_reference u)\<rparr>) (hl7_b2b d)"
    by (simp add: with_later_references_def)
  show ?thesis
  proof (cases "hl7_b2b d")
    case None
    then show ?thesis
      using Inr v ext build_fhirContext_later [of st later d]
      by (simp add: issueToken_def authenticate_client_decoding confirmation_decoding same
          Let_def case_prod_beta cong: option.case_cong)
  next
    case (Some u)
    then show ?thesis
      using Inr v ext build_fhirContext_later [of st later d]
      by (simp add: issueToken_def authenticate_client_decoding confirmation_decoding same
          b2b_validation_later Let_def case_prod_beta
          cong: option.case_cong sum.case_cong if_cong)
  qed
qed

lemma post_token_later:
  "post_token (decoding (with_later_references later) P) st toks req = post_token P st toks req"
  by (simp add: post_token_def issueToken_later)

text \<open>
  C2, as amended. For every token issued from a \<open>/token\<close> request whose assertion
  carries an \<open>hl7-b2b\<close> extension with a \<open>consent_reference\<close> list whose first entry is
  a non-empty string: the client's Organization is referenced by an actor of the
  consent that this first entry names, that consent has the status \<open>active\<close> at
  issuance, and the \<open>aud\<close> of the token is the requested resource and the address of
  an Endpoint listed by the Organization of a CST actor of that consent. The entries
  after the first are not read: whatever they are, the answer, the token map and the
  log of the request are the same.
\<close>

theorem b2b_token_binding:
  assumes "fst (post_token P st toks req) = Token_response tk ty n sc"
    and "authenticate_client P req = Inr (res, d, cl)"
    and "hl7_b2b d = Some u" and "consent_reference u = Some (url # others)" and "url \<noteq> []"
  shows "(\<exists>c td. Consent st (pop_segment url) = Some c
           \<and> con_status c = Some ''active''
           \<and> Some (organizationId cl) \<in> set (actor_org_ids c)
           \<and> fst (snd (post_token P st toks req)) tk = Some td
           \<and> organization_id td = organizationId cl
           \<and> aud td = res
           \<and> aud td \<in> set (custodian_addresses st c))
         \<and> (\<forall>later. post_token (decoding (with_later_references later) P) st toks req
                      = post_token P st toks req)"
proof -
  from assms(1) have run: "post_token P st toks req = issueToken P st toks req"
    and resp: "fst (issueToken P st toks req) = Token_response tk ty n sc"
    using post_token_issued by fastforce+
  from issueToken_issued [OF resp] assms(2,3)
  obtain ctx p where valid: "b2b_validation st cl res u = Inr p"
    and result: "issueToken P st toks req =
             (Token_response tk ty n sc,
              toks(tk \<mapsto> \<lparr>active = True, sub = clientId cl,
                 scope = (if sc \<noteq> [] then sc else join (scopes cl)),
                 iss = ''http://pcm.fhir.health.gov.il/'', aud = res,
                 client_id = clientId cl, organization_id = organizationId cl,
                 patient = p, fhirContext = ctx, cnf = fst (confirmation P cl req),
                 exp = now P + 30, iat = now P\<rparr>),
              snd (confirmation P cl req))"
    by auto
  have first: "consentRefUrl u = Some url"
    using assms(4) by (simp add: consentRefUrl_def at_index_def)
  from b2b_validation_Inr [OF valid first assms(5)]
  obtain c where "Consent st (pop_segment url) = Some c" and "con_status c = Some ''active''"
    and "Some (organizationId cl) \<in> set (actor_org_ids c)"
    and "res \<in> set (custodian_addresses st c)"
    by blast
  then have "\<exists>c td. Consent st (pop_segment url) = Some c
           \<and> con_status c = Some ''active''
           \<and> Some (organizationId cl) \<in> set (actor_org_ids c)
           \<and> fst (snd (post_token P st toks req)) tk = Some td
           \<and> organization_id td = organizationId cl
           \<and> aud td = res
           \<and> aud td \<in> set (custodian_addresses st c)"
    using run result by simp
  then show ?thesis
    using post_token_later [of _ P st toks req] by blast
qed

lemma sp_authenticated:
  "authenticate_client (example_platform (b2b_assertion refs)) (example_request r)
   = (if r = [] then Inl (Error_response 400 ''invalid_request''
                  (Some ''Missing resource parameter (RFC 8707)''))
      else Inr (r, b2b_assertion refs, clients ! 0))"
  by (simp add: authenticate_client_def example_defs clients_def truthy_def
      isAllowedAudience_def tokenEndpointCandidates_def b2b_assertion_def sp_client_id_def)

lemma foreign_authenticated:
  "authenticate_client (example_platform (foreign_assertion refs)) (example_request r)
   = (if r = [] then Inl (Error_response 400 ''invalid_request''
                  (Some ''Missing resource parameter (RFC 8707)''))
      else Inr (r, foreign_assertion refs, clients ! 0))"
  by (simp add: authenticate_client_def example_defs clients_def truthy_def
      isAllowedAudience_def tokenEndpointCandidates_def b2b_assertion_def sp_client_id_def
      foreign_assertion_def)

lemma example_consents:
  "Consent example_store ''c1'' = Some (example_consent ''c1'' ''active'' ''org-sp'')"
  "Consent example_store ''c2'' = Some (example_consent ''c2'' ''inactive'' ''org-sp'')"
  "Consent example_store ''c3'' = Some (example_consent ''c3'' ''active'' ''org-hospital-b-sp'')"
  by (simp_all add: example_store_def)

lemma pop_segment_examples:
  "pop_segment ''Consent/c1'' = ''c1''" "pop_segment ''Consent/c2'' = ''c2''"
  "pop_segment ''Consent/c3'' = ''c3''"
  "pop_segment ''Organization/org-sp'' = ''org-sp''"
  "pop_segment ''Organization/org-hospital-b-sp'' = ''org-hospital-b-sp''"
  "pop_segment ''Organization/org-vaccine-repo'' = ''org-vaccine-repo''"
  "pop_segment ''Endpoint/endpoint-vaccine-repo'' = ''endpoint-vaccine-repo''"
  "pop_segment ''HealthcareService/service-1'' = ''service-1''"
  by (simp_all add: pop_segment_def)

lemma example_custodian_addresses:
  "custodian_addresses example_store (example_consent i s r) = [ds_address]"
  by (simp add: custodian_addresses_def example_consent_def actors_of_def actor_of_def
      has_role_def actor_org_id_def pop_segment_examples example_store_def bootstrap_def
      map_get_def orgVaccineRepo_def endpoint_addresses_def endpointVaccine_def ds_address_def)

lemma example_actor_org_ids:
  "actor_org_ids (example_consent i s ''org-sp'') = [Some ''org-sp'', Some ''org-vaccine-repo'']"
  "actor_org_ids (example_consent i s ''org-hospital-b-sp'')
     = [Some ''org-hospital-b-sp'', Some ''org-vaccine-repo'']"
  by (simp_all add: actor_org_ids_def example_consent_def actors_of_def actor_of_def
      actor_org_id_def pop_segment_examples)

lemma example_validation_c1:
  "b2b_validation example_store (clients ! 0) ds_address
     \<lparr>organization_id_claim = Some ''Organization/org-sp'',
      consent_reference = Some (''Consent/c1'' # others)\<rparr>
   = Inr (Some ''http://fhir.health.gov.il/identifier/il-national-id|99887766'')"
proof -
  have "b2b_validation example_store (clients ! 0) ds_address
     \<lparr>organization_id_claim = Some ''Organization/org-sp'',
      consent_reference = Some (''Consent/c1'' # others)\<rparr>
     = Inr (patientContext (example_consent ''c1'' ''active'' ''org-sp''))"
    using b2b_validation_cases [of "\<lparr>organization_id_claim = Some ''Organization/org-sp'',
      consent_reference = Some (''Consent/c1'' # others)\<rparr>" "clients ! 0" "''Consent/c1''"
      example_store "example_consent ''c1'' ''active'' ''org-sp''" ds_address]
    by (simp add: pop_segment_examples clients_def consentRefUrl_def at_index_def
        example_consents example_custodian_addresses example_actor_org_ids)
       (simp add: example_consent_def)
  then show ?thesis
    by (simp add: patientContext_def example_consent_def)
qed

lemma example_context_c1:
  "build_fhirContext example_store
     (Some \<lparr>organization_id_claim = Some ''Organization/org-sp'',
            consent_reference = Some (''Consent/c1'' # others)\<rparr>)
   = Some [\<lparr>cx_type = ''Consent'',
            cx_system = Some ''http://pcm.fhir.health.gov.il/identifier/pcm-consent-id'',
            cx_value = Some ''biz-c1''\<rparr>,
           \<lparr>cx_type = ''HealthcareService'', cx_system = Some CATALOG_ID_SYSTEM,
            cx_value = Some ''service-1''\<rparr>]"
proof -
  have svc: "HealthcareService example_store ''service-1'' = Some serviceGP"
    by (simp add: example_store_def bootstrap_def)
  have "buildHealthcareServiceContext (Some serviceGP) None
       = Some \<lparr>cx_type = ''HealthcareService'', cx_system = Some CATALOG_ID_SYSTEM,
            cx_value = Some ''service-1''\<rparr>"
    by (simp add: buildHealthcareServiceContext_def findCatalogIdentifier_def serviceGP_def
        or_else_def truthy_def)
  moreover have "extensions_of example_store serviceGP = None"
    by (simp add: extensions_of_def serviceGP_def)
  ultimately show ?thesis
    by (simp add: build_fhirContext_def consentRefUrl_def at_index_def pop_segment_examples
        example_consents svc)
       (simp add: example_consent_def at_index_def pop_segment_examples svc)
qed

lemma example_issue_c1:
  "post_token (example_platform (b2b_assertion (''Consent/c1'' # others))) example_store toks
     (example_request ds_address)
   = (Token_response ''uuid-'' ''Bearer'' 30 DS_SCOPE, toks(''uuid-'' \<mapsto> sp_token),
      [Thumbprint_mismatch ''x5t:der:QUJDRUZH'' ''x5t:peer-der'' sp_client_id])"
proof -
  have "authorized (example_request ds_address)"
    and "uuidv4 (example_platform (b2b_assertion (''Consent/c1'' # others))) 0 = ''uuid-''"
    and "now (example_platform (b2b_assertion (''Consent/c1'' # others))) = 1000"
    and "hl7_b2b (b2b_assertion (''Consent/c1'' # others))
         = Some \<lparr>organization_id_claim = Some ''Organization/org-sp'',
                  consent_reference = Some (''Consent/c1'' # others)\<rparr>"
    and "ds_address \<noteq> []" and "DS_SCOPE \<noteq> []"
    by (simp_all add: example_platform_def example_request_def b2b_assertion_def
        ds_address_def DS_SCOPE_def)
  then show ?thesis
    unfolding post_token_def issueToken_def sp_authenticated
    by (simp add: example_validation_c1 example_context_c1 example_confirmation Let_def
        sp_token_def)
       (simp add: clients_def sp_client_id_def)
qed

text \<open>
  A request whose first consent reference is the empty string: the consent checks
  are skipped and the token is issued for the requested resource.
\<close>

lemma example_issue_unbound:
  "post_token (example_platform (b2b_assertion ([] # others))) example_store toks
     (example_request ''https://evil.example/fhir'')
   = (Token_response ''uuid-'' ''Bearer'' 30 DS_SCOPE,
      toks(''uuid-'' \<mapsto> sp_token\<lparr>aud := ''https://evil.example/fhir'', patient := None,
                                    fhirContext := []\<rparr>),
      [Thumbprint_mismatch ''x5t:der:QUJDRUZH'' ''x5t:peer-der'' sp_client_id])"
proof -
  have "authorized (example_request ''https://evil.example/fhir'')"
    and "uuidv4 (example_platform (b2b_assertion ([] # others))) 0 = ''uuid-''"
    and "now (example_platform (b2b_assertion ([] # others))) = 1000"
    and "hl7_b2b (b2b_assertion ([] # others))
         = Some \<lparr>organization_id_claim = Some ''Organization/org-sp'',
                  consent_reference = Some ([] # others)\<rparr>"
    and "DS_SCOPE \<noteq> []"
    by (simp_all add: example_platform_def example_request_def b2b_assertion_def DS_SCOPE_def)
  moreover have "b2b_validation example_store (clients ! 0) ''https://evil.example/fhir''
         \<lparr>organization_id_claim = Some ''Organization/org-sp'',
          consent_reference = Some ([] # others)\<rparr> = Inr None"
    by (simp add: b2b_validation_def pop_segment_examples clients_def consentRefUrl_def
        at_index_def)
  moreover have "build_fhirContext example_store
         (Some \<lparr>organization_id_claim = Some ''Organization/org-sp'',
                 consent_reference = Some ([] # others)\<rparr>) = Some []"
    by (simp add: build_fhirContext_def consentRefUrl_def at_index_def)
  ultimately show ?thesis
    unfolding post_token_def issueToken_def sp_authenticated
    by (simp add: example_confirmation Let_def sp_token_def)
       (simp add: clients_def sp_client_id_def)
qed

theorem b2b_token_binding_witness:
  "fst (post_token (example_platform (b2b_assertion [''Consent/c1''])) example_store Map.empty
         (example_request ds_address)) = Token_response ''uuid-'' ''Bearer'' 30 DS_SCOPE
   \<and> authenticate_client (example_platform (b2b_assertion [''Consent/c1'']))
         (example_request ds_address) = Inr (ds_address, b2b_assertion [''Consent/c1''], clients ! 0)
   \<and> (\<exists>c td. Consent example_store (pop_segment ''Consent/c1'') = Some c
           \<and> con_status c = Some ''active''
           \<and> Some (organizationId (clients ! 0)) \<in> set (actor_org_ids c)
           \<and> fst (snd (post_token (example_platform (b2b_assertion [''Consent/c1'']))
                  example_store Map.empty (example_request ds_address))) ''uuid-'' = Some td
           \<and> organization_id td = organizationId (clients ! 0)
           \<and> aud td = ds_address
           \<and> aud td \<in> set (custodian_addresses example_store c))
   \<and> post_token (decoding (with_later_references [''Consent/c2''])
          (example_platform (b2b_assertion [''Consent/c1''])))
        example_store Map.empty (example_request ds_address)
       = post_token (example_platform (b2b_assertion [''Consent/c1'']))
           example_store Map.empty (example_request ds_address)"
proof -
  have issued: "fst (post_token (example_platform (b2b_assertion [''Consent/c1''])) example_store
         Map.empty (example_request ds_address)) = Token_response ''uuid-'' ''Bearer'' 30 DS_SCOPE"
    by (simp add: example_issue_c1)
  have auth: "authenticate_client (example_platform (b2b_assertion [''Consent/c1'']))
         (example_request ds_address) = Inr (ds_address, b2b_assertion [''Consent/c1''], clients ! 0)"
    by (simp add: sp_authenticated ds_address_def)
  have ext: "hl7_b2b (b2b_assertion [''Consent/c1''])
         = Some \<lparr>organization_id_claim = Some ''Organization/org-sp'',
                  consent_reference = Some [''Consent/c1'']\<rparr>"
    by (simp add: b2b_assertion_def)
  from b2b_token_binding [OF issued auth ext, of "''Consent/c1''" "[]"] issued auth
  show ?thesis by simp
qed

text \<open>
  C2, as stated, fails, in two ways. The assertion references the consents \<open>c1\<close> and
  \<open>c2\<close>, \<open>c2\<close> is \<open>inactive\<close>, and the token is issued. And the assertion has a
  \<open>consent_reference\<close> list of two entries whose first is the empty string: the token
  is issued for a resource that is the address of no Endpoint of a custodian, with
  the consent \<open>c2\<close> of the second entry \<open>inactive\<close>.
\<close>

theorem b2b_second_consent_counterexample:
  "hl7_b2b (b2b_assertion [''Consent/c1'', ''Consent/c2''])
     = Some \<lparr>organization_id_claim = Some ''Organization/org-sp'',
             consent_reference = Some [''Consent/c1'', ''Consent/c2'']\<rparr>
   \<and> map_option con_status (Consent example_store (pop_segment ''Consent/c2''))
       = Some (Some ''inactive'')
   \<and> post_token (example_platform (b2b_assertion [''Consent/c1'', ''Consent/c2'']))
        example_store Map.empty (example_request ds_address)
       = (Token_response ''uuid-'' ''Bearer'' 30 DS_SCOPE, [''uuid-'' \<mapsto> sp_token],
          [Thumbprint_mismatch ''x5t:der:QUJDRUZH'' ''x5t:peer-der'' sp_client_id])
   \<and> hl7_b2b (b2b_assertion [[], ''Consent/c2''])
     = Some \<lparr>organization_id_claim = Some ''Organization/org-sp'',
             consent_reference = Some [[], ''Consent/c2'']\<rparr>
   \<and> ''https://evil.example/fhir''
       \<notin> set (custodian_addresses example_store (example_consent ''c2'' ''inactive'' ''org-sp''))
   \<and> post_token (example_platform (b2b_assertion [[], ''Consent/c2'']))
        example_store Map.empty (example_request ''https://evil.example/fhir'')
       = (Token_response ''uuid-'' ''Bearer'' 30 DS_SCOPE,
          [''uuid-'' \<mapsto> sp_token\<lparr>aud := ''https://evil.example/fhir'', patient := None,
                                    fhirContext := []\<rparr>],
          [Thumbprint_mismatch ''x5t:der:QUJDRUZH'' ''x5t:peer-der'' sp_client_id])"
  by (simp add: example_issue_c1 example_issue_unbound pop_segment_examples example_consents
      example_custodian_addresses)
     (simp add: b2b_assertion_def example_consent_def ds_address_def)

text \<open>
  C3, as amended. For every \<open>/token\<close> request that passes the authentication of the
  client, with an \<open>hl7-b2b\<close> extension whose first consent reference, the only one
  read, names an active consent in whose actors the client's Organization does not
  appear: the answer is 401 \<open>unauthorized_client\<close> when the \<open>organization_id\<close> of the
  extension does not name the client's Organization; otherwise 401 \<open>access_denied\<close>
  with the description "Client is not a party to this consent" when the requested
  resource is the address of an Endpoint of a custodian of the consent, and 400
  \<open>invalid_target\<close> when it is not, since the resource binding is checked first. No
  token is stored. A consent that a later entry names is not checked: whatever the
  later entries are, the answer, the token map and the log are the same.
\<close>

theorem actor_binding_after_resource_binding:
  assumes "authorized req"
    and "authenticate_client P req = Inr (res, d, cl)"
    and "hl7_b2b d = Some u"
    and "consent_reference u = Some (url # others)" and "url \<noteq> []"
    and "Consent st (pop_segment url) = Some c" and "con_status c = Some ''active''"
    and "Some (organizationId cl) \<notin> set (actor_org_ids c)"
  shows "post_token P st toks req =
     ((if map_option pop_segment (organization_id_claim u) \<noteq> Some (organizationId cl)
       then Error_response 401 ''unauthorized_client'' (Some ''Organization ID mismatch'')
       else if res \<in> set (custodian_addresses st c)
       then Error_response 401 ''access_denied'' (Some ''Client is not a party to this consent'')
       else Error_response 400 ''invalid_target''
              (Some ''Requested resource is not authorized by the referenced consent'')),
      toks, [])
     \<and> (\<forall>later. post_token (decoding (with_later_references later) P) st toks req
                  = post_token P st toks req)"
proof -
  have first: "consentRefUrl u = Some url"
    using assms(4) by (simp add: consentRefUrl_def at_index_def)
  have "b2b_validation st cl res u =
     Inl (if map_option pop_segment (organization_id_claim u) \<noteq> Some (organizationId cl)
       then Error_response 401 ''unauthorized_client'' (Some ''Organization ID mismatch'')
       else if res \<in> set (custodian_addresses st c)
       then Error_response 401 ''access_denied'' (Some ''Client is not a party to this consent'')
       else Error_response 400 ''invalid_target''
              (Some ''Requested resource is not authorized by the referenced consent''))"
  proof (cases "map_option pop_segment (organization_id_claim u) = Some (organizationId cl)")
    case True
    from b2b_validation_cases [OF True first assms(5,6,7), of res] assms(8) True
    show ?thesis by simp
  next
    case False
    then show ?thesis by (simp add: b2b_validation_def)
  qed
  then have "post_token P st toks req =
     ((if map_option pop_segment (organization_id_claim u) \<noteq> Some (organizationId cl)
       then Error_response 401 ''unauthorized_client'' (Some ''Organization ID mismatch'')
       else if res \<in> set (custodian_addresses st c)
       then Error_response 401 ''access_denied'' (Some ''Client is not a party to this consent'')
       else Error_response 400 ''invalid_target''
              (Some ''Requested resource is not authorized by the referenced consent'')),
      toks, [])"
    using assms(1,2,3) by (simp add: post_token_def issueToken_def)
  then show ?thesis
    using post_token_later [of _ P st toks req] by blast
qed

lemma example_c3_request:
  "authorized (example_request r)"
  "hl7_b2b (b2b_assertion [''Consent/c3''])
     = Some \<lparr>organization_id_claim = Some ''Organization/org-sp'',
             consent_reference = Some [''Consent/c3'']\<rparr>"
  "map_option pop_segment (organization_id_claim
      \<lparr>organization_id_claim = Some ''Organization/org-sp'',
       consent_reference = Some [''Consent/c3'']\<rparr>) = Some (organizationId (clients ! 0))"
  "con_status (example_consent ''c3'' ''active'' ''org-hospital-b-sp'') = Some ''active''"
  "Some (organizationId (clients ! 0))
     \<notin> set (actor_org_ids (example_consent ''c3'' ''active'' ''org-hospital-b-sp''))"
  by (simp_all add: example_request_def b2b_assertion_def pop_segment_examples clients_def
      example_actor_org_ids)
     (simp add: example_consent_def)

lemma example_foreign_request:
  "hl7_b2b (foreign_assertion [''Consent/c3''])
     = Some \<lparr>organization_id_claim = Some ''Organization/org-hospital-b-sp'',
             consent_reference = Some [''Consent/c3'']\<rparr>"
  "map_option pop_segment (organization_id_claim
      \<lparr>organization_id_claim = Some ''Organization/org-hospital-b-sp'',
       consent_reference = Some [''Consent/c3'']\<rparr>) \<noteq> Some (organizationId (clients ! 0))"
  by (simp_all add: foreign_assertion_def pop_segment_examples clients_def)

theorem actor_binding_after_resource_binding_witness:
  "authenticate_client (example_platform (b2b_assertion [''Consent/c3'']))
      (example_request ds_address) = Inr (ds_address, b2b_assertion [''Consent/c3''], clients ! 0)
   \<and> Consent example_store (pop_segment ''Consent/c3'')
       = Some (example_consent ''c3'' ''active'' ''org-hospital-b-sp'')
   \<and> Some (organizationId (clients ! 0))
       \<notin> set (actor_org_ids (example_consent ''c3'' ''active'' ''org-hospital-b-sp''))
   \<and> ds_address \<in> set (custodian_addresses example_store
         (example_consent ''c3'' ''active'' ''org-hospital-b-sp''))
   \<and> post_token (example_platform (b2b_assertion [''Consent/c3''])) example_store Map.empty
        (example_request ds_address)
       = (Error_response 401 ''access_denied'' (Some ''Client is not a party to this consent''),
          Map.empty, [])
   \<and> authenticate_client (example_platform (foreign_assertion [''Consent/c3'']))
      (example_request ds_address)
       = Inr (ds_address, foreign_assertion [''Consent/c3''], clients ! 0)
   \<and> post_token (example_platform (foreign_assertion [''Consent/c3''])) example_store Map.empty
        (example_request ds_address)
       = (Error_response 401 ''unauthorized_client'' (Some ''Organization ID mismatch''),
          Map.empty, [])"
proof -
  have auth: "authenticate_client (example_platform (b2b_assertion [''Consent/c3'']))
      (example_request ds_address) = Inr (ds_address, b2b_assertion [''Consent/c3''], clients ! 0)"
    by (simp add: sp_authenticated ds_address_def)
  have auth': "authenticate_client (example_platform (foreign_assertion [''Consent/c3'']))
      (example_request ds_address)
       = Inr (ds_address, foreign_assertion [''Consent/c3''], clients ! 0)"
    by (simp add: foreign_authenticated ds_address_def)
  have stored: "Consent example_store (pop_segment ''Consent/c3'')
       = Some (example_consent ''c3'' ''active'' ''org-hospital-b-sp'')"
    by (simp add: pop_segment_examples example_consents)
  from actor_binding_after_resource_binding [where url = "''Consent/c3''" and others = "[]"
      and toks = Map.empty, OF example_c3_request(1) auth example_c3_request(2)
      _ _ stored example_c3_request(4,5)]
    actor_binding_after_resource_binding [where url = "''Consent/c3''" and others = "[]"
      and toks = Map.empty, OF example_c3_request(1) auth' example_foreign_request(1)
      _ _ stored example_c3_request(4,5)]
  show ?thesis
    using auth auth' stored example_c3_request(3,5) example_foreign_request(2)
    by (simp add: example_custodian_addresses)
qed

text \<open>
  C3, as stated, fails, in three ways. The client of \<open>org-sp\<close> is not an actor of the
  active consent \<open>c3\<close>, the requested resource is not the address of an Endpoint of
  its custodian, and the answer is 400 \<open>invalid_target\<close>, not 401 \<open>access_denied\<close>. An
  assertion that references \<open>c3\<close> after the consent \<open>c1\<close> is answered with a token. And
  an assertion that references \<open>c3\<close> and names another Organization than the client's
  is answered with 401 \<open>unauthorized_client\<close>.
\<close>

theorem actor_binding_order_counterexample:
  "Consent example_store (pop_segment ''Consent/c3'')
       = Some (example_consent ''c3'' ''active'' ''org-hospital-b-sp'')
   \<and> con_status (example_consent ''c3'' ''active'' ''org-hospital-b-sp'') = Some ''active''
   \<and> Some (organizationId (clients ! 0))
       \<notin> set (actor_org_ids (example_consent ''c3'' ''active'' ''org-hospital-b-sp''))
   \<and> ''https://evil.example/fhir'' \<notin> set (custodian_addresses example_store
         (example_consent ''c3'' ''active'' ''org-hospital-b-sp''))
   \<and> post_token (example_platform (b2b_assertion [''Consent/c3''])) example_store Map.empty
        (example_request ''https://evil.example/fhir'')
       = (Error_response 400 ''invalid_target''
            (Some ''Requested resource is not authorized by the referenced consent''),
          Map.empty, [])
   \<and> hl7_b2b (b2b_assertion [''Consent/c1'', ''Consent/c3''])
     = Some \<lparr>organization_id_claim = Some ''Organization/org-sp'',
             consent_reference = Some [''Consent/c1'', ''Consent/c3'']\<rparr>
   \<and> post_token (example_platform (b2b_assertion [''Consent/c1'', ''Consent/c3'']))
        example_store Map.empty (example_request ds_address)
       = (Token_response ''uuid-'' ''Bearer'' 30 DS_SCOPE, [''uuid-'' \<mapsto> sp_token],
          [Thumbprint_mismatch ''x5t:der:QUJDRUZH'' ''x5t:peer-der'' sp_client_id])
   \<and> hl7_b2b (foreign_assertion [''Consent/c3''])
     = Some \<lparr>organization_id_claim = Some ''Organization/org-hospital-b-sp'',
             consent_reference = Some [''Consent/c3'']\<rparr>
   \<and> post_token (example_platform (foreign_assertion [''Consent/c3''])) example_store Map.empty
        (example_request ds_address)
       = (Error_response 401 ''unauthorized_client'' (Some ''Organization ID mismatch''),
          Map.empty, [])"
proof -
  have missing: "''https://evil.example/fhir'' \<notin> set (custodian_addresses example_store
         (example_consent ''c3'' ''active'' ''org-hospital-b-sp''))"
    by (simp add: example_custodian_addresses ds_address_def)
  have stored: "Consent example_store (pop_segment ''Consent/c3'')
       = Some (example_consent ''c3'' ''active'' ''org-hospital-b-sp'')"
    by (simp add: pop_segment_examples example_consents)
  have "b2b_validation example_store (clients ! 0) ''https://evil.example/fhir''
      \<lparr>organization_id_claim = Some ''Organization/org-sp'',
       consent_reference = Some [''Consent/c3'']\<rparr>
      = Inl (Error_response 400 ''invalid_target''
            (Some ''Requested resource is not authorized by the referenced consent''))"
    using b2b_validation_cases [OF example_c3_request(3) _ _ stored example_c3_request(4),
        of "''https://evil.example/fhir''"] missing
    by (simp add: consentRefUrl_def at_index_def)
  then have "post_token (example_platform (b2b_assertion [''Consent/c3''])) example_store Map.empty
        (example_request ''https://evil.example/fhir'')
       = (Error_response 400 ''invalid_target''
            (Some ''Requested resource is not authorized by the referenced consent''),
          Map.empty, [])"
    by (simp add: post_token_def issueToken_def sp_authenticated example_c3_request)
  moreover have "hl7_b2b (b2b_assertion [''Consent/c1'', ''Consent/c3''])
     = Some \<lparr>organization_id_claim = Some ''Organization/org-sp'',
             consent_reference = Some [''Consent/c1'', ''Consent/c3'']\<rparr>"
    by (simp add: b2b_assertion_def)
  moreover have "post_token (example_platform (b2b_assertion [''Consent/c1'', ''Consent/c3'']))
        example_store Map.empty (example_request ds_address)
       = (Token_response ''uuid-'' ''Bearer'' 30 DS_SCOPE, [''uuid-'' \<mapsto> sp_token],
          [Thumbprint_mismatch ''x5t:der:QUJDRUZH'' ''x5t:peer-der'' sp_client_id])"
    by (simp add: example_issue_c1)
  moreover have "post_token (example_platform (foreign_assertion [''Consent/c3'']))
        example_store Map.empty (example_request ds_address)
       = (Error_response 401 ''unauthorized_client'' (Some ''Organization ID mismatch''),
          Map.empty, [])"
    using example_foreign_request(2)
    by (simp add: post_token_def issueToken_def foreign_authenticated example_c3_request(1)
        example_foreign_request(1) b2b_validation_def ds_address_def)
  ultimately show ?thesis
    using missing stored example_c3_request(4,5) example_foreign_request(1) by blast
qed














section \<open>Properties of the Consent update\<close>

lemma update_Consent_keyed:
  assumes "Consent st i = Some existing" and "con_id c = Some i"
  shows "update_Consent st c = Some (st\<lparr>Consent := (Consent st)(i \<mapsto> c)\<rparr>)"
  using assms by (simp add: update_Consent_def)

text \<open>
  C5, as amended. For every \<open>PUT /r4/Consent/:id\<close> by a non-admin caller on a
  stored consent, with a body whose \<open>id\<close> is absent or the id of the path: the
  request returns 403 and leaves the store unchanged unless the caller is the IRCP
  actor of the stored consent and the \<open>status\<close> of the body is \<open>inactive\<close>; in that case
  it returns 200 with the stored consent, whose \<open>status\<close> alone is set to \<open>inactive\<close>:
  every other member of the body is ignored, not rejected.
\<close>

theorem consent_update_by_requester:
  assumes "\<not> isPcmAdmin st user"
    and "consents_keyed st" and "Consent st i = Some existing"
    and "\<not> truthy (con_id body) \<or> con_id body = Some i"
  shows "put_Consent st user i body =
     (if isRequester (organization_id user) existing \<and> con_status body = Some ''inactive''
      then (Some (Ok_response (existing\<lparr>con_status := Some ''inactive''\<rparr>)),
            st\<lparr>Consent := (Consent st)(i \<mapsto> existing\<lparr>con_status := Some ''inactive''\<rparr>)\<rparr>)
      else (Some (Failure 403
              (if isParty (organization_id user) existing
               then ''Only requestor may set status=inactive''
               else ''Access denied to this consent'')), st))"
proof -
  have key: "con_id existing = Some i"
    using assms(2,3) by (simp add: consents_keyed_def)
  have party: "isRequester (organization_id user) existing \<Longrightarrow> isParty (organization_id user) existing"
    by (auto simp: isRequester_def isParty_def list_ex_iff)
  have upd: "update_Consent st (existing\<lparr>con_status := Some ''inactive''\<rparr>)
      = Some (st\<lparr>Consent := (Consent st)(i \<mapsto> existing\<lparr>con_status := Some ''inactive''\<rparr>)\<rparr>)"
    using update_Consent_keyed [OF assms(3), of "existing\<lparr>con_status := Some ''inactive''\<rparr>"] key
    by simp
  show ?thesis
    using assms(1,3,4) party upd
    by (auto simp: put_Consent_def Let_def)
qed


lemma sp_not_admin: "\<not> isPcmAdmin example_store sp_token" "\<not> isPcmAdmin bootstrap sp_token"
  by (simp_all add: isPcmAdmin_def example_store_def bootstrap_def sp_token_def orgDoctorApp_def
      org_type_coding_def PCM_ORG_TYPE_CODE_def)

lemma example_store_keyed: "consents_keyed example_store"
  by (auto simp: consents_keyed_def example_store_def example_consent_def split: if_splits)

lemma sp_requests_c1:
  "isRequester (organization_id sp_token) (example_consent ''c1'' ''active'' ''org-sp'')"
  by (simp add: isRequester_def sp_token_def example_consent_def actors_of_def actor_of_def
      has_role_def references_org_def)

theorem consent_update_by_requester_witness:
  "\<not> isPcmAdmin example_store sp_token \<and> consents_keyed example_store
   \<and> Consent example_store ''c1'' = Some (example_consent ''c1'' ''active'' ''org-sp'')
   \<and> put_Consent example_store sp_token ''c1'' ((example_consent ''c1'' ''inactive'' ''org-sp''))
       = (Some (Ok_response (example_consent ''c1'' ''inactive'' ''org-sp'')),
          example_store\<lparr>Consent := (Consent example_store)
             (''c1'' \<mapsto> example_consent ''c1'' ''inactive'' ''org-sp'')\<rparr>)
   \<and> put_Consent example_store sp_token ''c1'' (example_consent ''c1'' ''rejected'' ''org-sp'')
       = (Some (Failure 403 ''Only requestor may set status=inactive''), example_store)
   \<and> put_Consent example_store sp_token ''c3'' (example_consent ''c3'' ''inactive'' ''org-hospital-b-sp'')
       = (Some (Failure 403 ''Access denied to this consent''), example_store)"
proof -
  have c3: "\<not> isRequester (organization_id sp_token) (example_consent ''c3'' ''active'' ''org-hospital-b-sp'')"
    "\<not> isParty (organization_id sp_token) (example_consent ''c3'' ''active'' ''org-hospital-b-sp'')"
    by (simp_all add: isRequester_def isParty_def sp_token_def example_consent_def actors_of_def
        actor_of_def has_role_def references_org_def)
  have c1: "isParty (organization_id sp_token) (example_consent ''c1'' ''active'' ''org-sp'')"
    by (simp add: isParty_def sp_token_def example_consent_def actors_of_def
        actor_of_def has_role_def references_org_def)
  have same: "(example_consent ''c1'' ''active'' ''org-sp'')\<lparr>con_status := Some ''inactive''\<rparr>
       = example_consent ''c1'' ''inactive'' ''org-sp''"
    by (simp add: example_consent_def)
  from consent_update_by_requester [OF sp_not_admin(1) example_store_keyed example_consents(1),
      of "example_consent ''c1'' ''inactive'' ''org-sp''"]
    consent_update_by_requester [OF sp_not_admin(1) example_store_keyed example_consents(1),
      of "example_consent ''c1'' ''rejected'' ''org-sp''"]
    consent_update_by_requester [OF sp_not_admin(1) example_store_keyed example_consents(3),
      of "example_consent ''c3'' ''inactive'' ''org-hospital-b-sp''"]
  show ?thesis
    using sp_not_admin(1) example_store_keyed example_consents(1) sp_requests_c1 c1 c3 same
    by (simp add: example_consent_def)
qed

text \<open>
  C5, as stated, fails: the requester of the consent \<open>c1\<close> sends a body that sets the
  status to \<open>inactive\<close> and changes other members; the answer is 200, not 403, and
  the stored consent changes (its status becomes \<open>inactive\<close>).
\<close>

theorem consent_update_other_fields_counterexample:
  "\<not> isPcmAdmin example_store sp_token
   \<and> Consent example_store ''c1'' = Some (example_consent ''c1'' ''active'' ''org-sp'')
   \<and> isRequester (organization_id sp_token) (example_consent ''c1'' ''active'' ''org-sp'')
   \<and> con_other deactivation_with_note \<noteq> con_other (example_consent ''c1'' ''active'' ''org-sp'')
   \<and> con_actor deactivation_with_note \<noteq> con_actor (example_consent ''c1'' ''active'' ''org-sp'')
   \<and> put_Consent example_store sp_token ''c1'' deactivation_with_note
       = (Some (Ok_response (example_consent ''c1'' ''inactive'' ''org-sp'')),
          example_store\<lparr>Consent := (Consent example_store)
             (''c1'' \<mapsto> example_consent ''c1'' ''inactive'' ''org-sp'')\<rparr>)"
proof -
  have c1: "isParty (organization_id sp_token) (example_consent ''c1'' ''active'' ''org-sp'')"
    by (simp add: isParty_def sp_token_def example_consent_def actors_of_def
        actor_of_def has_role_def references_org_def)
  have same: "(example_consent ''c1'' ''active'' ''org-sp'')\<lparr>con_status := Some ''inactive''\<rparr>
       = example_consent ''c1'' ''inactive'' ''org-sp''"
    by (simp add: example_consent_def)
  have upd: "update_Consent example_store (example_consent ''c1'' ''inactive'' ''org-sp'')
      = Some (example_store\<lparr>Consent := (Consent example_store)
             (''c1'' \<mapsto> example_consent ''c1'' ''inactive'' ''org-sp'')\<rparr>)"
    using update_Consent_keyed [OF example_consents(1), of "example_consent ''c1'' ''inactive'' ''org-sp''"]
    by (simp add: example_consent_def)
  have "put_Consent example_store sp_token ''c1'' deactivation_with_note
       = (Some (Ok_response (example_consent ''c1'' ''inactive'' ''org-sp'')),
          example_store\<lparr>Consent := (Consent example_store)
             (''c1'' \<mapsto> example_consent ''c1'' ''inactive'' ''org-sp'')\<rparr>)"
    using sp_not_admin(1) example_consents(1) sp_requests_c1 c1 same upd
    by (simp add: put_Consent_def Let_def deactivation_with_note_def truthy_def)
  moreover have "con_other deactivation_with_note \<noteq> con_other (example_consent ''c1'' ''active'' ''org-sp'')"
    "con_actor deactivation_with_note \<noteq> con_actor (example_consent ''c1'' ''active'' ''org-sp'')"
    by (simp_all add: deactivation_with_note_def example_consent_def)
  ultimately show ?thesis
    using sp_not_admin(1) example_consents(1) sp_requests_c1 by blast
qed

section \<open>Properties of the Endpoint routes\<close>

lemma bootstrap_unique: "unique_addresses bootstrap"
  by (auto simp: unique_addresses_def bootstrap_def endpointVaccine_def endpointPcmSystem_def
      split: if_splits)

text \<open>
  C9, as amended. The seeded store has unique Endpoint addresses. \<open>POST /r4/Endpoint\<close>
  and \<open>PUT /r4/Endpoint/:id\<close> by an authorized caller (the admin, or the Organization
  that the body, respectively the stored Endpoint, names as managing) store the
  submitted resource with the address it carries, under its id, and leave every
  other stored Endpoint as it was: the address is not compared with the addresses of
  the other Endpoints.
\<close>

theorem endpoint_writes_store_the_address:
  "unique_addresses bootstrap
   \<and> (ep_resourceType body = Some ''Endpoint''
        \<and> (isPcmAdmin st user
             \<or> organization_id user \<noteq> []
               \<and> getRefId (ep_managingOrganization body) = Some (organization_id user))
      \<longrightarrow> post_Endpoint P st user body
            = (Created (body\<lparr>ep_id := Some (id_or_uuid (ep_id body) (uuidv4 P 0))\<rparr>),
               st\<lparr>Endpoint := (Endpoint st)
                 (id_or_uuid (ep_id body) (uuidv4 P 0)
                    \<mapsto> body\<lparr>ep_id := Some (id_or_uuid (ep_id body) (uuidv4 P 0))\<rparr>)\<rparr>))
   \<and> (Endpoint st i = Some existing
        \<and> (isPcmAdmin st user
             \<or> getRefId (ep_managingOrganization existing) = Some (organization_id user))
        \<and> (\<not> truthy (ep_id body) \<or> ep_id body = Some i)
      \<longrightarrow> put_Endpoint st user i body
            = (Ok_response (body\<lparr>ep_resourceType := Some ''Endpoint'', ep_id := Some i\<rparr>),
               st\<lparr>Endpoint := (Endpoint st)
                 (i \<mapsto> body\<lparr>ep_resourceType := Some ''Endpoint'', ep_id := Some i\<rparr>)\<rparr>))"
  using bootstrap_unique
  by (auto simp: post_Endpoint_def add_Endpoint_def put_Endpoint_def Let_def truthy_def)

lemma ds_not_admin: "\<not> isPcmAdmin bootstrap ds_token"
  by (simp add: isPcmAdmin_def bootstrap_def ds_token_def orgVaccineRepo_def
      org_type_coding_def PCM_ORG_TYPE_CODE_def)

lemma ds_manages_second:
  "getRefId (ep_managingOrganization second_endpoint) = Some (organization_id ds_token)"
  by (simp add: getRefId_def second_endpoint_def ds_token_def pop_segment_examples)

lemma post_second_endpoint:
  "post_Endpoint P bootstrap ds_token second_endpoint
   = (Created second_endpoint,
      bootstrap\<lparr>Endpoint := (Endpoint bootstrap)(''endpoint-copy'' \<mapsto> second_endpoint)\<rparr>)"
  using ds_not_admin ds_manages_second
  by (simp add: post_Endpoint_def add_Endpoint_def Let_def truthy_def id_or_uuid_def)
     (simp add: second_endpoint_def ds_token_def)

theorem endpoint_writes_store_the_address_witness:
  "ep_resourceType second_endpoint = Some ''Endpoint''
   \<and> organization_id ds_token \<noteq> []
   \<and> getRefId (ep_managingOrganization second_endpoint) = Some (organization_id ds_token)
   \<and> post_Endpoint the_platform bootstrap ds_token second_endpoint
       = (Created second_endpoint,
          bootstrap\<lparr>Endpoint := (Endpoint bootstrap)(''endpoint-copy'' \<mapsto> second_endpoint)\<rparr>)
   \<and> Endpoint bootstrap ''endpoint-vaccine-repo'' = Some endpointVaccine
   \<and> getRefId (ep_managingOrganization endpointVaccine) = Some (organization_id ds_token)
   \<and> put_Endpoint bootstrap ds_token ''endpoint-vaccine-repo''
        (second_endpoint\<lparr>ep_id := None, ep_address := Some ''https://pcm.fhir.health.gov.il/r4''\<rparr>)
       = (Ok_response (second_endpoint\<lparr>ep_id := Some ''endpoint-vaccine-repo'',
             ep_address := Some ''https://pcm.fhir.health.gov.il/r4''\<rparr>),
          bootstrap\<lparr>Endpoint := (Endpoint bootstrap)(''endpoint-vaccine-repo'' \<mapsto>
             second_endpoint\<lparr>ep_id := Some ''endpoint-vaccine-repo'',
               ep_address := Some ''https://pcm.fhir.health.gov.il/r4''\<rparr>)\<rparr>)"
proof -
  have facts: "ep_resourceType second_endpoint = Some ''Endpoint''"
    "organization_id ds_token \<noteq> []"
    "Endpoint bootstrap ''endpoint-vaccine-repo'' = Some endpointVaccine"
    "getRefId (ep_managingOrganization endpointVaccine) = Some (organization_id ds_token)"
    "id_or_uuid (ep_id second_endpoint) (uuidv4 the_platform 0) = ''endpoint-copy''"
    "second_endpoint\<lparr>ep_id := Some ''endpoint-copy''\<rparr> = second_endpoint"
    by (simp_all add: second_endpoint_def ds_token_def bootstrap_def endpointVaccine_def
        getRefId_def pop_segment_examples id_or_uuid_def)
  from endpoint_writes_store_the_address [of second_endpoint bootstrap ds_token the_platform
      "''endpoint-vaccine-repo''" endpointVaccine]
    endpoint_writes_store_the_address [of
      "second_endpoint\<lparr>ep_id := None, ep_address := Some ''https://pcm.fhir.health.gov.il/r4''\<rparr>"
      bootstrap ds_token the_platform "''endpoint-vaccine-repo''" endpointVaccine]
  show ?thesis
    using facts ds_manages_second
    by (simp add: truthy_def) (simp add: second_endpoint_def)
qed

text \<open>
  C9, as stated, fails: the data source posts a second Endpoint with the address of
  its first one; the request is answered 201, and the store then holds two Endpoints
  with the same address.
\<close>

theorem endpoint_address_reuse_counterexample:
  "unique_addresses bootstrap
   \<and> fst (post_Endpoint the_platform bootstrap ds_token second_endpoint) = Created second_endpoint
   \<and> \<not> unique_addresses (snd (post_Endpoint the_platform bootstrap ds_token second_endpoint))"
proof -
  have "\<not> unique_addresses
      (bootstrap\<lparr>Endpoint := (Endpoint bootstrap)(''endpoint-copy'' \<mapsto> second_endpoint)\<rparr>)"
    unfolding unique_addresses_def
    by (intro notI, drule spec [of _ "''endpoint-copy''"], drule spec [of _ "''endpoint-vaccine-repo''"])
       (simp add: bootstrap_def second_endpoint_def endpointVaccine_def)
  then show ?thesis
    using bootstrap_unique by (simp add: post_second_endpoint)
qed

section \<open>Properties of the policy enforcement point\<close>

lemma mapIdentity_cases:
  assumes "in_active r"
  shows "mapIdentity P r =
     (case in_patient r of
        None \<Rightarrow> Inl Missing_mandatory_patient_context
      | Some x \<Rightarrow>
          if CHR ''|'' \<notin> set x
          then Inl (if x = [] then Missing_mandatory_patient_context
                    else Invalid_patient_identifier_format)
          else jwt_sign P
                 \<lparr>lp_sub = in_client_id r, lp_scope = in_scope r, lp_iss = in_iss r,
                  lp_aud = in_aud r, lp_jti = in_jti r, lp_iat = in_iat r,
                  lp_client_id = in_client_id r, lp_fhirContext = in_fhirContext r,
                  lp_cnf = in_cnf r,
                  lp_patient = ''Patient/'' @ sha256_hex P
                     (takeWhile (\<lambda>c. c \<noteq> CHR ''|'') (tl (dropWhile (\<lambda>c. c \<noteq> CHR ''|'') x))),
                  lp_exp = None\<rparr>)"
proof (cases "in_patient r")
  case None
  then show ?thesis using assms by (simp add: mapIdentity_def)
next
  case (Some x)
  show ?thesis
  proof (cases "CHR ''|'' \<in> set x")
    case True
    then have "x \<noteq> []" by auto
    then show ?thesis
      using assms Some True split_second [OF True]
      by (simp add: mapIdentity_def includes_char_def)
  next
    case False
    then show ?thesis
      using assms Some by (simp add: mapIdentity_def includes_char_def)
  qed
qed

lemma mapIdentity_patient:
  assumes "in_active r" and "in_patient r = Some x" and "CHR ''|'' \<in> set x"
    and "in_iat r = Some n"
  shows "\<exists>p. mapIdentity P r = Inr p
           \<and> lp_patient p = ''Patient/'' @ sha256_hex P
                (takeWhile (\<lambda>c. c \<noteq> CHR ''|'') (tl (dropWhile (\<lambda>c. c \<noteq> CHR ''|'') x)))"
  using assms(2-4) by (simp add: mapIdentity_cases [OF assms(1)] jwt_sign_def Let_def)

lemma mapIdentity_rejects:
  assumes "in_active r"
    and "in_patient r = None \<or> (\<exists>x. in_patient r = Some x \<and> CHR ''|'' \<notin> set x)
         \<or> in_iat r = None"
  shows "\<exists>e. mapIdentity P r = Inl e"
  using assms(2)
  by (auto simp: mapIdentity_cases [OF assms(1)] jwt_sign_def split: option.splits)

lemma one_separator:
  assumes "c \<notin> set p" and "c \<notin> set v"
  shows "takeWhile (\<lambda>x. x \<noteq> c) (tl (dropWhile (\<lambda>x. x \<noteq> c) (p @ c # v))) = v"
proof -
  have "dropWhile (\<lambda>x. x \<noteq> c) (p @ c # v) = c # v"
    using assms(1) by (induction p) auto
  then show ?thesis
    using takeWhile_no_blank [OF assms(2)] by simp
qed

lemma handleAuthCheck_cases:
  "handleAuthCheck P E s authHeader =
     (case authHeader of
        None \<Rightarrow> (Unauthorized ''Missing Token'', s, [])
      | Some h \<Rightarrow>
          if \<not> startsWith h ''Bearer '' then (Unauthorized ''Missing Token'', s, [])
          else
          (case introspect E s (takeWhile (\<lambda>x. x \<noteq> CHR '' '') (drop 7 h)) of
             (Response r, s', calls) \<Rightarrow>
               if \<not> in_active r then (Unauthorized ''Token Inactive'', s', calls)
               else (case mapIdentity P r of
                       Inl e \<Rightarrow> (Unauthorized ''Unauthorized'', s', calls)
                     | Inr localToken \<Rightarrow> (Authorized localToken, s', calls))
           | (Http_error n, s', calls) \<Rightarrow>
               (Unauthorized ''Unauthorized'',
                (if n = 401 \<or> n = 403 then s'\<lparr>introspectionToken := None\<rparr> else s'), calls)
           | (Network_error, s', calls) \<Rightarrow> (Unauthorized ''Unauthorized'', s', calls)))"
proof (cases authHeader)
  case None
  then show ?thesis by (simp add: handleAuthCheck_def)
next
  case (Some h)
  show ?thesis
  proof (cases "startsWith h ''Bearer ''")
    case False
    then show ?thesis using Some by (simp add: handleAuthCheck_def)
  next
    case True
    then have "h \<noteq> []" by (auto simp: startsWith_def)
    then show ?thesis
      using Some True bearer_token [OF True]
      by (simp add: handleAuthCheck_def the_default_def)
  qed
qed

text \<open>
  C6, as amended. When the introspection request of an auth check is answered with
  \<open>active: true\<close>: if the \<open>patient\<close> of the answer contains a \<open>|\<close> and its \<open>iat\<close> is a
  number, the adapter answers 200 with a local token whose \<open>patient\<close> is \<open>Patient/\<close>
  followed by the hexadecimal SHA-256 digest of the text between the first \<open>|\<close> and
  the second, or the end where there is no second: for a \<open>patient\<close> \<open>system|value\<close> with
  the one separator, the digest of \<open>value\<close>. If \<open>patient\<close> is absent or contains no
  \<open>|\<close>, or \<open>iat\<close> is not a number, the adapter answers 401 and mints no token.
\<close>

theorem local_token_patient:
  assumes "startsWith h ''Bearer ''"
    and "introspect E s (takeWhile (\<lambda>c. c \<noteq> CHR '' '') (drop 7 h)) = (Response r, s', calls)"
    and "in_active r"
  shows "(in_patient r = Some x \<and> CHR ''|'' \<in> set x \<and> in_iat r = Some n
            \<longrightarrow> (\<exists>p. handleAuthCheck P E s (Some h) = (Authorized p, s', calls)
                     \<and> lp_patient p = ''Patient/'' @ sha256_hex P
                          (takeWhile (\<lambda>c. c \<noteq> CHR ''|'')
                             (tl (dropWhile (\<lambda>c. c \<noteq> CHR ''|'') x)))))
         \<and> (in_patient r = Some (sys @ ''|'' @ v) \<and> CHR ''|'' \<notin> set sys \<and> CHR ''|'' \<notin> set v
              \<and> in_iat r = Some n
            \<longrightarrow> (\<exists>p. handleAuthCheck P E s (Some h) = (Authorized p, s', calls)
                     \<and> lp_patient p = ''Patient/'' @ sha256_hex P v))
         \<and> (in_patient r = None \<or> (\<exists>y. in_patient r = Some y \<and> CHR ''|'' \<notin> set y)
              \<or> in_iat r = None
            \<longrightarrow> handleAuthCheck P E s (Some h) = (Unauthorized ''Unauthorized'', s', calls))"
proof -
  have run: "handleAuthCheck P E s (Some h) =
      (case mapIdentity P r of
         Inl e \<Rightarrow> (Unauthorized ''Unauthorized'', s', calls)
       | Inr localToken \<Rightarrow> (Authorized localToken, s', calls))"
    using assms by (simp add: handleAuthCheck_cases)
  have general: "\<exists>p. handleAuthCheck P E s (Some h) = (Authorized p, s', calls)
                     \<and> lp_patient p = ''Patient/'' @ sha256_hex P
                          (takeWhile (\<lambda>c. c \<noteq> CHR ''|'')
                             (tl (dropWhile (\<lambda>c. c \<noteq> CHR ''|'') y)))"
    if "in_patient r = Some y" and "CHR ''|'' \<in> set y" and "in_iat r = Some n" for y
    using mapIdentity_patient [OF assms(3) that, of P] run by auto
  have special: "\<exists>p. handleAuthCheck P E s (Some h) = (Authorized p, s', calls)
                     \<and> lp_patient p = ''Patient/'' @ sha256_hex P v"
    if p: "in_patient r = Some (sys @ ''|'' @ v)" and a: "CHR ''|'' \<notin> set sys"
      and b: "CHR ''|'' \<notin> set v" and i: "in_iat r = Some n"
  proof -
    have "CHR ''|'' \<in> set (sys @ ''|'' @ v)" by simp
    from general [OF p this i] show ?thesis
      using one_separator [OF a b] by simp
  qed
  have refused: "handleAuthCheck P E s (Some h) = (Unauthorized ''Unauthorized'', s', calls)"
    if "in_patient r = None \<or> (\<exists>y. in_patient r = Some y \<and> CHR ''|'' \<notin> set y)
         \<or> in_iat r = None"
    using mapIdentity_rejects [OF assms(3) that, of P] run by auto
  from general [of x] special refused show ?thesis
    by blast
qed

lemma example_introspect_fresh:
  "introspect example_pcm fresh_state tk =
     (introspect_call example_pcm ''https://pcm-core:3000/introspect'' ''fresh'' tk, fresh_state,
      [Introspection_request ''https://pcm-core:3000/introspect'' ''fresh'' tk])"
  by (simp add: introspect_def getIntrospectionToken_def getSmartConfiguration_def
      fresh_state_def stale_state_def truthy_def template_def)

lemma example_introspect_stale:
  "introspect example_pcm stale_state tk =
     (Http_error 401, stale_state,
      [Introspection_request ''https://pcm-core:3000/introspect'' ''stale'' tk])"
  by (simp add: introspect_def getIntrospectionToken_def getSmartConfiguration_def
      stale_state_def example_pcm_def truthy_def template_def)

lemma example_introspect_empty:
  assumes "\<not> truthy v"
  shows "introspect example_pcm (stale_state\<lparr>introspectionToken := v\<rparr>) tk =
     (introspect_call example_pcm ''https://pcm-core:3000/introspect'' ''fresh'' tk, fresh_state,
      [Token_request ''https://pcm-core:3000/token'' ''https://pcm-core:3000'',
       Introspection_request ''https://pcm-core:3000/introspect'' ''fresh'' tk])"
  using assms
  by (simp add: introspect_def getIntrospectionToken_def getSmartConfiguration_def
      fresh_state_def stale_state_def example_pcm_def authBase_def template_def)

lemma example_calls:
  "introspect_call example_pcm u ''fresh'' ''user-token'' = Response example_introspection"
  "introspect_call example_pcm u ''fresh'' ''anonymous-token''
     = Response (example_introspection\<lparr>in_patient := None\<rparr>)"
  "introspect_call example_pcm u ''fresh'' ''piped-token''
     = Response (example_introspection\<lparr>in_patient := Some ''sys|12|34''\<rparr>)"
  "introspect_call example_pcm u ''fresh'' ''undated-token''
     = Response (example_introspection\<lparr>in_iat := None\<rparr>)"
  by (simp_all add: example_pcm_def)

lemma example_mapIdentity:
  "mapIdentity the_platform example_introspection = Inr example_localToken"
  "mapIdentity the_platform (example_introspection\<lparr>in_patient := Some ''sys|12|34''\<rparr>)
     = Inr (example_localToken\<lparr>lp_patient := ''Patient/hex:12''\<rparr>)"
  "mapIdentity the_platform (example_introspection\<lparr>in_iat := None\<rparr>)
     = Inl Iat_should_be_a_number_of_seconds"
  "mapIdentity the_platform (example_introspection\<lparr>in_patient := None\<rparr>)
     = Inl Missing_mandatory_patient_context"
  by (simp_all add: mapIdentity_def jwt_sign_def example_introspection_def includes_char_def
      at_index_def example_localToken_def the_platform_def example_platform_def)

lemma example_auth_check:
  assumes "introspect_call example_pcm ''https://pcm-core:3000/introspect'' ''fresh'' tk
             = Response r"
    and "in_active r" and "CHR '' '' \<notin> set tk"
  shows "handleAuthCheck the_platform example_pcm fresh_state (Some (''Bearer '' @ tk)) =
     (case mapIdentity the_platform r of
        Inl e \<Rightarrow> Unauthorized ''Unauthorized'' | Inr p \<Rightarrow> Authorized p,
      fresh_state, [Introspection_request ''https://pcm-core:3000/introspect'' ''fresh'' tk])"
proof -
  have "startsWith (''Bearer '' @ tk) ''Bearer ''"
    by (simp add: startsWith_def)
  then show ?thesis
    using assms(1,2)
    by (simp add: handleAuthCheck_cases takeWhile_no_blank [OF assms(3)]
        example_introspect_fresh split: sum.splits)
qed

theorem local_token_patient_witness:
  "startsWith ''Bearer user-token'' ''Bearer ''
   \<and> introspect example_pcm fresh_state
        (takeWhile (\<lambda>c. c \<noteq> CHR '' '') (drop 7 ''Bearer user-token''))
      = (Response example_introspection, fresh_state,
         [Introspection_request ''https://pcm-core:3000/introspect'' ''fresh'' ''user-token''])
   \<and> in_active example_introspection
   \<and> in_patient example_introspection = Some (''sys'' @ ''|'' @ ''123'')
   \<and> CHR ''|'' \<notin> set ''sys'' \<and> CHR ''|'' \<notin> set ''123''
   \<and> in_iat example_introspection = Some 1000
   \<and> (\<exists>p. handleAuthCheck the_platform example_pcm fresh_state (Some ''Bearer user-token'')
            = (Authorized p, fresh_state,
               [Introspection_request ''https://pcm-core:3000/introspect'' ''fresh'' ''user-token''])
          \<and> lp_patient p = ''Patient/'' @ sha256_hex the_platform ''123'')
   \<and> in_patient (example_introspection\<lparr>in_patient := None\<rparr>) = None
   \<and> handleAuthCheck the_platform example_pcm fresh_state (Some ''Bearer anonymous-token'')
      = (Unauthorized ''Unauthorized'', fresh_state,
         [Introspection_request ''https://pcm-core:3000/introspect'' ''fresh'' ''anonymous-token''])"
proof -
  have h: "startsWith ''Bearer user-token'' ''Bearer ''"
    "startsWith ''Bearer anonymous-token'' ''Bearer ''"
    by (simp_all add: startsWith_def)
  have a: "introspect example_pcm fresh_state
        (takeWhile (\<lambda>c. c \<noteq> CHR '' '') (drop 7 ''Bearer user-token'')) =
     (Response example_introspection, fresh_state,
      [Introspection_request ''https://pcm-core:3000/introspect'' ''fresh'' ''user-token''])"
    and b: "introspect example_pcm fresh_state
        (takeWhile (\<lambda>c. c \<noteq> CHR '' '') (drop 7 ''Bearer anonymous-token'')) =
     (Response (example_introspection\<lparr>in_patient := None\<rparr>), fresh_state,
      [Introspection_request ''https://pcm-core:3000/introspect'' ''fresh'' ''anonymous-token''])"
    by (simp_all add: example_introspect_fresh example_calls)
  have act: "in_active example_introspection"
    "in_active (example_introspection\<lparr>in_patient := None\<rparr>)"
    "in_patient example_introspection = Some (''sys'' @ ''|'' @ ''123'')"
    "in_iat example_introspection = Some 1000"
    "in_patient (example_introspection\<lparr>in_patient := None\<rparr>) = None"
    by (simp_all add: example_introspection_def)
  from local_token_patient [OF h(1) a act(1), of "''sys|123''" 1000 the_platform "''sys''" "''123''"]
    local_token_patient [OF h(2) b act(2), of "''sys|123''" 1000 the_platform "''sys''" "''123''"]
  show ?thesis
    using h(1) a act by simp
qed

text \<open>
  C6, as stated, fails, in two ways. The \<open>patient\<close> of the introspection answer is
  \<open>sys|12|34\<close>, of the form \<open>system|value\<close> with the value \<open>12|34\<close>, and the \<open>patient\<close> of
  the local token is the digest of \<open>12\<close>, not of the part after the \<open>|\<close>. And the answer
  carries the patient \<open>sys|123\<close> and no \<open>iat\<close>: the adapter answers 401 and mints no
  token.
\<close>

theorem local_token_second_separator_counterexample:
  "in_active (example_introspection\<lparr>in_patient := Some ''sys|12|34''\<rparr>)
   \<and> in_patient (example_introspection\<lparr>in_patient := Some ''sys|12|34''\<rparr>)
       = Some (''sys'' @ ''|'' @ ''12|34'')
   \<and> handleAuthCheck the_platform example_pcm fresh_state (Some ''Bearer piped-token'')
      = (Authorized (example_localToken\<lparr>lp_patient := ''Patient/hex:12''\<rparr>), fresh_state,
         [Introspection_request ''https://pcm-core:3000/introspect'' ''fresh'' ''piped-token''])
   \<and> sha256_hex the_platform ''12'' = ''hex:12''
   \<and> sha256_hex the_platform ''12|34'' = ''hex:12|34''
   \<and> in_active (example_introspection\<lparr>in_iat := None\<rparr>)
   \<and> in_patient (example_introspection\<lparr>in_iat := None\<rparr>) = Some (''sys'' @ ''|'' @ ''123'')
   \<and> handleAuthCheck the_platform example_pcm fresh_state (Some ''Bearer undated-token'')
      = (Unauthorized ''Unauthorized'', fresh_state,
         [Introspection_request ''https://pcm-core:3000/introspect'' ''fresh'' ''undated-token''])"
proof -
  have act: "in_active (example_introspection\<lparr>in_patient := Some ''sys|12|34''\<rparr>)"
    "in_active (example_introspection\<lparr>in_iat := None\<rparr>)"
    "in_patient (example_introspection\<lparr>in_iat := None\<rparr>) = Some (''sys'' @ ''|'' @ ''123'')"
    "sha256_hex the_platform ''12'' = ''hex:12''"
    "sha256_hex the_platform ''12|34'' = ''hex:12|34''"
    by (simp_all add: example_introspection_def the_platform_def example_platform_def)
  show ?thesis
    using example_auth_check [OF example_calls(3) act(1), simplified]
      example_auth_check [OF example_calls(4) act(2), simplified]
    by (simp add: act example_mapIdentity)
qed

lemma getSmartConfiguration_calls:
  "introspection_requests (snd (snd (getSmartConfiguration E s))) = []
   \<and> token_requests (snd (snd (getSmartConfiguration E s))) = []"
  by (simp add: getSmartConfiguration_def introspection_requests_def token_requests_def
      split: option.splits http_result.splits)

lemma getIntrospectionToken_calls:
  "introspection_requests (snd (snd (getIntrospectionToken E s))) = []
   \<and> length (token_requests (snd (snd (getIntrospectionToken E s)))) \<le> 1"
  using getSmartConfiguration_calls [of E s]
  by (auto simp: getIntrospectionToken_def introspection_requests_def token_requests_def
      split: option.splits http_result.splits prod.splits)

lemma introspect_calls:
  "length (introspection_requests (snd (snd (introspect E s tk)))) \<le> 1
   \<and> length (token_requests (snd (snd (introspect E s tk)))) \<le> 1"
proof (cases "getIntrospectionToken E s")
  case (fields res s1 calls)
  note tok = getIntrospectionToken_calls [of E s, unfolded fields, simplified]
  show ?thesis
  proof (cases res)
    case (Response t)
    obtain config s2 calls2 where c: "getSmartConfiguration E s1 = (config, s2, calls2)"
      by (cases "getSmartConfiguration E s1") auto
    from getSmartConfiguration_calls [of E s1, unfolded c, simplified] tok
    show ?thesis
      using fields Response c
      by (simp add: introspect_def introspection_requests_def token_requests_def)
  next
    case (Http_error n)
    then show ?thesis using fields tok by (simp add: introspect_def)
  next
    case Network_error
    then show ?thesis using fields tok by (simp add: introspect_def)
  qed
qed

lemma handleAuthCheck_calls:
  "length (introspection_requests (snd (snd (handleAuthCheck P E s h)))) \<le> 1
   \<and> length (token_requests (snd (snd (handleAuthCheck P E s h)))) \<le> 1"
proof (cases "\<exists>x. h = Some x \<and> startsWith x ''Bearer ''")
  case False
  then show ?thesis
    by (auto simp: handleAuthCheck_cases introspection_requests_def token_requests_def
        split: option.splits)
next
  case True
  then obtain x where x: "h = Some x" "startsWith x ''Bearer ''" by blast
  define tk where "tk = takeWhile (\<lambda>c. c \<noteq> CHR '' '') (drop 7 x)"
  obtain res s' calls where i: "introspect E s tk = (res, s', calls)"
    by (cases "introspect E s tk") auto
  from introspect_calls [of E s tk] i
  have "length (introspection_requests calls) \<le> 1 \<and> length (token_requests calls) \<le> 1"
    by simp
  then show ?thesis
    using x i unfolding tk_def
    by (auto simp: handleAuthCheck_cases split: http_result.splits sum.splits)
qed

text \<open>
  A cached access token that is the empty string is requested again, as an absent
  one is.
\<close>

lemma empty_token_requested_again:
  assumes "introspectionToken s = Some []"
  shows "fst (getIntrospectionToken E s)
           = fst (getIntrospectionToken E (s\<lparr>introspectionToken := None\<rparr>))
         \<and> snd (snd (getIntrospectionToken E s))
           = snd (snd (getIntrospectionToken E (s\<lparr>introspectionToken := None\<rparr>)))
         \<and> token_requests (snd (snd (getIntrospectionToken E s))) \<noteq> []"
  using assms
  by (simp add: getIntrospectionToken_def getSmartConfiguration_def truthy_def
      token_requests_def split: option.splits http_result.splits)

text \<open>
  A failed discovery request is no error of the auth check: with a cached access
  token, the introspection request goes to the configured endpoint.
\<close>

lemma introspect_undiscovered:
  assumes "introspectionToken s = Some a" and "a \<noteq> []"
    and "smartConfig s = None" and "discovery E = Http_error n"
  shows "introspect E s tk =
     (introspect_call E (PCM_AUTH_URL @ ''/introspect'') a tk, s,
      [Discovery_request, Introspection_request (PCM_AUTH_URL @ ''/introspect'') a tk])"
  using assms
  by (simp add: introspect_def getIntrospectionToken_def getSmartConfiguration_def truthy_def
      template_def)

text \<open>
  C8, as amended. When the token request or the introspection request of an auth
  check fails with the status 401 or 403, the adapter invalidates its cached access
  token and answers 401 to its caller without a retry: every auth check makes at most
  one token request and at most one introspection request. The new access token is
  obtained by a later auth check. A discovery request that fails, with 401 or 403 as
  with another status, ends no auth check and invalidates nothing: the configured
  endpoints are used, and with a cached access token the auth check goes on to its
  introspection request, whose answer decides.
\<close>

theorem auth_check_does_not_retry:
  "length (introspection_requests (snd (snd (handleAuthCheck P E s h)))) \<le> 1
   \<and> length (token_requests (snd (snd (handleAuthCheck P E s h)))) \<le> 1
   \<and> (startsWith b ''Bearer ''
        \<and> fst (introspect E s (takeWhile (\<lambda>c. c \<noteq> CHR '' '') (drop 7 b))) = Http_error n
        \<and> (n = 401 \<or> n = 403)
        \<longrightarrow> fst (handleAuthCheck P E s (Some b)) = Unauthorized ''Unauthorized''
            \<and> introspectionToken (fst (snd (handleAuthCheck P E s (Some b)))) = None
            \<and> snd (snd (handleAuthCheck P E s (Some b)))
                = snd (snd (introspect E s (takeWhile (\<lambda>c. c \<noteq> CHR '' '') (drop 7 b)))))
   \<and> (smartConfig s = None \<and> discovery E = Http_error n
        \<longrightarrow> getSmartConfiguration E s =
              (\<lparr>token_endpoint = PCM_AUTH_URL @ ''/token'',
                introspection_endpoint = PCM_AUTH_URL @ ''/introspect''\<rparr>, s, [Discovery_request]))
   \<and> (startsWith b ''Bearer '' \<and> introspectionToken s = Some a \<and> a \<noteq> []
        \<and> smartConfig s = None \<and> discovery E = Http_error n
        \<longrightarrow> handleAuthCheck P E s (Some b) =
              (case introspect_call E (PCM_AUTH_URL @ ''/introspect'') a
                      (takeWhile (\<lambda>c. c \<noteq> CHR '' '') (drop 7 b)) of
                 Response r \<Rightarrow>
                   if \<not> in_active r then Unauthorized ''Token Inactive''
                   else (case mapIdentity P r of
                           Inl e \<Rightarrow> Unauthorized ''Unauthorized''
                         | Inr localToken \<Rightarrow> Authorized localToken)
               | _ \<Rightarrow> Unauthorized ''Unauthorized'',
               case introspect_call E (PCM_AUTH_URL @ ''/introspect'') a
                      (takeWhile (\<lambda>c. c \<noteq> CHR '' '') (drop 7 b)) of
                 Http_error k \<Rightarrow> if k = 401 \<or> k = 403 then s\<lparr>introspectionToken := None\<rparr> else s
               | _ \<Rightarrow> s,
               [Discovery_request,
                Introspection_request (PCM_AUTH_URL @ ''/introspect'') a
                  (takeWhile (\<lambda>c. c \<noteq> CHR '' '') (drop 7 b))]))"
proof -
  let ?tk = "takeWhile (\<lambda>c. c \<noteq> CHR '' '') (drop 7 b)"
  have failed: "fst (handleAuthCheck P E s (Some b)) = Unauthorized ''Unauthorized''
            \<and> introspectionToken (fst (snd (handleAuthCheck P E s (Some b)))) = None
            \<and> snd (snd (handleAuthCheck P E s (Some b))) = snd (snd (introspect E s ?tk))"
    if sp: "startsWith b ''Bearer ''" and err: "fst (introspect E s ?tk) = Http_error n"
      and st: "n = 401 \<or> n = 403"
  proof -
    obtain s' calls where "introspect E s ?tk = (Http_error n, s', calls)"
      using err by (cases "introspect E s ?tk") auto
    then show ?thesis
      using sp st by (auto simp: handleAuthCheck_cases)
  qed
  have fallback: "getSmartConfiguration E s =
              (\<lparr>token_endpoint = PCM_AUTH_URL @ ''/token'',
                introspection_endpoint = PCM_AUTH_URL @ ''/introspect''\<rparr>, s, [Discovery_request])"
    if "smartConfig s = None" and "discovery E = Http_error n"
    using that by (simp add: getSmartConfiguration_def)
  have absorbed: "handleAuthCheck P E s (Some b) =
              (case introspect_call E (PCM_AUTH_URL @ ''/introspect'') a ?tk of
                 Response r \<Rightarrow>
                   if \<not> in_active r then Unauthorized ''Token Inactive''
                   else (case mapIdentity P r of
                           Inl e \<Rightarrow> Unauthorized ''Unauthorized''
                         | Inr localToken \<Rightarrow> Authorized localToken)
               | _ \<Rightarrow> Unauthorized ''Unauthorized'',
               case introspect_call E (PCM_AUTH_URL @ ''/introspect'') a ?tk of
                 Http_error k \<Rightarrow> if k = 401 \<or> k = 403 then s\<lparr>introspectionToken := None\<rparr> else s
               | _ \<Rightarrow> s,
               [Discovery_request,
                Introspection_request (PCM_AUTH_URL @ ''/introspect'') a ?tk])"
    if sp: "startsWith b ''Bearer ''" and tok: "introspectionToken s = Some a" "a \<noteq> []"
      and cfg: "smartConfig s = None" "discovery E = Http_error n"
    using sp introspect_undiscovered [OF tok cfg, of ?tk]
    by (simp add: handleAuthCheck_cases split: http_result.splits sum.splits)
  from failed fallback absorbed show ?thesis
    using handleAuthCheck_calls [of P E s h] by blast
qed

theorem auth_check_does_not_retry_witness:
  "startsWith ''Bearer user-token'' ''Bearer ''
   \<and> fst (introspect example_pcm stale_state
        (takeWhile (\<lambda>c. c \<noteq> CHR '' '') (drop 7 ''Bearer user-token''))) = Http_error 401
   \<and> handleAuthCheck the_platform example_pcm stale_state (Some ''Bearer user-token'')
      = (Unauthorized ''Unauthorized'', stale_state\<lparr>introspectionToken := None\<rparr>,
         [Introspection_request ''https://pcm-core:3000/introspect'' ''stale'' ''user-token''])
   \<and> length (introspection_requests (snd (snd (handleAuthCheck the_platform example_pcm
         stale_state (Some ''Bearer user-token'')))))  \<le> 1
   \<and> introspectionToken undiscovered_state = Some ''fresh''
   \<and> smartConfig undiscovered_state = None \<and> discovery undiscoverable_pcm = Http_error 401
   \<and> getSmartConfiguration undiscoverable_pcm undiscovered_state =
       (\<lparr>token_endpoint = ''https://pcm-core:3000/token'',
         introspection_endpoint = ''https://pcm-core:3000/introspect''\<rparr>, undiscovered_state,
        [Discovery_request])"
proof -
  have h: "startsWith ''Bearer user-token'' ''Bearer ''"
    by (simp add: startsWith_def)
  have run: "handleAuthCheck the_platform example_pcm stale_state (Some ''Bearer user-token'')
      = (Unauthorized ''Unauthorized'', stale_state\<lparr>introspectionToken := None\<rparr>,
         [Introspection_request ''https://pcm-core:3000/introspect'' ''stale'' ''user-token''])"
    using h by (simp add: handleAuthCheck_cases example_introspect_stale)
  have und: "introspectionToken undiscovered_state = Some ''fresh''"
    "smartConfig undiscovered_state = None" "discovery undiscoverable_pcm = Http_error 401"
    by (simp_all add: undiscovered_state_def undiscoverable_pcm_def)
  from auth_check_does_not_retry [of the_platform example_pcm stale_state
      "Some ''Bearer user-token''" "''Bearer user-token''" 401]
    auth_check_does_not_retry [of the_platform undiscoverable_pcm undiscovered_state
      "Some ''Bearer user-token''" "''Bearer user-token''" 401 "''fresh''"]
  show ?thesis
    using h run und by (simp add: example_introspect_stale PCM_AUTH_URL_def)
qed

text \<open>
  C8, as stated, fails, in two ways. The cached access token \<open>stale\<close> is refused with
  401 and a new token request would give a token that PCM accepts; the auth check
  makes the one introspection request, no token request and no second introspection
  request, and answers 401. The next auth check obtains the new token and succeeds.
  And the discovery request of an auth check fails with 401: the cached access token
  is kept, nothing is tried again, and the auth check answers 200.
\<close>

theorem auth_check_retry_counterexample:
  "handleAuthCheck the_platform example_pcm stale_state (Some ''Bearer user-token'')
     = (Unauthorized ''Unauthorized'', stale_state\<lparr>introspectionToken := None\<rparr>,
        [Introspection_request ''https://pcm-core:3000/introspect'' ''stale'' ''user-token''])
   \<and> handleAuthCheck the_platform example_pcm (stale_state\<lparr>introspectionToken := None\<rparr>)
        (Some ''Bearer user-token'')
     = (Authorized example_localToken, fresh_state,
        [Token_request ''https://pcm-core:3000/token'' ''https://pcm-core:3000'',
         Introspection_request ''https://pcm-core:3000/introspect'' ''fresh'' ''user-token''])
   \<and> discovery undiscoverable_pcm = Http_error 401
   \<and> handleAuthCheck the_platform undiscoverable_pcm undiscovered_state
        (Some ''Bearer user-token'')
     = (Authorized example_localToken, undiscovered_state,
        [Discovery_request,
         Introspection_request ''https://pcm-core:3000/introspect'' ''fresh'' ''user-token''])"
proof -
  have h: "startsWith ''Bearer user-token'' ''Bearer ''"
    by (simp add: startsWith_def)
  have act: "in_active example_introspection" by (simp add: example_introspection_def)
  have und: "introspectionToken undiscovered_state = Some ''fresh''"
    "smartConfig undiscovered_state = None" "discovery undiscoverable_pcm = Http_error 401"
    "introspect_call undiscoverable_pcm = introspect_call example_pcm"
    by (simp_all add: undiscovered_state_def undiscoverable_pcm_def)
  have "introspect undiscoverable_pcm undiscovered_state ''user-token'' =
     (Response example_introspection, undiscovered_state,
      [Discovery_request,
       Introspection_request ''https://pcm-core:3000/introspect'' ''fresh'' ''user-token''])"
    using introspect_undiscovered [OF und(1) _ und(2,3), of "''user-token''"]
    by (simp add: und(4) PCM_AUTH_URL_def example_calls)
  then show ?thesis
    using h
    by (simp add: handleAuthCheck_cases example_introspect_stale
        example_introspect_empty [of None] truthy_def example_calls
        example_mapIdentity act und(3))
qed

section \<open>Properties of the creation of a HealthcareService\<close>

lemma at_index_append_length [simp]: "at_index (h @ x # xs) (length h) = Some x"
  by (simp add: at_index_def)

lemma at_index_append_Suc [simp]: "at_index (h @ x # y # xs) (Suc (length h)) = Some y"
  by (simp add: at_index_def nth_append)

lemma at_index_append_Suc2 [simp]:
  "at_index (h @ x # y # z # xs) (Suc (Suc (length h))) = Some z"
  by (simp add: at_index_def nth_append)

lemma at_index_Cons_0 [simp]: "at_index (x # xs) 0 = Some x"
  by (simp add: at_index_def)

lemma at_index_Nil [simp]: "at_index [] i = None"
  by (simp add: at_index_def)

lemma update_append_Suc [simp]: "(h @ x # y # xs)[Suc (length h) := v] = h @ x # v # xs"
  by (simp add: list_update_append)

lemma update_append_Suc2 [simp]:
  "(h @ x # y # z # xs)[Suc (Suc (length h)) := v] = h @ x # y # v # xs"
  by (simp add: list_update_append)

lemma canonical_case:
  assumes "\<not> isPcmAdmin st user" and "sb_resourceType body = Some ''HealthcareService''"
    and "organization_id user \<noteq> []" and "sb_meta body = None"
    and "find (\<lambda>e. ex_url e = Some EXT_BASED_ON_CANONICAL) (body_extensions body) = None"
  shows "post_HealthcareService P st user body =
     (Created \<lparr>hs_resourceType = Some ''HealthcareService'', hs_id = Some (instance_id P body),
         hs_name = sb_name body,
         hs_active = Some (case sb_active body of None \<Rightarrow> False | Some b \<Rightarrow> b),
         hs_providedBy = Some (''Organization/'' @ organization_id user),
         hs_identifier = sb_identifier body,
         hs_meta = Some (Suc (Suc (length (heap st)))), hs_extension = Some (length (heap st)),
         hs_address = sb_address body\<rparr>,
      st\<lparr>heap := heap st @ [Ext_array (body_extensions body @ [based_on_extension (canonical_id P body)]),
               Meta_obj (Some [catalog_tag]), Meta_obj (Some [instance_tag])],
         HealthcareService := (HealthcareService st)
           (canonical_id P body \<mapsto>
              \<lparr>hs_resourceType = Some ''HealthcareService'', hs_id = Some (canonical_id P body),
               hs_name = sb_name body, hs_active = Some True, hs_providedBy = None,
               hs_identifier = canonical_identifier P body,
               hs_meta = Some (Suc (length (heap st))),
               hs_extension = map_option (\<lambda>xs. length (heap st)) (sb_extension body),
               hs_address = sb_address body\<rparr>,
            instance_id P body \<mapsto>
              \<lparr>hs_resourceType = Some ''HealthcareService'', hs_id = Some (instance_id P body),
               hs_name = sb_name body,
               hs_active = Some (case sb_active body of None \<Rightarrow> False | Some b \<Rightarrow> b),
               hs_providedBy = Some (''Organization/'' @ organization_id user),
               hs_identifier = sb_identifier body,
               hs_meta = Some (Suc (Suc (length (heap st)))),
               hs_extension = Some (length (heap st)), hs_address = sb_address body\<rparr>)\<rparr>)"
proof (cases "sb_extension body")
  case None
  show ?thesis
  proof (cases "has_identifier body")
    case True
    then show ?thesis
      using assms None
      by (simp add: post_HealthcareService_def parse_body_def tags_of_def alloc_def array_at_def
          create_canonical_def retag_def add_service_def tags_at_def body_extensions_def
          id_or_uuid_def has_identifier_def canonical_id_def instance_id_def
          canonical_identifier_def Let_def
          split: option.splits list.splits)
  next
    case False
    then show ?thesis
      using assms None
      by (simp add: post_HealthcareService_def parse_body_def tags_of_def alloc_def array_at_def
          create_canonical_def retag_def add_service_def tags_at_def body_extensions_def
          id_or_uuid_def has_identifier_def canonical_id_def instance_id_def
          canonical_identifier_def generated_identifier_def Let_def numeral_2_eq_2
          split: option.splits list.splits)
  qed
next
  case (Some xs)
  show ?thesis
  proof (cases "has_identifier body")
    case True
    then show ?thesis
      using assms Some
      by (simp add: post_HealthcareService_def parse_body_def tags_of_def alloc_def array_at_def
          create_canonical_def retag_def add_service_def tags_at_def body_extensions_def
          id_or_uuid_def has_identifier_def canonical_id_def instance_id_def
          canonical_identifier_def Let_def
          split: option.splits list.splits)
  next
    case False
    then show ?thesis
      using assms Some
      by (simp add: post_HealthcareService_def parse_body_def tags_of_def alloc_def array_at_def
          create_canonical_def retag_def add_service_def tags_at_def body_extensions_def
          id_or_uuid_def has_identifier_def canonical_id_def instance_id_def
          canonical_identifier_def generated_identifier_def Let_def numeral_2_eq_2
          split: option.splits list.splits)
  qed
qed


text \<open>
  C10, as amended. For every non-admin \<open>POST /r4/HealthcareService\<close> by a caller with
  an Organization, whose body has the resource type HealthcareService, no \<open>meta\<close>
  member and no based-on-canonical extension, the operation stores two resources
  and changes no other: a canonical copy tagged \<open>catalog\<close>, active and without
  \<open>providedBy\<close>, that keeps the identifiers of the body when it has a first one and
  otherwise carries a generated catalog identifier under the fixed system; and the
  instance, which is the answer, tagged \<open>instance\<close>, with \<open>providedBy\<close> set to the
  caller's Organization, \<open>active\<close> false unless the body sets it, and the based-on
  extension that references the canonical copy after the extensions of the body.
\<close>

theorem instance_creates_canonical:
  assumes "\<not> isPcmAdmin st user" and "sb_resourceType body = Some ''HealthcareService''"
    and "organization_id user \<noteq> []" and "sb_meta body = None"
    and "find (\<lambda>e. ex_url e = Some EXT_BASED_ON_CANONICAL) (body_extensions body) = None"
    and "canonical_id P body \<noteq> instance_id P body"
  shows "(\<exists>c r. fst (post_HealthcareService P st user body) = Created r
           \<and> HealthcareService (snd (post_HealthcareService P st user body)) (canonical_id P body)
               = Some c
           \<and> HealthcareService (snd (post_HealthcareService P st user body)) (instance_id P body)
               = Some r
           \<and> hs_identifier c = canonical_identifier P body
           \<and> hs_active c = Some True \<and> hs_providedBy c = None
           \<and> hs_providedBy r = Some (''Organization/'' @ organization_id user)
           \<and> hs_active r = Some (case sb_active body of None \<Rightarrow> False | Some b \<Rightarrow> b))
         \<and> stored_tags (snd (post_HealthcareService P st user body)) (canonical_id P body)
             = Some [catalog_tag]
         \<and> stored_tags (snd (post_HealthcareService P st user body)) (instance_id P body)
             = Some [instance_tag]
         \<and> stored_extensions (snd (post_HealthcareService P st user body)) (instance_id P body)
             = Some (body_extensions body @ [based_on_extension (canonical_id P body)])
         \<and> (\<forall>j. j \<noteq> canonical_id P body \<and> j \<noteq> instance_id P body
               \<longrightarrow> HealthcareService (snd (post_HealthcareService P st user body)) j
                   = HealthcareService st j)"
  using assms(6)
  unfolding canonical_case [OF assms(1-5)]
  by (simp add: stored_tags_def stored_extensions_def tags_of_def tags_at_def extensions_of_def)

lemma plain_service_ids:
  "canonical_id the_platform plain_service = ''uuid-i''"
  "instance_id the_platform plain_service = ''uuid-ii''"
  "canonical_identifier the_platform plain_service = Some [generated_identifier the_platform]"
  "body_extensions plain_service = []"
  by (simp_all add: canonical_id_def instance_id_def canonical_identifier_def has_identifier_def
      plain_service_def the_platform_def example_platform_def id_or_uuid_def
      body_extensions_def numeral_2_eq_2)

lemma plain_service_request:
  "sb_resourceType plain_service = Some ''HealthcareService''" "organization_id sp_token \<noteq> []"
  "sb_meta plain_service = None"
  "find (\<lambda>e. ex_url e = Some EXT_BASED_ON_CANONICAL) (body_extensions plain_service) = None"
  by (simp_all add: plain_service_def sp_token_def body_extensions_def)

theorem instance_creates_canonical_witness:
  "\<not> isPcmAdmin bootstrap sp_token
   \<and> sb_resourceType plain_service = Some ''HealthcareService''
   \<and> organization_id sp_token \<noteq> [] \<and> sb_meta plain_service = None
   \<and> find (\<lambda>e. ex_url e = Some EXT_BASED_ON_CANONICAL) (body_extensions plain_service) = None
   \<and> canonical_id the_platform plain_service \<noteq> instance_id the_platform plain_service
   \<and> stored_tags (snd (post_HealthcareService the_platform bootstrap sp_token plain_service))
        ''uuid-i'' = Some [catalog_tag]
   \<and> stored_tags (snd (post_HealthcareService the_platform bootstrap sp_token plain_service))
        ''uuid-ii'' = Some [instance_tag]
   \<and> stored_extensions (snd (post_HealthcareService the_platform bootstrap sp_token plain_service))
        ''uuid-ii'' = Some [based_on_extension ''uuid-i'']
   \<and> HealthcareService (snd (post_HealthcareService the_platform bootstrap sp_token plain_service))
        ''service-1'' = Some serviceGP"
proof -
  have distinct: "canonical_id the_platform plain_service \<noteq> instance_id the_platform plain_service"
    by (simp add: plain_service_ids)
  have seeded: "HealthcareService bootstrap ''service-1'' = Some serviceGP"
    by (simp add: bootstrap_def)
  from instance_creates_canonical [OF sp_not_admin(2) plain_service_request distinct]
  show ?thesis
    using sp_not_admin(2) plain_service_request seeded
    by (simp add: plain_service_ids)
qed

text \<open>
  C10, as stated, fails: the body carries an identifier of another system; the
  canonical copy keeps it, and carries no catalog identifier under the fixed system.
\<close>

theorem canonical_without_catalog_identifier_counterexample:
  "\<not> isPcmAdmin bootstrap sp_token
   \<and> \<not> list_ex is_catalog_tag (case sb_meta identified_service of Some (Some ts) \<Rightarrow> ts | _ \<Rightarrow> [])
   \<and> find (\<lambda>e. ex_url e = Some EXT_BASED_ON_CANONICAL) (body_extensions identified_service) = None
   \<and> stored_tags (snd (post_HealthcareService the_platform bootstrap sp_token identified_service))
        ''uuid-'' = Some [catalog_tag]
   \<and> map_option hs_identifier
        (HealthcareService (snd (post_HealthcareService the_platform bootstrap sp_token
           identified_service)) ''uuid-'')
       = Some (Some [\<lparr>id_system = Some ''urn:local'', id_value = Some ''42''\<rparr>])
   \<and> findCatalogIdentifier
        (HealthcareService (snd (post_HealthcareService the_platform bootstrap sp_token
           identified_service)) ''uuid-'') = None"
proof -
  have req: "sb_resourceType identified_service = Some ''HealthcareService''"
    "organization_id sp_token \<noteq> []" "sb_meta identified_service = None"
    "find (\<lambda>e. ex_url e = Some EXT_BASED_ON_CANONICAL) (body_extensions identified_service) = None"
    by (simp_all add: identified_service_def plain_service_def sp_token_def body_extensions_def)
  have ids: "canonical_id the_platform identified_service = ''uuid-''"
    "instance_id the_platform identified_service = ''uuid-i''"
    "canonical_identifier the_platform identified_service
       = Some [\<lparr>id_system = Some ''urn:local'', id_value = Some ''42''\<rparr>]"
    by (simp_all add: canonical_id_def instance_id_def canonical_identifier_def has_identifier_def
        identified_service_def plain_service_def the_platform_def example_platform_def
        id_or_uuid_def)
  show ?thesis
    using sp_not_admin(2) req
    unfolding canonical_case [OF sp_not_admin(2) req, of the_platform]
    by (simp add: ids stored_tags_def tags_of_def tags_at_def findCatalogIdentifier_def
        CATALOG_ID_SYSTEM_def)
qed

text \<open>
  The canonical copy and the instance share the \<open>meta\<close> object of the body: for a
  body with a \<open>meta\<close> member (here tagged \<open>instance\<close>), the tags written for the
  instance replace those written for the canonical copy, and the stored canonical
  copy is tagged \<open>instance\<close>, not \<open>catalog\<close>.
\<close>

lemma canonical_shares_meta_with_instance:
  "stored_tags (snd (post_HealthcareService the_platform bootstrap sp_token tagged_service))
     (canonical_id the_platform tagged_service) = Some [instance_tag]
   \<and> stored_tags (snd (post_HealthcareService the_platform bootstrap sp_token tagged_service))
     (instance_id the_platform tagged_service) = Some [instance_tag]"
proof -
  have ids: "canonical_id the_platform tagged_service = ''uuid-i''"
    "instance_id the_platform tagged_service = ''uuid-ii''"
    by (simp_all add: canonical_id_def instance_id_def has_identifier_def tagged_service_def
        plain_service_def the_platform_def example_platform_def id_or_uuid_def numeral_2_eq_2)
  have tags: "tg_code instance_tag \<noteq> Some META_TAG_CATALOG"
    "tg_code catalog_tag \<noteq> Some META_TAG_INSTANCE"
    "tg_code instance_tag = Some META_TAG_INSTANCE" "tg_code catalog_tag = Some META_TAG_CATALOG"
    "\<not> is_catalog_tag instance_tag"
    by (simp_all add: instance_tag_def catalog_tag_def META_TAG_CATALOG_def META_TAG_INSTANCE_def
        is_catalog_tag_def)
  have uuids: "uuidv4 the_platform 0 = ''uuid-''" "uuidv4 the_platform (Suc 0) = ''uuid-i''"
    "uuidv4 the_platform (Suc (Suc 0)) = ''uuid-ii''"
    by (simp_all add: the_platform_def example_platform_def)
  have caller: "organization_id sp_token = ''org-sp''" by (simp add: sp_token_def)
  have "heap bootstrap = []" by (simp add: bootstrap_def)
  then show ?thesis
    using sp_not_admin(2) tags uuids caller
    unfolding ids
    by (simp add: post_HealthcareService_def parse_body_def tagged_service_def
        plain_service_def tags_of_def alloc_def array_at_def create_canonical_def retag_def
        add_service_def tags_at_def id_or_uuid_def Let_def stored_tags_def at_index_def)
qed

end
